theory Spec2Isabelle
  imports Main "HOL-Library.Word"
begin

unbundle bit_operations_syntax

section \<open>Launchpad: the process-launch library (system/ulib/launchpad/launchpad.c)\<close>

text \<open>
  A shallow embedding of the launchpad. The \<^verbatim>\<open>struct launchpad\<close> is a record; every
  function takes the record and returns it updated, with its C return value. What the
  launchpad does to the outside (closing a handle, writing a message on a channel) is
  appended to a log, the record \<open>world\<close>. What the outside answers (the allocator, the
  kernel, the ELF loader, the loader service) is an argument of the function that asks.
\<close>

subsection \<open>Machine types and constants\<close>

text \<open>
  \<^verbatim>\<open>mx_status_t\<close> and \<^verbatim>\<open>mx_handle_t\<close> are 32-bit signed integers in this
  revision (the code tests \<^verbatim>\<open>vmo < 0\<close> and returns a status where a handle is expected).
  The code only compares and copies them, so they are integers here. \<^verbatim>\<open>size_t\<close> and
  addresses are 64-bit words, with C's wrap-around.
\<close>

type_synonym mx_status_t = int
type_synonym mx_handle_t = int
type_synonym size_t = "64 word"
type_synonym mx_vaddr_t = "64 word"
type_synonym u32 = "32 word"

text \<open>
  Modelled from the spec: the status codes of magenta/errors.h, a header that is not among
  the sources. The spec names them (InvalidArgs, InvalidHandle, OutOfMemory, BadState,
  BufferTooSmall); success is zero and every error code is negative.
\<close>

definition NO_ERROR :: mx_status_t where "NO_ERROR = 0"
definition ERR_INTERNAL :: mx_status_t where "ERR_INTERNAL = - 1"
definition ERR_NO_MEMORY :: mx_status_t where "ERR_NO_MEMORY = - 4"
definition ERR_CALL_FAILED :: mx_status_t where "ERR_CALL_FAILED = - 5"
definition ERR_INVALID_ARGS :: mx_status_t where "ERR_INVALID_ARGS = - 10"
definition ERR_BAD_HANDLE :: mx_status_t where "ERR_BAD_HANDLE = - 11"
definition ERR_BUFFER_TOO_SMALL :: mx_status_t where "ERR_BUFFER_TOO_SMALL = - 15"
definition ERR_BAD_STATE :: mx_status_t where "ERR_BAD_STATE = - 20"

definition MX_HANDLE_INVALID :: mx_handle_t where "MX_HANDLE_INVALID = 0"

text \<open>
  Modelled from the spec: the handle-info tags of magenta/processargs.h, the page size and
  the default stack size of magenta/stack.h, headers that are not among the sources. The
  launchpad stores the tags beside the handles and forwards them in the bootstrap message.
\<close>

definition MX_HND_TYPE_PROC_SELF :: u32 where "MX_HND_TYPE_PROC_SELF = 1"
definition MX_HND_TYPE_THREAD_SELF :: u32 where "MX_HND_TYPE_THREAD_SELF = 2"
definition MX_HND_TYPE_JOB :: u32 where "MX_HND_TYPE_JOB = 3"
definition MX_HND_TYPE_VMAR_ROOT :: u32 where "MX_HND_TYPE_VMAR_ROOT = 4"
definition MX_HND_TYPE_LOADER_SVC :: u32 where "MX_HND_TYPE_LOADER_SVC = 16"
definition MX_HND_TYPE_VDSO_VMO :: u32 where "MX_HND_TYPE_VDSO_VMO = 17"
definition MX_HND_TYPE_STACK_VMO :: u32 where "MX_HND_TYPE_STACK_VMO = 19"
definition MX_HND_TYPE_EXEC_VMO :: u32 where "MX_HND_TYPE_EXEC_VMO = 20"

definition PAGE_SIZE :: size_t where "PAGE_SIZE = 4096"
definition MAGENTA_DEFAULT_STACK_SIZE :: size_t where "MAGENTA_DEFAULT_STACK_SIZE = 262144"

subsection \<open>The launchpad structure\<close>

text \<open>
  A buffer pointer (\<^verbatim>\<open>char* args\<close>) is \<open>None\<close> for NULL and \<open>Some\<close> of the bytes
  otherwise. The two arrays of the handle table are the lists of their cells: the length of
  \<open>handles\<close> is the number of cells of the allocated block. The two special handles are the
  fields \<open>loader_svc\<close> (index \<^verbatim>\<open>HND_LOADER_SVC\<close>) and \<open>exec_vmo\<close> (index
  \<^verbatim>\<open>HND_EXEC_VMO\<close>) of the array \<^verbatim>\<open>special_handles\<close>.
\<close>

record launchpad =
  argc :: u32
  envc :: u32
  args :: "string option"
  args_len :: size_t
  env :: "string option"
  env_len :: size_t
  handles :: "mx_handle_t list"
  handles_info :: "u32 list"
  handle_count :: size_t
  handle_alloc :: size_t
  errmsg :: string
  error :: mx_status_t
  entry :: mx_vaddr_t
  base :: mx_vaddr_t
  vdso_base :: mx_vaddr_t
  stack_size :: size_t
  loader_svc :: mx_handle_t
  exec_vmo :: mx_handle_t
  loader_message :: bool

text \<open>The structure as \<^verbatim>\<open>calloc\<close> returns it: every byte zero.\<close>

definition zeroed_launchpad :: launchpad where
  "zeroed_launchpad =
     \<lparr>argc = 0, envc = 0, args = None, args_len = 0, env = None, env_len = 0,
      handles = [], handles_info = [], handle_count = 0, handle_alloc = 0,
      errmsg = [], error = 0, entry = 0, base = 0, vdso_base = 0, stack_size = 0,
      loader_svc = 0, exec_vmo = 0, loader_message = False\<rparr>"

text \<open>
  The structure as \<^verbatim>\<open>launchpad_create_with_process\<close> initialises it when
  \<^verbatim>\<open>calloc\<close> has succeeded, before the two reserved handles are added.
\<close>

definition new_launchpad :: launchpad where
  "new_launchpad =
     zeroed_launchpad\<lparr>errmsg := ''no error'', stack_size := MAGENTA_DEFAULT_STACK_SIZE\<rparr>"

text \<open>The static \<^verbatim>\<open>invalid_launchpad\<close>: zero but for the message and the error.\<close>

definition invalid_launchpad :: launchpad where
  "invalid_launchpad =
     zeroed_launchpad\<lparr>errmsg := ''create: could not allocate launchpad_t'',
                      error := ERR_NO_MEMORY\<rparr>"

subsection \<open>The outside world\<close>

text \<open>
  The generic bootstrap message and the loader message, as the launchpad fills them: the
  header \<^verbatim>\<open>mx_proc_args_t\<close>, the handle-info array, the bytes of the argument and
  environment strings that were copied in, and the size of the whole buffer.
\<close>

record mx_proc_args =
  handle_info_off :: u32
  args_off :: u32
  args_num :: u32
  environ_off :: u32
  environ_num :: u32

record message =
  msg_header :: mx_proc_args
  msg_handle_info :: "u32 list"
  msg_args :: string
  msg_env :: string
  msg_size :: size_t

text \<open>A call of \<^verbatim>\<open>mx_process_start\<close> or \<^verbatim>\<open>mx_thread_start\<close> that succeeded.\<close>

datatype start_call =
  Process_start mx_handle_t mx_handle_t mx_vaddr_t mx_vaddr_t mx_handle_t mx_vaddr_t
| Thread_start mx_handle_t mx_vaddr_t mx_vaddr_t "64 word" mx_vaddr_t

text \<open>
  The log of effects: the handles given to \<^verbatim>\<open>mx_handle_close\<close> in call order, the file
  descriptors given to \<^verbatim>\<open>close\<close>, the \<^verbatim>\<open>mx_channel_write\<close> calls that succeeded
  (channel, message, handles transferred), the requests made to the loader service
  (channel, transaction id, opcode, payload), the threads started, the two variables of the
  library that every launchpad shares (\<^verbatim>\<open>next_txid\<close> and \<^verbatim>\<open>vdso_vmo\<close>), and whether
  the program has left defined behaviour (a store or a read outside an allocated block, a
  read of an uninitialised variable). Once \<open>ub\<close> is set the C program has no meaning; the
  model goes on with the cells it has.
\<close>

record world =
  closed_handles :: "mx_handle_t list"
  closed_fds :: "int list"
  sent :: "(mx_handle_t \<times> message \<times> mx_handle_t list) list"
  rpc_requests :: "(mx_handle_t \<times> u32 \<times> u32 \<times> string) list"
  started :: "start_call list"
  next_txid :: nat
  vdso_vmo :: mx_handle_t
  ub :: bool

definition world0 :: world where
  "world0 = \<lparr>closed_handles = [], closed_fds = [], sent = [], rpc_requests = [],
             started = [], next_txid = 0, vdso_vmo = 0, ub = False\<rparr>"

definition mx_handle_close :: "mx_handle_t \<Rightarrow> world \<Rightarrow> world" where
  "mx_handle_close h w = w\<lparr>closed_handles := closed_handles w @ [h]\<rparr>"

definition undefined_behaviour :: "bool \<Rightarrow> world \<Rightarrow> world" where
  "undefined_behaviour b w = w\<lparr>ub := (ub w \<or> b)\<rparr>"

subsection \<open>The sticky error\<close>

definition lp_error :: "launchpad \<Rightarrow> mx_status_t \<Rightarrow> string \<Rightarrow> mx_status_t \<times> launchpad" where
  "lp_error lp e msg =
     (let lp' = (if error lp = NO_ERROR then lp\<lparr>error := e, errmsg := msg\<rparr> else lp)
      in (error lp', lp'))"

definition launchpad_get_status :: "launchpad \<Rightarrow> mx_status_t" where
  "launchpad_get_status lp = error lp"

definition launchpad_abort :: "launchpad \<Rightarrow> mx_status_t \<Rightarrow> string \<Rightarrow> launchpad" where
  "launchpad_abort lp e msg = snd (lp_error lp (if e < 0 then e else ERR_INTERNAL) msg)"

definition launchpad_error_message :: "launchpad \<Rightarrow> string" where
  "launchpad_error_message lp = errmsg lp"

subsection \<open>The handle table\<close>

text \<open>
  \<^verbatim>\<open>close_handles\<close>: closes the first \<open>count\<close> cells that are not the invalid handle.
  Reading past the end of the array is undefined behaviour.
\<close>

definition close_handles :: "mx_handle_t list \<Rightarrow> nat \<Rightarrow> world \<Rightarrow> world" where
  "close_handles hs count w =
     undefined_behaviour (length hs < count)
       (fold mx_handle_close (filter (\<lambda>h. h \<noteq> MX_HANDLE_INVALID) (take count hs)) w)"

text \<open>
  The allocator's answer to a \<^verbatim>\<open>realloc\<close>: \<open>None\<close> when it returns NULL, otherwise the
  block is resized, and \<open>junk i\<close> is what the fresh cell \<open>i\<close> happens to hold.
\<close>

type_synonym 'a realloc = "(nat \<Rightarrow> 'a) option"

definition realloc_cells :: "'a list \<Rightarrow> nat \<Rightarrow> (nat \<Rightarrow> 'a) \<Rightarrow> 'a list" where
  "realloc_cells old n junk = map (\<lambda>i. if i < length old then old ! i else junk i) [0..<n]"

text \<open>The number of 4-byte cells of a block of \<^verbatim>\<open>alloc * sizeof(handles[0])\<close> bytes.\<close>

definition cells_of :: "size_t \<Rightarrow> nat" where
  "cells_of alloc = unat (alloc * 4) div 4"

definition more_handles ::
  "launchpad \<Rightarrow> size_t \<Rightarrow> mx_handle_t realloc \<Rightarrow> u32 realloc \<Rightarrow> mx_status_t \<times> launchpad" where
  "more_handles lp n r_handles r_info =
     (if error lp \<noteq> 0 then (error lp, lp)
      else if handle_alloc lp - handle_count lp < n then
        (let alloc = (if handle_alloc lp = 0 then 8 else handle_alloc lp * 2) in
         case r_handles of
           None \<Rightarrow> lp_error lp ERR_NO_MEMORY ''out of memory for handle table''
         | Some junk_h \<Rightarrow>
             (let lp1 = lp\<lparr>handles := realloc_cells (handles lp) (cells_of alloc) junk_h\<rparr> in
              case r_info of
                None \<Rightarrow> lp_error lp1 ERR_NO_MEMORY ''out of memory for handle table''
              | Some junk_i \<Rightarrow>
                  (NO_ERROR,
                   lp1\<lparr>handles_info := realloc_cells (handles_info lp1) (cells_of alloc) junk_i,
                       handle_alloc := alloc\<rparr>)))
      else (NO_ERROR, lp))"

text \<open>
  A store of \<open>vs\<close> at cell \<open>off\<close> of a block (\<^verbatim>\<open>memcpy\<close>, or one assignment): the
  second component tells whether the store left the block. Such a store is undefined
  behaviour in C; the model then raises the flag and says nothing of the cells, which it
  leaves as they were.
\<close>

definition store_cells :: "'a list \<Rightarrow> nat \<Rightarrow> 'a list \<Rightarrow> 'a list \<times> bool" where
  "store_cells blk off vs =
     (if off + length vs \<le> length blk
      then (take off blk @ vs @ drop (off + length vs) blk, False)
      else (blk, vs \<noteq> []))"

definition launchpad_add_handle ::
  "launchpad \<Rightarrow> world \<Rightarrow> mx_handle_t \<Rightarrow> u32 \<Rightarrow> mx_handle_t realloc \<Rightarrow> u32 realloc
     \<Rightarrow> mx_status_t \<times> launchpad \<times> world" where
  "launchpad_add_handle lp w h idt r_handles r_info =
     (if h = MX_HANDLE_INVALID then
        (let (s, lp') = lp_error lp ERR_BAD_HANDLE ''added invalid handle'' in (s, lp', w))
      else
        (let (status, lp1) = more_handles lp 1 r_handles r_info in
         if status = NO_ERROR then
           (let (hs, out1) = store_cells (handles lp1) (unat (handle_count lp1)) [h];
                (infos, out2) = store_cells (handles_info lp1) (unat (handle_count lp1)) [idt]
            in (status,
                lp1\<lparr>handles := hs, handles_info := infos, handle_count := handle_count lp1 + 1\<rparr>,
                undefined_behaviour (out1 \<or> out2) w))
         else (status, lp1, mx_handle_close h w)))"

text \<open>
  \<^verbatim>\<open>launchpad_add_handles\<close>: \<open>n\<close> is the count the caller gives, \<open>h\<close> and
  \<open>idt\<close> (the source's \<^verbatim>\<open>id\<close>) are the caller's arrays. Reading \<open>n\<close> cells of an array that has fewer is undefined behaviour.
\<close>

definition launchpad_add_handles ::
  "launchpad \<Rightarrow> world \<Rightarrow> size_t \<Rightarrow> mx_handle_t list \<Rightarrow> u32 list
     \<Rightarrow> mx_handle_t realloc \<Rightarrow> u32 realloc \<Rightarrow> mx_status_t \<times> launchpad \<times> world" where
  "launchpad_add_handles lp w n h idt r_handles r_info =
     (let (status, lp1) = more_handles lp n r_handles r_info;
          short = (length h < unat n \<or> length idt < unat n) in
      if status = NO_ERROR then
        (let (hs, out1) = store_cells (handles lp1) (unat (handle_count lp1)) (take (unat n) h);
             (infos, out2) = store_cells (handles_info lp1) (unat (handle_count lp1)) (take (unat n) idt);
             lp2 = lp1\<lparr>handles := hs, handles_info := infos, handle_count := handle_count lp1 + n\<rparr>;
             w2 = undefined_behaviour (short \<or> out1 \<or> out2) w
         in if MX_HANDLE_INVALID \<in> set (take (unat n) h) then
              (let (s, lp3) = lp_error lp2 ERR_BAD_HANDLE ''added invalid handle'' in (s, lp3, w2))
            else (status, lp2, w2))
      else (status, lp1, undefined_behaviour short (fold mx_handle_close (take (unat n) h) w)))"

subsection \<open>Argument and environment strings\<close>

text \<open>
  A C string is the bytes before the first NUL. \<^verbatim>\<open>strlen\<close> counts them and
  \<^verbatim>\<open>stpcpy\<close> copies them with the terminator.
\<close>

definition c_str :: "string \<Rightarrow> string" where
  "c_str s = takeWhile (\<lambda>c. c \<noteq> CHR 0x00) s"

definition strlen :: "string \<Rightarrow> size_t" where
  "strlen s = of_nat (length (c_str s))"

text \<open>The first loop: \<^verbatim>\<open>total += strlen(argv[i]) + 1\<close>, in \<^verbatim>\<open>size_t\<close>.\<close>

fun strings_total :: "string list \<Rightarrow> size_t" where
  "strings_total [] = 0"
| "strings_total (s # ss) = strlen s + 1 + strings_total ss"

text \<open>The second loop: \<^verbatim>\<open>p = stpcpy(p, argv[i]) + 1\<close>; the bytes it writes from \<open>buffer\<close> on.\<close>

fun strings_copy :: "string list \<Rightarrow> string" where
  "strings_copy [] = []"
| "strings_copy (s # ss) = c_str s @ CHR 0x00 # strings_copy ss"

text \<open>
  \<^verbatim>\<open>launchpad_set_args\<close> reads the caller's strings twice, once to measure and once to
  copy, and compares the two passes (``the strings changed in parallel''). So the model
  takes what each pass reads: \<open>argv\<close> for the first loop and \<open>argv_copy\<close> for the second; a
  caller that leaves its strings alone gives the same list twice. \<open>malloc_ok\<close> is the
  allocator's answer. A copy that is longer than the measured total runs past the end of
  the buffer before the comparison is made.
\<close>

definition launchpad_set_args ::
  "launchpad \<Rightarrow> world \<Rightarrow> int \<Rightarrow> string list \<Rightarrow> string list \<Rightarrow> bool
     \<Rightarrow> mx_status_t \<times> launchpad \<times> world" where
  "launchpad_set_args lp w argc_in argv argv_copy malloc_ok =
     (if error lp \<noteq> 0 then (error lp, lp, w)
      else if argc_in < 0 then
        (let (s, lp') = lp_error lp ERR_INVALID_ARGS ''arguments: negative argc'' in (s, lp', w))
      else
        (let n = nat argc_in;
             total = strings_total (take n argv);
             w1 = undefined_behaviour (length argv < n) w
         in if total > 0 then
              (if \<not> malloc_ok then
                 (let (s, lp') = lp_error lp ERR_NO_MEMORY ''arguments: out of memory''
                  in (s, lp', w1))
               else
                 (let copied = strings_copy (take n argv_copy);
                      w2 = undefined_behaviour
                             (length argv_copy < n \<or> unat total < length copied) w1
                  in if (of_nat (length copied) :: size_t) \<noteq> total then
                       (let (s, lp') = lp_error lp ERR_INVALID_ARGS ''arguments: trickery''
                        in (s, lp', w2))
                     else
                       (NO_ERROR,
                        lp\<lparr>argc := word_of_int argc_in, args := Some copied, args_len := total\<rparr>,
                        w2)))
            else
              (NO_ERROR,
               lp\<lparr>argc := word_of_int argc_in, args := None, args_len := total\<rparr>, w1)))"

text \<open>
  \<^verbatim>\<open>launchpad_set_environ\<close>: \<open>envp\<close> is \<open>None\<close> for NULL, otherwise the strings before
  the terminating NULL pointer, again as each of the two loops reads them.
\<close>

definition launchpad_set_environ ::
  "launchpad \<Rightarrow> world \<Rightarrow> string list option \<Rightarrow> string list option \<Rightarrow> bool
     \<Rightarrow> mx_status_t \<times> launchpad \<times> world" where
  "launchpad_set_environ lp w envp envp_copy malloc_ok =
     (if error lp \<noteq> 0 then (error lp, lp, w)
      else
        (let strs = (case envp of None \<Rightarrow> [] | Some ss \<Rightarrow> ss);
             total = strings_total strs;
             envc_new = (of_nat (length strs) :: u32)
         in if total > 0 then
              (if \<not> malloc_ok then
                 (let (s, lp') = lp_error lp ERR_NO_MEMORY ''environ: out of memory''
                  in (s, lp', w))
               else
                 (let copied = strings_copy (case envp_copy of None \<Rightarrow> [] | Some ss \<Rightarrow> ss);
                      w2 = undefined_behaviour (unat total < length copied) w
                  in if (of_nat (length copied) :: size_t) \<noteq> total then
                       (let (s, lp') = lp_error lp ERR_INVALID_ARGS ''environ: trickery''
                        in (s, lp', w2))
                     else
                       (NO_ERROR,
                        lp\<lparr>envc := envc_new, env := Some copied, env_len := total\<rparr>, w2)))
            else (NO_ERROR, lp\<lparr>envc := envc_new, env := None, env_len := total\<rparr>, w)))"

text \<open>Reading a blob back: cut the buffer at every NUL.\<close>

fun split_nul :: "string \<Rightarrow> string list" where
  "split_nul [] = []"
| "split_nul (c # cs) =
     c_str (c # cs) # split_nul (drop (Suc (length (c_str (c # cs)))) (c # cs))"

subsection \<open>The stack size\<close>

definition SIZE_MAX :: size_t where "SIZE_MAX = - 1"

definition launchpad_set_stack_size :: "launchpad \<Rightarrow> size_t \<Rightarrow> size_t \<times> launchpad" where
  "launchpad_set_stack_size lp new_size =
     (let old_size = stack_size lp;
          rounded =
            (if new_size \<ge> (SIZE_MAX AND - PAGE_SIZE) then SIZE_MAX AND - PAGE_SIZE
             else if new_size > 0 then (new_size + PAGE_SIZE - 1) AND - PAGE_SIZE
             else new_size)
      in (old_size, if error lp = NO_ERROR then lp\<lparr>stack_size := rounded\<rparr> else lp))"

subsection \<open>Reading the two reserved slots\<close>

text \<open>
  \<^verbatim>\<open>lp_proc(lp)\<close> is \<^verbatim>\<open>lp->handles[0]\<close> and \<^verbatim>\<open>lp_vmar(lp)\<close> is
  \<^verbatim>\<open>lp->handles[1]\<close>. A read outside the block (the table of the static launchpad is
  NULL) is undefined behaviour: the second component says so.
\<close>

definition load_cell :: "mx_handle_t list \<Rightarrow> nat \<Rightarrow> mx_handle_t \<times> bool" where
  "load_cell blk i = (if i < length blk then (blk ! i, False) else (MX_HANDLE_INVALID, True))"

definition lp_proc :: "launchpad \<Rightarrow> mx_handle_t \<times> bool" where
  "lp_proc lp = load_cell (handles lp) 0"

definition lp_vmar :: "launchpad \<Rightarrow> mx_handle_t \<times> bool" where
  "lp_vmar lp = load_cell (handles lp) 1"

subsection \<open>The ELF loader (elf.h) as the launchpad calls it\<close>

text \<open>
  The loader is outside the sources; its answers are a record of functions of the call's
  arguments. \<open>'e\<close> is \<^verbatim>\<open>elf_load_info_t*\<close>. \<^verbatim>\<open>elf_load_start\<close> answers a status and
  the value it leaves in \<^verbatim>\<open>*infop\<close>; \<^verbatim>\<open>elf_load_get_interp\<close> a status and the
  interpreter's path with its length (\<open>None\<close> for NULL); \<^verbatim>\<open>elf_load_finish\<close> a status and
  what it stores through \<^verbatim>\<open>base\<close> and \<^verbatim>\<open>entry\<close> (\<open>None\<close> when it stores nothing).
\<close>

record 'e elf_loader =
  elf_load_start :: "mx_handle_t \<Rightarrow> mx_status_t \<times> 'e"
  elf_load_get_interp :: "'e \<Rightarrow> mx_handle_t \<Rightarrow> mx_status_t \<times> (string \<times> size_t) option"
  elf_load_finish ::
    "mx_handle_t \<Rightarrow> 'e \<Rightarrow> mx_handle_t \<Rightarrow> mx_status_t \<times> (mx_vaddr_t \<times> mx_vaddr_t) option"
  elf_load_get_stack_size :: "'e \<Rightarrow> size_t"

definition store_base_entry :: "launchpad \<Rightarrow> (mx_vaddr_t \<times> mx_vaddr_t) option \<Rightarrow> launchpad" where
  "store_base_entry lp out =
     (case out of None \<Rightarrow> lp | Some (b, e) \<Rightarrow> lp\<lparr>base := b, entry := e\<rparr>)"

definition check_elf_stack_size :: "launchpad \<Rightarrow> 'e elf_loader \<Rightarrow> 'e \<Rightarrow> launchpad" where
  "check_elf_stack_size lp ld elf =
     (let elf_stack_size = elf_load_get_stack_size ld elf in
      if elf_stack_size > 0 then snd (launchpad_set_stack_size lp elf_stack_size) else lp)"

text \<open>
  \<^verbatim>\<open>launchpad_elf_load_basic\<close> goes on to \<^verbatim>\<open>elf_load_finish\<close> when
  \<^verbatim>\<open>elf_load_start\<close> has failed, with the pointer the failed call left.
\<close>

definition launchpad_elf_load_basic ::
  "launchpad \<Rightarrow> world \<Rightarrow> mx_handle_t \<Rightarrow> 'e elf_loader \<Rightarrow> mx_status_t \<times> launchpad \<times> world" where
  "launchpad_elf_load_basic lp w vmo ld =
     (if vmo < 0 then
        (let (s, lp') = lp_error lp vmo ''elf_load: negative vmo'' in (s, lp', w))
      else if vmo = MX_HANDLE_INVALID then
        (let (s, lp') = lp_error lp ERR_INVALID_ARGS ''elf_load: invalid vmo'' in (s, lp', w))
      else if error lp \<noteq> 0 then (error lp, lp, mx_handle_close vmo w)
      else
        (let (st1, elf) = elf_load_start ld vmo;
             lp1 = (if st1 \<noteq> 0 then snd (lp_error lp st1 ''elf_load: elf_load_start() failed'')
                    else lp);
             (vmar, out) = lp_vmar lp1;
             (st2, stored) = elf_load_finish ld vmar elf vmo;
             lp2 = store_base_entry lp1 stored;
             lp3 = (if st2 \<noteq> 0 then snd (lp_error lp2 st2 ''elf_load: elf_load_finish() failed'')
                    else lp2);
             lp4 = check_elf_stack_size lp3 ld elf;
             lp5 = (if st2 = NO_ERROR then lp4\<lparr>loader_message := False\<rparr> else lp4)
         in (error lp5, lp5, mx_handle_close vmo (undefined_behaviour (st1 \<noteq> 0 \<or> out) w))))"

text \<open>
  \<^verbatim>\<open>launchpad_elf_load_extra\<close> stores through the caller's \<^verbatim>\<open>base\<close> and
  \<^verbatim>\<open>entry\<close>: the last component is what \<^verbatim>\<open>elf_load_finish\<close> stored there.
\<close>

definition launchpad_elf_load_extra ::
  "launchpad \<Rightarrow> world \<Rightarrow> mx_handle_t \<Rightarrow> 'e elf_loader
     \<Rightarrow> mx_status_t \<times> launchpad \<times> world \<times> (mx_vaddr_t \<times> mx_vaddr_t) option" where
  "launchpad_elf_load_extra lp w vmo ld =
     (if error lp \<noteq> 0 then (error lp, lp, w, None)
      else if vmo < 0 then
        (let (s, lp') = lp_error lp vmo ''elf_load_extra: negative vmo'' in (s, lp', w, None))
      else if vmo = MX_HANDLE_INVALID then
        (let (s, lp') = lp_error lp ERR_INVALID_ARGS ''elf_load_extra: invalid vmo''
         in (s, lp', w, None))
      else
        (let (st1, elf) = elf_load_start ld vmo;
             lp1 = (if st1 \<noteq> 0
                    then snd (lp_error lp st1 ''elf_load_extra: elf_load_start() failed'')
                    else lp);
             (vmar, out) = lp_vmar lp1;
             (st2, stored) = elf_load_finish ld vmar elf vmo;
             lp2 = (if st2 \<noteq> 0
                    then snd (lp_error lp1 st2 ''elf_load_extra: elf_load_finish() failed'')
                    else lp1)
         in (error lp2, lp2, undefined_behaviour (st1 \<noteq> 0 \<or> out) w, stored)))"

subsection \<open>The loader-service RPC\<close>

text \<open>
  Modelled from the spec: the message header and the opcodes of mxio/loader-service.h, a
  header that is not among the sources. The header is five 32-bit fields (transaction id,
  opcode, result/arg, two reserved words); the reply's opcode is the status opcode.
\<close>

definition LOADER_SVC_MSG_MAX :: nat where "LOADER_SVC_MSG_MAX = 1024"
definition sizeof_mx_loader_svc_msg_t :: nat where "sizeof_mx_loader_svc_msg_t = 20"
definition LOADER_SVC_OP_STATUS :: u32 where "LOADER_SVC_OP_STATUS = 0"
definition LOADER_SVC_OP_LOAD_OBJECT :: u32 where "LOADER_SVC_OP_LOAD_OBJECT = 2"

text \<open>
  What \<^verbatim>\<open>mx_channel_call\<close> answers: its status, the status of the read half, the size of
  the reply, the opcode and the arg of the reply's header, and the handle that came with
  the reply (\<^verbatim>\<open>MX_HANDLE_INVALID\<close> when none did).
\<close>

record call_reply =
  call_status :: mx_status_t
  read_status :: mx_status_t
  reply_size :: u32
  reply_opcode :: u32
  reply_arg :: int
  reply_handle :: mx_handle_t

definition loader_svc_rpc ::
  "world \<Rightarrow> mx_handle_t \<Rightarrow> u32 \<Rightarrow> string \<Rightarrow> size_t \<Rightarrow> call_reply \<Rightarrow> mx_handle_t \<times> world" where
  "loader_svc_rpc w svc opcode data len r =
     (if unat len \<ge> LOADER_SVC_MSG_MAX - sizeof_mx_loader_svc_msg_t then (ERR_BUFFER_TOO_SMALL, w)
      else
        (let w1 = undefined_behaviour (length data < unat len)
                    (w\<lparr>rpc_requests :=
                          rpc_requests w @ [(svc, of_nat (next_txid w), opcode, take (unat len) data)],
                       next_txid := next_txid w + 1\<rparr>) in
         if call_status r \<noteq> NO_ERROR then
           (if call_status r = ERR_CALL_FAILED then read_status r else call_status r, w1)
         else if unat (reply_size r) \<noteq> sizeof_mx_loader_svc_msg_t then
           (ERR_BAD_STATE, mx_handle_close (reply_handle r) w1)
         else if reply_opcode r \<noteq> LOADER_SVC_OP_STATUS then
           (ERR_BAD_STATE, mx_handle_close (reply_handle r) w1)
         else if reply_arg r \<noteq> NO_ERROR then
           (if reply_handle r \<noteq> MX_HANDLE_INVALID then
              (ERR_BAD_STATE, mx_handle_close (reply_handle r) w1)
            else if reply_arg r > 0 then
              (ERR_BAD_STATE, mx_handle_close (reply_handle r) w1)
            else (reply_arg r, w1))
         else (reply_handle r, w1)))"

text \<open>\<open>svc_new\<close> is what \<^verbatim>\<open>mxio_loader_service(NULL, NULL)\<close> answers.\<close>

definition setup_loader_svc :: "launchpad \<Rightarrow> mx_handle_t \<Rightarrow> mx_status_t \<times> launchpad" where
  "setup_loader_svc lp svc_new =
     (if loader_svc lp \<noteq> MX_HANDLE_INVALID then (NO_ERROR, lp)
      else if svc_new < 0 then (svc_new, lp)
      else (NO_ERROR, lp\<lparr>loader_svc := svc_new\<rparr>))"

definition handle_interp ::
  "launchpad \<Rightarrow> world \<Rightarrow> mx_handle_t \<Rightarrow> string \<Rightarrow> size_t \<Rightarrow> 'e elf_loader \<Rightarrow> mx_handle_t
     \<Rightarrow> call_reply \<Rightarrow> mx_status_t \<times> launchpad \<times> world" where
  "handle_interp lp w vmo interp interp_len ld svc_new r =
     (let (st0, lp1) = setup_loader_svc lp svc_new in
      if st0 \<noteq> NO_ERROR then (st0, lp1, w)
      else
        (let (interp_vmo, w1) =
               loader_svc_rpc w (loader_svc lp1) LOADER_SVC_OP_LOAD_OBJECT interp interp_len r
         in if interp_vmo < 0 then (interp_vmo, lp1, w1)
            else
              (let (st1, elf) = elf_load_start ld interp_vmo;
                   (vmar, out) = lp_vmar lp1;
                   (st2, stored) = (if st1 = NO_ERROR then elf_load_finish ld vmar elf interp_vmo
                                    else (st1, None));
                   lp2 = store_base_entry lp1 stored;
                   w2 = mx_handle_close interp_vmo
                          (undefined_behaviour (st1 = NO_ERROR \<and> out) w1)
               in if st2 = NO_ERROR then
                    (st2,
                     lp2\<lparr>exec_vmo := vmo, loader_message := True\<rparr>,
                     (if exec_vmo lp2 \<noteq> MX_HANDLE_INVALID then mx_handle_close (exec_vmo lp2) w2
                      else w2))
                  else (st2, lp2, w2))))"

definition launchpad_elf_load ::
  "launchpad \<Rightarrow> world \<Rightarrow> mx_handle_t \<Rightarrow> 'e elf_loader \<Rightarrow> mx_handle_t \<Rightarrow> call_reply
     \<Rightarrow> mx_status_t \<times> launchpad \<times> world" where
  "launchpad_elf_load lp w vmo ld svc_new r =
     (if vmo < 0 then
        (let (s, lp') = lp_error lp vmo ''elf_load: negative vmo'' in (s, lp', w))
      else if vmo = MX_HANDLE_INVALID then
        (let (s, lp') = lp_error lp ERR_INVALID_ARGS ''elf_load: invalid vmo'' in (s, lp', w))
      else if error lp \<noteq> 0 then (error lp, lp, mx_handle_close vmo w)
      else
        (let (st1, elf) = elf_load_start ld vmo in
         if st1 \<noteq> NO_ERROR then
           (let lp1 = snd (lp_error lp st1 ''elf_load: elf_load_start() failed'')
            in (error lp1, lp1, mx_handle_close vmo w))
         else
           (let (st2, interp) = elf_load_get_interp ld elf vmo in
            if st2 \<noteq> NO_ERROR then
              (let lp1 = snd (lp_error lp st2 ''elf_load: get_interp() failed'')
               in (error lp1, lp1, mx_handle_close vmo w))
            else
              (case interp of
                 None \<Rightarrow>
                   (let (vmar, out) = lp_vmar lp;
                        (st3, stored) = elf_load_finish ld vmar elf vmo;
                        lp1 = store_base_entry lp stored;
                        lp2 = (if st3 \<noteq> NO_ERROR
                               then snd (lp_error lp1 st3 ''elf_load: elf_load_finish() failed'')
                               else lp1\<lparr>loader_message := False\<rparr>);
                        lp3 = (if st3 = NO_ERROR then check_elf_stack_size lp2 ld elf else lp2)
                    in (error lp3, lp3, mx_handle_close vmo (undefined_behaviour out w)))
               | Some (path, path_len) \<Rightarrow>
                   (let (st3, lp1, w1) = handle_interp lp w vmo path path_len ld svc_new r;
                        lp2 = (if st3 \<noteq> 0
                               then snd (lp_error lp1 st3 ''elf_load: handle_interp failed'')
                               else lp1);
                        vmo' = (if st3 \<noteq> 0 then vmo else MX_HANDLE_INVALID);
                        lp3 = (if st3 = NO_ERROR then check_elf_stack_size lp2 ld elf else lp2)
                    in (error lp3, lp3, if vmo' \<noteq> 0 then mx_handle_close vmo' w1 else w1))))))"

subsection \<open>The vDSO, pipes and the loader-service setters\<close>

text \<open>
  Modelled from the spec: the macros \<^verbatim>\<open>MX_HND_INFO\<close> and \<^verbatim>\<open>MX_HND_INFO_TYPE\<close> of
  magenta/processargs.h and the bound \<^verbatim>\<open>MAX_MXIO_FD\<close> of mxio/limits.h, headers that are
  not among the sources: a handle-info word is a 16-bit type and a 16-bit argument.
\<close>

definition MX_HND_INFO :: "u32 \<Rightarrow> u32 \<Rightarrow> u32" where
  "MX_HND_INFO t a = (t AND 0xFFFF) OR push_bit 16 (a AND 0xFFFF)"

definition MX_HND_INFO_TYPE :: "u32 \<Rightarrow> u32" where
  "MX_HND_INFO_TYPE n = n AND 0xFFFF"

definition MAX_MXIO_FD :: int where "MAX_MXIO_FD = 256"

text \<open>\<open>startup\<close> is what \<^verbatim>\<open>mxio_get_startup_handle\<close> answers when it is asked.\<close>

definition vdso_get_vmo :: "world \<Rightarrow> mx_handle_t \<Rightarrow> mx_handle_t \<times> world" where
  "vdso_get_vmo w startup =
     (if vdso_vmo w = MX_HANDLE_INVALID then (startup, w\<lparr>vdso_vmo := startup\<rparr>)
      else (vdso_vmo w, w))"

text \<open>\<open>dup\<close> is the answer of \<^verbatim>\<open>mx_handle_duplicate\<close>: its status and the new handle.\<close>

definition launchpad_get_vdso_vmo ::
  "world \<Rightarrow> mx_handle_t \<Rightarrow> mx_status_t \<times> mx_handle_t \<Rightarrow> mx_handle_t \<times> world" where
  "launchpad_get_vdso_vmo w startup dup =
     (let (v, w1) = vdso_get_vmo w startup; (status, result) = dup
      in (if status < 0 then status else result, w1))"

definition launchpad_set_vdso_vmo :: "world \<Rightarrow> mx_handle_t \<Rightarrow> mx_handle_t \<times> world" where
  "launchpad_set_vdso_vmo w new_vdso_vmo = (vdso_vmo w, w\<lparr>vdso_vmo := new_vdso_vmo\<rparr>)"

definition launchpad_add_vdso_vmo ::
  "launchpad \<Rightarrow> world \<Rightarrow> mx_handle_t \<Rightarrow> mx_status_t \<times> mx_handle_t
     \<Rightarrow> mx_handle_t realloc \<Rightarrow> u32 realloc \<Rightarrow> mx_status_t \<times> launchpad \<times> world" where
  "launchpad_add_vdso_vmo lp w startup dup r_handles r_info =
     (if error lp \<noteq> 0 then (error lp, lp, w)
      else
        (let (vdso, w1) = launchpad_get_vdso_vmo w startup dup in
         if vdso < 0 then
           (let (s, lp') = lp_error lp vdso ''add_vdso_vmo: get_vdso_vmo failed'' in (s, lp', w1))
         else
           (let (status, lp1, w2) =
                  launchpad_add_handle lp w1 vdso (MX_HND_INFO MX_HND_TYPE_VDSO_VMO 0)
                    r_handles r_info
            in (status, lp1, if status \<noteq> NO_ERROR then mx_handle_close vdso w2 else w2))))"

definition launchpad_load_vdso ::
  "launchpad \<Rightarrow> world \<Rightarrow> mx_handle_t \<Rightarrow> 'e elf_loader \<Rightarrow> mx_handle_t
     \<Rightarrow> mx_status_t \<times> launchpad \<times> world" where
  "launchpad_load_vdso lp w vmo ld startup =
     (let (vmo', w1) = (if vmo \<noteq> MX_HANDLE_INVALID then (vmo, w) else vdso_get_vmo w startup);
          (status, lp1, w2, stored) = launchpad_elf_load_extra lp w1 vmo' ld
      in (status,
          (case stored of None \<Rightarrow> lp1 | Some (b, e) \<Rightarrow> lp1\<lparr>vdso_base := b\<rparr>),
          w2))"

text \<open>
  \<open>pipe\<close> is the answer of \<^verbatim>\<open>mxio_pipe_half\<close>: its result (a file descriptor, or a
  negative status), the handle and the handle-info word. The last component is what is
  stored through \<^verbatim>\<open>fd_out\<close>.
\<close>

definition launchpad_add_pipe ::
  "launchpad \<Rightarrow> world \<Rightarrow> int \<Rightarrow> int \<times> mx_handle_t \<times> u32 \<Rightarrow> mx_handle_t realloc \<Rightarrow> u32 realloc
     \<Rightarrow> mx_status_t \<times> launchpad \<times> world \<times> int option" where
  "launchpad_add_pipe lp w target_fd pipe r_handles r_info =
     (if error lp \<noteq> 0 then (error lp, lp, w, None)
      else if target_fd < 0 \<or> target_fd \<ge> MAX_MXIO_FD then
        (let (s, lp') = lp_error lp ERR_INVALID_ARGS ''add_pipe: invalid target fd''
         in (s, lp', w, None))
      else
        (let (fd, handle, idt) = pipe in
         if fd < 0 then
           (let (s, lp') = lp_error lp fd ''add_pipe: failed to create pipe'' in (s, lp', w, None))
         else
           (let (status, lp1, w1) =
                  launchpad_add_handle lp w handle
                    (MX_HND_INFO (MX_HND_INFO_TYPE idt) (word_of_int target_fd)) r_handles r_info
            in if status < 0 then
                 (status, lp1, mx_handle_close handle (w1\<lparr>closed_fds := closed_fds w1 @ [fd]\<rparr>),
                  None)
               else (NO_ERROR, lp1, w1, Some fd))))"

definition launchpad_get_process_handle :: "launchpad \<Rightarrow> mx_handle_t \<times> bool" where
  "launchpad_get_process_handle lp = lp_proc lp"

definition launchpad_get_root_vmar_handle :: "launchpad \<Rightarrow> mx_handle_t \<times> bool" where
  "launchpad_get_root_vmar_handle lp = lp_vmar lp"

definition launchpad_get_entry_address :: "launchpad \<Rightarrow> mx_status_t \<times> mx_vaddr_t option" where
  "launchpad_get_entry_address lp =
     (if entry lp = 0 then (ERR_BAD_STATE, None) else (NO_ERROR, Some (entry lp)))"

definition launchpad_get_base_address :: "launchpad \<Rightarrow> mx_status_t \<times> mx_vaddr_t option" where
  "launchpad_get_base_address lp =
     (if base lp = 0 then (ERR_BAD_STATE, None) else (NO_ERROR, Some (base lp)))"

definition launchpad_send_loader_message :: "launchpad \<Rightarrow> bool \<Rightarrow> bool \<times> launchpad" where
  "launchpad_send_loader_message lp do_send =
     (loader_message lp, if error lp = 0 then lp\<lparr>loader_message := do_send\<rparr> else lp)"

definition launchpad_use_loader_service ::
  "launchpad \<Rightarrow> world \<Rightarrow> mx_handle_t \<Rightarrow> mx_handle_t \<times> launchpad \<times> world" where
  "launchpad_use_loader_service lp w svc =
     (if error lp \<noteq> 0 then (error lp, lp, mx_handle_close svc w)
      else (loader_svc lp, lp\<lparr>loader_svc := svc\<rparr>, w))"

subsection \<open>The bootstrap messages\<close>

text \<open>
  Modelled from the spec: the size of \<^verbatim>\<open>mx_proc_args_t\<close> (magenta/processargs.h, not
  among the sources): seven 32-bit fields, namely protocol, version, handle-info offset,
  argument offset and count, environment offset and count.
\<close>

definition sizeof_mx_proc_args_t :: size_t where "sizeof_mx_proc_args_t = 28"

definition HND_SPECIAL_COUNT :: nat where "HND_SPECIAL_COUNT = 2"
definition HND_LOADER_COUNT :: nat where "HND_LOADER_COUNT = 3"

text \<open>The first \<open>len\<close> bytes of a buffer, as \<^verbatim>\<open>memcpy\<close> reads them.\<close>

definition buffer_bytes :: "string option \<Rightarrow> size_t \<Rightarrow> string" where
  "buffer_bytes buf len = take (unat len) (case buf of None \<Rightarrow> [] | Some bs \<Rightarrow> bs)"

definition buffer_short :: "string option \<Rightarrow> size_t \<Rightarrow> bool" where
  "buffer_short buf len = (length (case buf of None \<Rightarrow> [] | Some bs \<Rightarrow> bs) < unat len)"

text \<open>
  \<^verbatim>\<open>build_message\<close>: \<open>None\<close> when \<^verbatim>\<open>malloc\<close> fails, otherwise the message; its
  \<open>msg_size\<close> is what the function stores through \<^verbatim>\<open>total_size\<close>.
\<close>

definition build_message_total :: "launchpad \<Rightarrow> size_t" where
  "build_message_total lp =
     sizeof_mx_proc_args_t + handle_count lp * 4 + args_len lp + env_len lp"

definition build_message :: "launchpad \<Rightarrow> bool \<Rightarrow> message option" where
  "build_message lp malloc_ok =
     (if \<not> malloc_ok then None
      else
        (let info_off = sizeof_mx_proc_args_t;
             after_info = info_off + handle_count lp * 4;
             after_args = (if argc lp > 0 then after_info + args_len lp else after_info)
         in Some
              \<lparr>msg_header =
                 \<lparr>handle_info_off = ucast info_off,
                  args_off = (if argc lp > 0 then ucast after_info else 0),
                  args_num = (if argc lp > 0 then argc lp else 0),
                  environ_off = (if envc lp > 0 then ucast after_args else 0),
                  environ_num = (if envc lp > 0 then envc lp else 0)\<rparr>,
               msg_handle_info = take (unat (handle_count lp)) (handles_info lp),
               msg_args = (if argc lp > 0 then buffer_bytes (args lp) (args_len lp) else []),
               msg_env = (if envc lp > 0 then buffer_bytes (env lp) (env_len lp) else []),
               msg_size = build_message_total lp\<rparr>))"

text \<open>Whether \<^verbatim>\<open>build_message\<close> reads past the end of an array of the launchpad.\<close>

definition build_message_overrun :: "launchpad \<Rightarrow> bool" where
  "build_message_overrun lp =
     (length (handles_info lp) < unat (handle_count lp)
      \<or> (argc lp > 0 \<and> buffer_short (args lp) (args_len lp))
      \<or> (envc lp > 0 \<and> buffer_short (env lp) (env_len lp)))"

text \<open>
  What the outside answers to \<^verbatim>\<open>send_loader_message\<close>, call by call: \<^verbatim>\<open>malloc\<close>,
  the three \<^verbatim>\<open>mx_handle_duplicate\<close> calls and \<^verbatim>\<open>mx_channel_write\<close>.
\<close>

record loader_msg_answers =
  lm_malloc_ok :: bool
  lm_dup_proc :: "mx_status_t \<times> mx_handle_t"
  lm_dup_vmar :: "mx_status_t \<times> mx_handle_t"
  lm_dup_thread :: "mx_status_t \<times> mx_handle_t"
  lm_write :: mx_status_t

definition sizeof_loader_msg :: size_t where
  "sizeof_loader_msg = sizeof_mx_proc_args_t + 4 * of_nat (HND_SPECIAL_COUNT + HND_LOADER_COUNT)"

definition send_loader_message ::
  "launchpad \<Rightarrow> world \<Rightarrow> mx_handle_t \<Rightarrow> mx_handle_t \<Rightarrow> loader_msg_answers
     \<Rightarrow> mx_status_t \<times> launchpad \<times> world" where
  "send_loader_message lp w first_thread tochannel k =
     (if \<not> lm_malloc_ok k then (ERR_NO_MEMORY, lp, w)
      else
        (let specials =
               (if loader_svc lp \<noteq> MX_HANDLE_INVALID
                then [(loader_svc lp, MX_HND_TYPE_LOADER_SVC)] else [])
               @ (if exec_vmo lp \<noteq> MX_HANDLE_INVALID
                  then [(exec_vmo lp, MX_HND_TYPE_EXEC_VMO)] else []);
             (proc_h, out0) = lp_proc lp;
             (st_p, proc) = lm_dup_proc k
         in if st_p \<noteq> NO_ERROR then (st_p, lp, undefined_behaviour out0 w)
            else
              (let (vmar_h, out1) = lp_vmar lp;
                   (st_v, vmar) = lm_dup_vmar k;
                   w1 = undefined_behaviour (out0 \<or> out1) w
               in if st_v \<noteq> NO_ERROR then (st_v, lp, mx_handle_close proc w1)
                  else
                    (let (st_t, thread) = lm_dup_thread k in
                     if st_t \<noteq> NO_ERROR then
                       (st_t, lp, mx_handle_close vmar (mx_handle_close proc w1))
                     else
                       (let hs = map fst specials @ [proc, vmar, thread];
                            msg =
                              \<lparr>msg_header =
                                 \<lparr>handle_info_off = ucast sizeof_mx_proc_args_t,
                                  args_off = (if argc lp > 0 then ucast sizeof_loader_msg else 0),
                                  args_num = (if argc lp > 0 then argc lp else 0),
                                  environ_off =
                                    (if envc lp > 0 then ucast (sizeof_loader_msg + args_len lp)
                                     else 0),
                                  environ_num = (if envc lp > 0 then envc lp else 0)\<rparr>,
                               msg_handle_info =
                                 map snd specials
                                 @ [MX_HND_TYPE_PROC_SELF, MX_HND_TYPE_VMAR_ROOT,
                                    MX_HND_TYPE_THREAD_SELF],
                               msg_args =
                                 (if argc lp > 0 then buffer_bytes (args lp) (args_len lp)
                                  else []),
                               msg_env =
                                 (if envc lp > 0 then buffer_bytes (env lp) (env_len lp)
                                  else []),
                               msg_size = sizeof_loader_msg + args_len lp + env_len lp\<rparr>;
                            w2 = undefined_behaviour
                                   ((argc lp > 0 \<and> buffer_short (args lp) (args_len lp))
                                    \<or> (envc lp > 0 \<and> buffer_short (env lp) (env_len lp))) w1
                        in if lm_write k = NO_ERROR then
                             (NO_ERROR,
                              lp\<lparr>loader_svc := MX_HANDLE_INVALID, exec_vmo := MX_HANDLE_INVALID,
                                 loader_message := False\<rparr>,
                              w2\<lparr>sent := sent w2 @ [(tochannel, msg, hs)]\<rparr>)
                           else
                             (lm_write k, lp,
                              mx_handle_close proc
                                (mx_handle_close vmar (mx_handle_close thread w2))))))))"

subsection \<open>Starting the process\<close>

text \<open>
  What the outside answers to \<^verbatim>\<open>prepare_start\<close>, call by call, in the order of the
  source: \<^verbatim>\<open>mx_vmo_create\<close>, \<^verbatim>\<open>mx_vmar_map\<close>, the stack pointer that
  \<^verbatim>\<open>compute_initial_stack_pointer\<close> (magenta/stack.h, architecture-defined) gives, the
  allocator when the stack VMO is added to the table, \<^verbatim>\<open>mx_thread_create\<close>,
  \<^verbatim>\<open>mx_handle_duplicate\<close> of the thread, the allocator when the copy is added, the
  answers to \<^verbatim>\<open>send_loader_message\<close>, \<^verbatim>\<open>malloc\<close> in \<^verbatim>\<open>build_message\<close>, and
  \<^verbatim>\<open>mx_channel_write\<close>.
\<close>

record start_answers =
  vmo_create :: "mx_status_t \<times> mx_handle_t"
  vmar_map :: "mx_status_t \<times> mx_vaddr_t"
  initial_sp :: "mx_vaddr_t \<Rightarrow> size_t \<Rightarrow> mx_vaddr_t"
  stack_realloc :: "mx_handle_t realloc \<times> u32 realloc"
  thread_create :: "mx_status_t \<times> mx_handle_t"
  thread_dup :: "mx_status_t \<times> mx_handle_t"
  thread_realloc :: "mx_handle_t realloc \<times> u32 realloc"
  loader_msg :: loader_msg_answers
  build_malloc_ok :: bool
  channel_write :: mx_status_t

text \<open>
  The first part of \<^verbatim>\<open>prepare_start\<close>: the stack. The result is \<open>Inl\<close> of what the
  function returns when it stops here, or \<open>Inr\<close> of the state to go on with; both carry
  the value left in \<^verbatim>\<open>*sp\<close>.
\<close>

definition prepare_stack ::
  "launchpad \<Rightarrow> world \<Rightarrow> start_answers
     \<Rightarrow> (mx_status_t \<times> launchpad \<times> world \<times> mx_vaddr_t) + (mx_vaddr_t \<times> launchpad \<times> world)" where
  "prepare_stack lp w k =
     (if stack_size lp > 0 then
        (let (st0, stack_vmo) = vmo_create k in
         if st0 < 0 then
           (let (s, lp') = lp_error lp st0 ''cannot create stack vmo'' in Inl (s, lp', w, 0))
         else
           (let (vmar_h, out) = lp_vmar lp;
                (st1, stack_base) = vmar_map k;
                w0 = undefined_behaviour out w;
                (sp, st2, lp1, w1) =
                  (if st1 = NO_ERROR then
                     (let (s, lp', w') =
                            launchpad_add_handle lp w0 stack_vmo MX_HND_TYPE_STACK_VMO
                              (fst (stack_realloc k)) (snd (stack_realloc k))
                      in (initial_sp k stack_base (stack_size lp), s, lp', w'))
                   else (0, st1, lp, w0))
            in if st2 \<noteq> NO_ERROR then
                 (let (s, lp') = lp_error lp1 st2 ''cannot map stack vmo''
                  in Inl (s, lp', mx_handle_close stack_vmo w1, sp))
               else Inr (sp, lp1, w1)))
      else Inr (0, lp, w))"

text \<open>
  The second part: the initial thread. \<open>Inl\<close> of what the function returns when it stops
  here, with the value left in \<^verbatim>\<open>*thread\<close> if \<^verbatim>\<open>mx_thread_create\<close> stored one, or
  \<open>Inr\<close> of the thread handle and the state to go on with.
\<close>

definition prepare_thread ::
  "launchpad \<Rightarrow> world \<Rightarrow> start_answers
     \<Rightarrow> (mx_status_t \<times> launchpad \<times> world \<times> mx_handle_t option)
        + (mx_handle_t \<times> launchpad \<times> world)" where
  "prepare_thread lp w k =
     (let (proc_h, out) = lp_proc lp;
          (st0, thread) = thread_create k;
          w0 = undefined_behaviour out w
      in if st0 < 0 then
           (let (s, lp') = lp_error lp st0 ''cannot create initial thread''
            in Inl (s, lp', w0, None))
         else
           (let (st1, thread_copy) = thread_dup k in
            if st1 < 0 then
              (let (s, lp') = lp_error lp st1 ''cannot duplicate thread handle''
               in Inl (s, lp', mx_handle_close thread w0, Some thread))
            else
              (let (st2, lp1, w1) =
                     launchpad_add_handle lp w0 thread_copy MX_HND_TYPE_THREAD_SELF
                       (fst (thread_realloc k)) (snd (thread_realloc k))
               in if st2 \<noteq> NO_ERROR then Inl (st2, lp1, mx_handle_close thread w1, Some thread)
                  else Inr (thread, lp1, w1))))"

text \<open>
  The last part: the generic bootstrap message, the stack-fit check and the write. On a
  successful write every slot below \<open>handle_count\<close> is set to the invalid handle and the
  count to zero.
\<close>

definition send_bootstrap ::
  "launchpad \<Rightarrow> world \<Rightarrow> mx_handle_t \<Rightarrow> mx_handle_t \<Rightarrow> start_answers
     \<Rightarrow> mx_status_t \<times> launchpad \<times> world" where
  "send_bootstrap lp w thread to_child k =
     (case build_message lp (build_malloc_ok k) of
        None \<Rightarrow>
          (let (s, lp') = lp_error lp ERR_NO_MEMORY ''out of memory assembling procargs message''
           in (s, lp', mx_handle_close thread w))
      | Some msg \<Rightarrow>
          (let w0 = undefined_behaviour (build_message_overrun lp) w in
           if msg_size msg > stack_size lp div 2 then
             (let (s, lp') = lp_error lp ERR_BUFFER_TOO_SMALL ''procargs message is too large''
              in (s, lp', mx_handle_close thread w0))
           else if channel_write k = NO_ERROR then
             (let n = unat (handle_count lp);
                  w1 = undefined_behaviour (length (handles lp) < n)
                         (w0\<lparr>sent := sent w0 @ [(to_child, msg, take n (handles lp))]\<rparr>)
              in (NO_ERROR,
                  lp\<lparr>handles := replicate (min n (length (handles lp))) MX_HANDLE_INVALID
                                  @ drop n (handles lp),
                     handle_count := 0\<rparr>,
                  w1))
           else
             (let (s, lp') = lp_error lp (channel_write k) ''failed to write procargs message''
              in (s, lp', mx_handle_close thread w0))))"

text \<open>
  \<^verbatim>\<open>prepare_start\<close>: the result is the status, the launchpad, the world, and what the
  function stored through \<^verbatim>\<open>thread\<close> and \<^verbatim>\<open>sp\<close> (\<open>None\<close> when it stored nothing).
\<close>

definition prepare_start ::
  "launchpad \<Rightarrow> world \<Rightarrow> mx_handle_t \<Rightarrow> start_answers
     \<Rightarrow> mx_status_t \<times> launchpad \<times> world \<times> mx_handle_t option \<times> mx_vaddr_t option" where
  "prepare_start lp w to_child k =
     (if entry lp = 0 then (ERR_BAD_STATE, lp, w, None, None)
      else
        (case prepare_stack lp w k of
           Inl (s, lp1, w1, sp) \<Rightarrow> (s, lp1, w1, None, Some sp)
         | Inr (sp, lp1, w1) \<Rightarrow>
             (case prepare_thread lp1 w1 k of
                Inl (s, lp2, w2, thr) \<Rightarrow> (s, lp2, w2, thr, Some sp)
              | Inr (thread, lp2, w2) \<Rightarrow>
                  (let (st, lp3, w3) =
                         (if loader_message lp2
                          then send_loader_message lp2 w2 thread to_child (loader_msg k)
                          else (NO_ERROR, lp2, w2))
                   in if st \<noteq> NO_ERROR then
                        (let (s, lp') = lp_error lp3 st ''failed to send loader message''
                         in (s, lp', mx_handle_close thread w3, Some thread, Some sp))
                      else
                        (let (s, lp4, w4) = send_bootstrap lp3 w3 thread to_child k
                         in (s, lp4, w4, Some thread, Some sp))))))"

text \<open>
  What the outside answers to \<^verbatim>\<open>launchpad_start\<close>: \<^verbatim>\<open>mx_handle_duplicate\<close> of the
  process, \<^verbatim>\<open>mx_channel_create\<close> (status and the two ends), the answers to
  \<^verbatim>\<open>prepare_start\<close>, and \<^verbatim>\<open>mx_process_start\<close>.
\<close>

record launch_answers =
  proc_dup :: "mx_status_t \<times> mx_handle_t"
  channel_create :: "mx_status_t \<times> mx_handle_t \<times> mx_handle_t"
  prepare :: start_answers
  process_start :: mx_status_t

definition launchpad_start ::
  "launchpad \<Rightarrow> world \<Rightarrow> launch_answers \<Rightarrow> mx_handle_t \<times> launchpad \<times> world" where
  "launchpad_start lp w k =
     (if error lp \<noteq> 0 then (error lp, lp, w)
      else
        (let (proc_h, out) = lp_proc lp;
             (st0, proc) = proc_dup k;
             w0 = undefined_behaviour out w
         in if st0 < 0 then
              (let (s, lp') = lp_error lp st0 ''start: cannot duplicate process handle''
               in (s, lp', w0))
            else
              (let (st1, to_child, child_bootstrap) = channel_create k in
               if st1 \<noteq> NO_ERROR then
                 (let (s, lp') = lp_error lp st1 ''start: cannot create channel''
                  in (s, lp', mx_handle_close proc w0))
               else
                 (let (st2, lp1, w1, thr, sp) = prepare_start lp w0 to_child (prepare k);
                      w2 = mx_handle_close to_child w1
                  in if st2 \<noteq> NO_ERROR then
                       (st2, snd (lp_error lp1 st2 ''start: prepare_start() failed''),
                        mx_handle_close child_bootstrap w2)
                     else
                       (let thread = (case thr of None \<Rightarrow> MX_HANDLE_INVALID | Some t \<Rightarrow> t);
                            sp' = (case sp of None \<Rightarrow> 0 | Some a \<Rightarrow> a);
                            st3 = process_start k;
                            lp2 = (if st3 \<noteq> NO_ERROR
                                   then snd (lp_error lp1 st3 ''start: mx_process_start() failed'')
                                   else lp1);
                            w3 = (if st3 = NO_ERROR
                                  then w2\<lparr>started := started w2 @
                                         [Process_start proc thread (entry lp1) sp'
                                            child_bootstrap (vdso_base lp1)]\<rparr>
                                  else w2);
                            w4 = mx_handle_close thread w3
                        in if st3 = NO_ERROR then (proc, lp2, w4)
                           else (st3, lp2, mx_handle_close child_bootstrap w4))))))"

definition launchpad_start_injected ::
  "launchpad \<Rightarrow> world \<Rightarrow> mx_handle_t \<Rightarrow> 64 word \<Rightarrow> start_answers \<Rightarrow> mx_status_t
     \<Rightarrow> mx_status_t \<times> launchpad \<times> world" where
  "launchpad_start_injected lp w to_child bootstrap_handle_in_child k thread_start =
     (if error lp \<noteq> 0 then (error lp, lp, w)
      else
        (let (st0, lp1, w1, thr, sp) = prepare_start lp w to_child k in
         if st0 \<noteq> NO_ERROR then
           (st0, snd (lp_error lp1 st0 ''start_injected: prepare_start() failed''), w1)
         else
           (let thread = (case thr of None \<Rightarrow> MX_HANDLE_INVALID | Some t \<Rightarrow> t);
                sp' = (case sp of None \<Rightarrow> 0 | Some a \<Rightarrow> a);
                lp2 = (if thread_start \<noteq> NO_ERROR
                       then snd (lp_error lp1 thread_start
                                   ''start_injected: mx_thread_start() failed'')
                       else lp1);
                w2 = (if thread_start = NO_ERROR
                      then w1\<lparr>started := started w1 @
                             [Thread_start thread (entry lp1) sp' bootstrap_handle_in_child
                                (vdso_base lp1)]\<rparr>
                      else w1)
            in (thread_start, lp2, mx_handle_close thread w2))))"

subsection \<open>Contexts: creation and destruction\<close>

text \<open>
  A \<^verbatim>\<open>launchpad_t*\<close> is either the address of the static \<^verbatim>\<open>invalid_launchpad\<close> or
  the address of a block that \<^verbatim>\<open>calloc\<close> returned. The store holds the static structure
  and the live blocks.
\<close>

datatype lp_ptr = Invalid_launchpad | Heap nat

record store =
  static_lp :: launchpad
  heap :: "nat \<Rightarrow> launchpad option"

definition store0 :: store where
  "store0 = \<lparr>static_lp = invalid_launchpad, heap = (\<lambda>a. None)\<rparr>"

definition deref :: "store \<Rightarrow> lp_ptr \<Rightarrow> launchpad option" where
  "deref s p = (case p of Invalid_launchpad \<Rightarrow> Some (static_lp s) | Heap a \<Rightarrow> heap s a)"

definition assign :: "store \<Rightarrow> lp_ptr \<Rightarrow> launchpad \<Rightarrow> store" where
  "assign s p lp =
     (case p of Invalid_launchpad \<Rightarrow> s\<lparr>static_lp := lp\<rparr>
      | Heap a \<Rightarrow> s\<lparr>heap := (heap s)(a := Some lp)\<rparr>)"

text \<open>
  \<^verbatim>\<open>launchpad_destroy\<close>: nothing for the static launchpad; otherwise the special handles
  and the table are closed and the block is freed. A pointer to no live block is undefined
  behaviour.
\<close>

definition launchpad_destroy :: "store \<Rightarrow> world \<Rightarrow> lp_ptr \<Rightarrow> store \<times> world" where
  "launchpad_destroy s w p =
     (case p of
        Invalid_launchpad \<Rightarrow> (s, w)
      | Heap a \<Rightarrow>
          (case heap s a of
             None \<Rightarrow> (s, undefined_behaviour True w)
           | Some lp \<Rightarrow>
               (s\<lparr>heap := (heap s)(a := None)\<rparr>,
                close_handles (handles lp) (unat (handle_count lp))
                  (close_handles [loader_svc lp, exec_vmo lp] HND_SPECIAL_COUNT w))))"

text \<open>
  \<^verbatim>\<open>launchpad_create_with_process\<close>: \<open>calloc\<close> is the allocator's answer, \<open>None\<close> for NULL
  or the address of the fresh block. The result is the status, the pointer stored through
  \<^verbatim>\<open>result\<close>, the store and the world. \<open>r1\<close> and \<open>r2\<close> answer the two \<^verbatim>\<open>realloc\<close>
  pairs of the two \<^verbatim>\<open>launchpad_add_handle\<close> calls.
\<close>

definition launchpad_create_with_process ::
  "store \<Rightarrow> world \<Rightarrow> mx_handle_t \<Rightarrow> mx_handle_t \<Rightarrow> nat option
     \<Rightarrow> mx_handle_t realloc \<times> u32 realloc \<Rightarrow> mx_handle_t realloc \<times> u32 realloc
     \<Rightarrow> mx_status_t \<times> lp_ptr \<times> store \<times> world" where
  "launchpad_create_with_process s w proc vmar calloc r1 r2 =
     (let (p, lp0) =
            (case calloc of
               None \<Rightarrow> (Invalid_launchpad, static_lp s)
             | Some a \<Rightarrow>
                 (Heap a, new_launchpad));
          (st1, lp1, w1) = launchpad_add_handle lp0 w proc MX_HND_TYPE_PROC_SELF (fst r1) (snd r1);
          (st2, lp2, w2) = launchpad_add_handle lp1 w1 vmar MX_HND_TYPE_VMAR_ROOT (fst r2) (snd r2)
      in (error lp2, p, assign s p lp2, w2))"

text \<open>
  \<^verbatim>\<open>launchpad_create_with_jobs\<close>: \<open>created\<close> is the answer of
  \<^verbatim>\<open>mx_process_create\<close>, its status and the values of \<^verbatim>\<open>proc\<close> and \<^verbatim>\<open>vmar\<close> after
  the call (both start as the invalid handle).
\<close>

definition launchpad_create_with_jobs ::
  "store \<Rightarrow> world \<Rightarrow> mx_handle_t \<Rightarrow> mx_status_t \<times> mx_handle_t \<times> mx_handle_t \<Rightarrow> nat option
     \<Rightarrow> mx_handle_t realloc \<times> u32 realloc \<Rightarrow> mx_handle_t realloc \<times> u32 realloc
     \<Rightarrow> mx_handle_t realloc \<times> u32 realloc \<Rightarrow> mx_status_t \<times> lp_ptr \<times> store \<times> world" where
  "launchpad_create_with_jobs s w transfered_job created calloc r1 r2 r3 =
     (let (status, proc, vmar) = created;
          (st0, p, s1, w1) = launchpad_create_with_process s w proc vmar calloc r1 r2
      in case deref s1 p of
           None \<Rightarrow> (st0, p, s1, undefined_behaviour True w1)
         | Some lp \<Rightarrow>
             (let lp1 = (if status < 0
                         then snd (lp_error lp status ''create: mx_process_create() failed'')
                         else lp);
                  (st1, lp2, w2) =
                    (if transfered_job \<noteq> MX_HANDLE_INVALID
                     then launchpad_add_handle lp1 w1 transfered_job
                            (MX_HND_INFO MX_HND_TYPE_JOB 0) (fst r3) (snd r3)
                     else (NO_ERROR, lp1, w1))
              in (error lp2, p, assign s1 p lp2, w2)))"

text \<open>
  \<^verbatim>\<open>launchpad_create\<close>: \<open>job_default\<close> is what \<^verbatim>\<open>mx_job_default()\<close> answers and
  \<open>xjob\<close> the value of the variable \<^verbatim>\<open>xjob\<close> after \<^verbatim>\<open>mx_handle_duplicate\<close>.
\<close>

definition launchpad_create ::
  "store \<Rightarrow> world \<Rightarrow> mx_handle_t \<Rightarrow> mx_handle_t \<Rightarrow> mx_handle_t
     \<Rightarrow> mx_status_t \<times> mx_handle_t \<times> mx_handle_t \<Rightarrow> nat option
     \<Rightarrow> mx_handle_t realloc \<times> u32 realloc \<Rightarrow> mx_handle_t realloc \<times> u32 realloc
     \<Rightarrow> mx_handle_t realloc \<times> u32 realloc \<Rightarrow> mx_status_t \<times> lp_ptr \<times> store \<times> world" where
  "launchpad_create s w job job_default xjob created calloc r1 r2 r3 =
     launchpad_create_with_jobs s w xjob created calloc r1 r2 r3"

subsection \<open>The setup calls as one type\<close>

text \<open>
  The calls a client makes on a context between creation and destruction, each with the
  answers of the outside it needs. \<^verbatim>\<open>launchpad_load_from_vmo\<close> is
  \<^verbatim>\<open>launchpad_elf_load_with_vdso\<close>; \<^verbatim>\<open>launchpad_arguments\<close> and
  \<^verbatim>\<open>launchpad_environ\<close> are \<^verbatim>\<open>launchpad_set_args\<close> and \<^verbatim>\<open>launchpad_set_environ\<close>.
\<close>

definition launchpad_elf_load_with_vdso ::
  "launchpad \<Rightarrow> world \<Rightarrow> mx_handle_t \<Rightarrow> 'e elf_loader \<Rightarrow> mx_handle_t \<Rightarrow> call_reply
     \<Rightarrow> mx_handle_t \<Rightarrow> mx_status_t \<times> mx_handle_t \<Rightarrow> mx_handle_t realloc \<Rightarrow> u32 realloc
     \<Rightarrow> mx_status_t \<times> launchpad \<times> world" where
  "launchpad_elf_load_with_vdso lp w vmo ld svc_new r startup dup r_handles r_info =
     (let (st1, lp1, w1) = launchpad_elf_load lp w vmo ld svc_new r;
          (st2, lp2, w2) = launchpad_load_vdso lp1 w1 MX_HANDLE_INVALID ld startup
      in launchpad_add_vdso_vmo lp2 w2 startup dup r_handles r_info)"

datatype 'e call =
  Set_args int "string list" "string list" bool
| Set_environ "string list option" "string list option" bool
| Add_handle mx_handle_t u32 "mx_handle_t realloc" "u32 realloc"
| Add_handles size_t "mx_handle_t list" "u32 list" "mx_handle_t realloc" "u32 realloc"
| Add_pipe int "int \<times> mx_handle_t \<times> u32" "mx_handle_t realloc" "u32 realloc"
| Elf_load_basic mx_handle_t "'e elf_loader"
| Elf_load_extra mx_handle_t "'e elf_loader"
| Elf_load mx_handle_t "'e elf_loader" mx_handle_t call_reply
| Add_vdso_vmo mx_handle_t "mx_status_t \<times> mx_handle_t" "mx_handle_t realloc" "u32 realloc"
| Load_vdso mx_handle_t "'e elf_loader" mx_handle_t
| Load_from_vmo mx_handle_t "'e elf_loader" mx_handle_t call_reply mx_handle_t
    "mx_status_t \<times> mx_handle_t" "mx_handle_t realloc" "u32 realloc"
| Use_loader_service mx_handle_t
| Start launch_answers
| Start_injected mx_handle_t "64 word" start_answers mx_status_t
| Abort mx_status_t string
| Set_stack_size size_t
| Send_loader_message bool

text \<open>What a call returns: a status (or a handle), a size, a flag, or nothing.\<close>

datatype ret = Status int | Size size_t | Flag bool | No_value

fun launchpad_call :: "'e call \<Rightarrow> launchpad \<Rightarrow> world \<Rightarrow> ret \<times> launchpad \<times> world" where
  "launchpad_call (Set_args argc_in argv argv_copy ok) lp w =
     (let (s, lp', w') = launchpad_set_args lp w argc_in argv argv_copy ok in (Status s, lp', w'))"
| "launchpad_call (Set_environ envp envp_copy ok) lp w =
     (let (s, lp', w') = launchpad_set_environ lp w envp envp_copy ok in (Status s, lp', w'))"
| "launchpad_call (Add_handle h idt rh ri) lp w =
     (let (s, lp', w') = launchpad_add_handle lp w h idt rh ri in (Status s, lp', w'))"
| "launchpad_call (Add_handles n h idt rh ri) lp w =
     (let (s, lp', w') = launchpad_add_handles lp w n h idt rh ri in (Status s, lp', w'))"
| "launchpad_call (Add_pipe target_fd pipe rh ri) lp w =
     (let (s, lp', w', fd) = launchpad_add_pipe lp w target_fd pipe rh ri in (Status s, lp', w'))"
| "launchpad_call (Elf_load_basic vmo ld) lp w =
     (let (s, lp', w') = launchpad_elf_load_basic lp w vmo ld in (Status s, lp', w'))"
| "launchpad_call (Elf_load_extra vmo ld) lp w =
     (let (s, lp', w', stored) = launchpad_elf_load_extra lp w vmo ld in (Status s, lp', w'))"
| "launchpad_call (Elf_load vmo ld svc_new r) lp w =
     (let (s, lp', w') = launchpad_elf_load lp w vmo ld svc_new r in (Status s, lp', w'))"
| "launchpad_call (Add_vdso_vmo startup dup rh ri) lp w =
     (let (s, lp', w') = launchpad_add_vdso_vmo lp w startup dup rh ri in (Status s, lp', w'))"
| "launchpad_call (Load_vdso vmo ld startup) lp w =
     (let (s, lp', w') = launchpad_load_vdso lp w vmo ld startup in (Status s, lp', w'))"
| "launchpad_call (Load_from_vmo vmo ld svc_new r startup dup rh ri) lp w =
     (let (s, lp', w') = launchpad_elf_load_with_vdso lp w vmo ld svc_new r startup dup rh ri
      in (Status s, lp', w'))"
| "launchpad_call (Use_loader_service svc) lp w =
     (let (h, lp', w') = launchpad_use_loader_service lp w svc in (Status h, lp', w'))"
| "launchpad_call (Start k) lp w =
     (let (h, lp', w') = launchpad_start lp w k in (Status h, lp', w'))"
| "launchpad_call (Start_injected to_child arg k thread_start) lp w =
     (let (s, lp', w') = launchpad_start_injected lp w to_child arg k thread_start
      in (Status s, lp', w'))"
| "launchpad_call (Abort e msg) lp w = (No_value, launchpad_abort lp e msg, w)"
| "launchpad_call (Set_stack_size new_size) lp w =
     (let (old, lp') = launchpad_set_stack_size lp new_size in (Size old, lp', w))"
| "launchpad_call (Send_loader_message do_send) lp w =
     (let (old, lp') = launchpad_send_loader_message lp do_send in (Flag old, lp', w))"

text \<open>The calls whose C return type is \<^verbatim>\<open>mx_status_t\<close>.\<close>

fun returns_status :: "'e call \<Rightarrow> bool" where
  "returns_status (Use_loader_service svc) = False"
| "returns_status (Start k) = False"
| "returns_status (Abort e msg) = False"
| "returns_status (Set_stack_size new_size) = False"
| "returns_status (Send_loader_message do_send) = False"
| "returns_status c = True"

text \<open>The calls that return a handle when they succeed and a status when they fail.\<close>

fun returns_handle :: "'e call \<Rightarrow> bool" where
  "returns_handle (Use_loader_service svc) = True"
| "returns_handle (Start k) = True"
| "returns_handle c = False"

text \<open>
  The handles a call takes from its caller: the ones it has to close when it does not
  keep them.
\<close>

fun handles_passed :: "'e call \<Rightarrow> mx_handle_t list" where
  "handles_passed (Add_handle h idt rh ri) = (if h = MX_HANDLE_INVALID then [] else [h])"
| "handles_passed (Add_handles n h idt rh ri) = take (unat n) h"
| "handles_passed (Elf_load_basic vmo ld) = (if vmo > 0 then [vmo] else [])"
| "handles_passed (Elf_load vmo ld svc_new r) = (if vmo > 0 then [vmo] else [])"
| "handles_passed (Load_from_vmo vmo ld svc_new r startup dup rh ri) =
     (if vmo > 0 then [vmo] else [])"
| "handles_passed (Use_loader_service svc) = [svc]"
| "handles_passed c = []"

text \<open>A call through a pointer: the structure is read from the store and written back.\<close>

definition call_on ::
  "'e call \<Rightarrow> lp_ptr \<Rightarrow> store \<Rightarrow> world \<Rightarrow> ret \<times> store \<times> world" where
  "call_on c p s w =
     (case deref s p of
        None \<Rightarrow> (No_value, s, undefined_behaviour True w)
      | Some lp \<Rightarrow> (let (r, lp', w') = launchpad_call c lp w in (r, assign s p lp', w')))"

text \<open>
  \<^verbatim>\<open>launchpad_go\<close>: \<open>want_proc\<close> tells whether \<^verbatim>\<open>proc\<close> is a non-null pointer; the
  result is the status, what is stored through \<^verbatim>\<open>proc\<close>, what is stored through
  \<^verbatim>\<open>errmsg\<close> when that pointer is not null, the store and the world.
\<close>

definition launchpad_go ::
  "store \<Rightarrow> world \<Rightarrow> lp_ptr \<Rightarrow> bool \<Rightarrow> launch_answers
     \<Rightarrow> mx_status_t \<times> mx_handle_t option \<times> string option \<times> store \<times> world" where
  "launchpad_go s w p want_proc k =
     (case deref s p of
        None \<Rightarrow> (NO_ERROR, None, None, s, undefined_behaviour True w)
      | Some lp \<Rightarrow>
          (let (h, lp1, w1) = launchpad_start lp w k;
               s1 = assign s p lp1;
               w2 = (if h > 0 \<and> \<not> want_proc then mx_handle_close h w1 else w1);
               (s2, w3) = launchpad_destroy s1 w2 p
           in (if h > 0 then NO_ERROR else h,
               if h > 0 \<and> want_proc then Some h else None,
               Some (errmsg lp1), s2, w3)))"

subsection \<open>Sample contexts and answers\<close>

text \<open>Answers of an outside where every call succeeds, with handles of its own choosing.\<close>

definition answers_ok :: start_answers where
  "answers_ok =
     \<lparr>vmo_create = (0, 5), vmar_map = (0, 65536), initial_sp = (\<lambda>b sz. b + sz),
      stack_realloc = (Some (\<lambda>i. 0), Some (\<lambda>i. 0)),
      thread_create = (0, 6), thread_dup = (0, 7),
      thread_realloc = (Some (\<lambda>i. 0), Some (\<lambda>i. 0)),
      loader_msg = \<lparr>lm_malloc_ok = True, lm_dup_proc = (0, 8), lm_dup_vmar = (0, 9),
                     lm_dup_thread = (0, 10), lm_write = 0\<rparr>,
      build_malloc_ok = True, channel_write = 0\<rparr>"

text \<open>
  A context with a stack of one page, an empty table and one argument string of \<open>n\<close> bytes
  with its terminator.
\<close>

definition with_args :: "nat \<Rightarrow> launchpad" where
  "with_args n =
     new_launchpad\<lparr>stack_size := 4096, argc := 1,
                    args := Some (replicate (n - 1) CHR ''a'' @ [CHR 0x00]),
                    args_len := of_nat n\<rparr>"

text \<open>
  A context as \<^verbatim>\<open>launchpad_create_with_process\<close> leaves it for the process handle 3 and
  the address-space handle 4.
\<close>

definition sample_launchpad :: launchpad where
  "sample_launchpad =
     new_launchpad\<lparr>handles := [3, 4, 0, 0, 0, 0, 0, 0],
                    handles_info := [MX_HND_TYPE_PROC_SELF, MX_HND_TYPE_VMAR_ROOT, 0, 0, 0, 0, 0, 0],
                    handle_count := 2, handle_alloc := 8\<rparr>"

text \<open>
  An ELF loader for two images: the executable behind handle 12 asks for the interpreter
  \<open>''ld.so.1''\<close> and would load at 0x1000 with entry 0x1234; the image behind handle 13 has
  no interpreter and loads at 0x20000 with entry 0x20040. And a loader service that answers
  a request with status zero and handle 13.
\<close>

definition sample_loader :: "int elf_loader" where
  "sample_loader =
     \<lparr>elf_load_start = (\<lambda>vmo. (0, vmo)),
      elf_load_get_interp = (\<lambda>elf vmo. (0, if vmo = 12 then Some (''ld.so.1'', 7) else None)),
      elf_load_finish =
        (\<lambda>vmar elf vmo. (0, Some (if vmo = 12 then (0x1000, 0x1234) else (0x20000, 0x20040)))),
      elf_load_get_stack_size = (\<lambda>elf. 0)\<rparr>"

definition sample_reply :: call_reply where
  "sample_reply =
     \<lparr>call_status = 0, read_status = 0, reply_size = 20, reply_opcode = 0, reply_arg = 0,
      reply_handle = 13\<rparr>"

text \<open>The sample context after an image was loaded, with a stack of one page.\<close>

definition sample_loaded :: launchpad where
  "sample_loaded = sample_launchpad\<lparr>entry := 0x1040, base := 0x1000, stack_size := 4096\<rparr>"

text \<open>
  Answers of an outside where every call of \<^verbatim>\<open>launchpad_start\<close> succeeds, and the
  sample context after \<^verbatim>\<open>launchpad_add_handle\<close> was given the invalid handle.
\<close>

definition launch_ok :: launch_answers where
  "launch_ok =
     \<lparr>proc_dup = (0, 20), channel_create = (0, 21, 22), prepare = answers_ok,
      process_start = 0\<rparr>"

definition sample_failed :: launchpad where
  "sample_failed = sample_launchpad\<lparr>error := ERR_BAD_HANDLE, errmsg := ''added invalid handle''\<rparr>"

section \<open>Properties\<close>

subsection \<open>Basic facts\<close>

lemmas status_defs = NO_ERROR_def ERR_INTERNAL_def ERR_NO_MEMORY_def ERR_CALL_FAILED_def
  ERR_INVALID_ARGS_def ERR_BAD_HANDLE_def ERR_BUFFER_TOO_SMALL_def ERR_BAD_STATE_def

lemma lp_error_stuck:
  "error lp \<noteq> 0 \<Longrightarrow> lp_error lp e msg = (error lp, lp)"
  by (simp add: lp_error_def NO_ERROR_def)

lemma lp_error_nonzero: "e \<noteq> 0 \<Longrightarrow> fst (lp_error lp e msg) \<noteq> 0"
  by (simp add: lp_error_def Let_def NO_ERROR_def)

lemma lp_error_returns: "fst (lp_error lp e msg) = error (snd (lp_error lp e msg))"
  by (simp add: lp_error_def Let_def)

lemma check_elf_stack_size_frame:
  "error (check_elf_stack_size lp ld elf) = error lp
   \<and> loader_message (check_elf_stack_size lp ld elf) = loader_message lp
   \<and> exec_vmo (check_elf_stack_size lp ld elf) = exec_vmo lp
   \<and> base (check_elf_stack_size lp ld elf) = base lp
   \<and> entry (check_elf_stack_size lp ld elf) = entry lp"
  by (simp add: check_elf_stack_size_def launchpad_set_stack_size_def Let_def)

subsection \<open>Batches of handles\<close>

lemma realloc_cells_length: "length (realloc_cells old m junk) = m"
  by (simp add: realloc_cells_def)

lemma realloc_cells_take:
  "k \<le> length old \<Longrightarrow> k \<le> m \<Longrightarrow> take k (realloc_cells old m junk) = take k old"
  by (rule nth_equalityI) (simp_all add: realloc_cells_def)

lemma cells_of_small: "alloc < 2 ^ 62 \<Longrightarrow> cells_of alloc = unat alloc"
proof -
  assume "alloc < 2 ^ 62"
  then have "unat alloc < 2 ^ 62" by (simp add: word_less_nat_alt)
  then have "unat (alloc * 4) = unat alloc * 4"
    by (simp add: unat_word_ariths)
  then show ?thesis by (simp add: cells_of_def)
qed

lemma grown_alloc:
  assumes "(a :: 64 word) < 2 ^ 61"
  shows "cells_of (if a = 0 then 8 else a * 2) = (if a = 0 then 8 else 2 * unat a)"
proof (cases "a = 0")
  case True
  then show ?thesis by (simp add: cells_of_def)
next
  case False
  from assms have u: "unat a < 2 ^ 61" by (simp add: word_less_nat_alt)
  then have "unat (a * 2) = unat a * 2" by (simp add: unat_word_ariths)
  moreover from this u have "a * 2 < 2 ^ 62" by (simp add: word_less_nat_alt)
  ultimately show ?thesis using False by (simp add: cells_of_small)
qed

lemma room_iff:
  assumes "(c :: 64 word) \<le> a"
  shows "a - c < n \<longleftrightarrow> unat a < unat c + unat n"
proof -
  have "unat (a - c) = unat a - unat c" using assms by (simp add: unat_sub)
  moreover have "unat c \<le> unat a" using assms by (simp add: word_le_nat_alt)
  ultimately show ?thesis by (auto simp: word_less_nat_alt)
qed

lemma more_handles_fit:
  assumes e: "error lp = NO_ERROR"
    and lh: "length (handles lp) = unat (handle_alloc lp)"
    and li: "length (handles_info lp) = unat (handle_alloc lp)"
    and ca: "handle_count lp \<le> handle_alloc lp" and small: "handle_alloc lp < 2 ^ 61"
    and fit: "unat (handle_count lp) + unat n \<le> unat (handle_alloc lp)
              \<or> rh \<noteq> None \<and> ri \<noteq> None
                \<and> unat (handle_count lp) + unat n
                    \<le> (if handle_alloc lp = 0 then 8 else 2 * unat (handle_alloc lp))"
  shows "\<exists>lp1. more_handles lp n rh ri = (NO_ERROR, lp1)
           \<and> error lp1 = NO_ERROR \<and> handle_count lp1 = handle_count lp
           \<and> unat (handle_count lp) + unat n \<le> length (handles lp1)
           \<and> unat (handle_count lp) + unat n \<le> length (handles_info lp1)
           \<and> take (unat (handle_count lp)) (handles lp1)
               = take (unat (handle_count lp)) (handles lp)
           \<and> take (unat (handle_count lp)) (handles_info lp1)
               = take (unat (handle_count lp)) (handles_info lp)"
proof (cases "unat (handle_count lp) + unat n \<le> unat (handle_alloc lp)")
  case True
  then have "\<not> handle_alloc lp - handle_count lp < n" using room_iff[OF ca, of n] by simp
  then have "more_handles lp n rh ri = (NO_ERROR, lp)"
    using e by (simp add: more_handles_def NO_ERROR_def)
  then show ?thesis using e True lh li by simp
next
  case False
  then have r: "handle_alloc lp - handle_count lp < n" using room_iff[OF ca, of n] by simp
  from False fit obtain jh ji where rh: "rh = Some jh" and ri: "ri = Some ji"
    and g: "unat (handle_count lp) + unat n
              \<le> (if handle_alloc lp = 0 then 8 else 2 * unat (handle_alloc lp))"
    by auto
  define m where "m = cells_of (if handle_alloc lp = 0 then 8 else handle_alloc lp * 2)"
  have m: "m = (if handle_alloc lp = 0 then 8 else 2 * unat (handle_alloc lp))"
    unfolding m_def by (rule grown_alloc[OF small])
  have cle: "unat (handle_count lp) \<le> unat (handle_alloc lp)"
    using ca by (simp add: word_le_nat_alt)
  have am: "unat (handle_alloc lp) \<le> m" using m by simp
  have mh: "more_handles lp n rh ri
        = (NO_ERROR,
           lp\<lparr>handles := realloc_cells (handles lp) m jh,
              handles_info := realloc_cells (handles_info lp) m ji,
              handle_alloc := (if handle_alloc lp = 0 then 8 else handle_alloc lp * 2)\<rparr>)"
    using e r by (simp add: more_handles_def rh ri Let_def NO_ERROR_def m_def)
  show ?thesis
    using e g m cle am lh li
    by (simp add: mh realloc_cells_length realloc_cells_take)
qed

lemma add_handles_fit:
  assumes nh: "unat n \<le> length h" and ni: "unat n \<le> length idt"
    and m: "more_handles lp n rh ri = (NO_ERROR, lp1)"
    and e1: "error lp1 = NO_ERROR" and c1: "handle_count lp1 = handle_count lp"
    and fh: "unat (handle_count lp) + unat n \<le> length (handles lp1)"
    and fi: "unat (handle_count lp) + unat n \<le> length (handles_info lp1)"
  shows "case launchpad_add_handles lp w n h idt rh ri of
           (st, lp', w') \<Rightarrow>
             st = (if MX_HANDLE_INVALID \<in> set (take (unat n) h) then ERR_BAD_HANDLE
                   else NO_ERROR)
             \<and> error lp' = st
             \<and> handle_count lp' = handle_count lp + n
             \<and> take (unat (handle_count lp)) (handles lp')
                 = take (unat (handle_count lp)) (handles lp1)
             \<and> take (unat n) (drop (unat (handle_count lp)) (handles lp')) = take (unat n) h
             \<and> take (unat (handle_count lp)) (handles_info lp')
                 = take (unat (handle_count lp)) (handles_info lp1)
             \<and> take (unat n) (drop (unat (handle_count lp)) (handles_info lp'))
                 = take (unat n) idt
             \<and> w' = w"
proof -
  let ?off = "unat (handle_count lp)"
  let ?vh = "take (unat n) h" and ?vi = "take (unat n) idt"
  have lvh: "length ?vh = unat n" and lvi: "length ?vi = unat n" using nh ni by simp_all
  have sh: "store_cells (handles lp1) ?off ?vh
              = (take ?off (handles lp1) @ ?vh @ drop (?off + unat n) (handles lp1), False)"
    using fh lvh by (simp add: store_cells_def)
  have si: "store_cells (handles_info lp1) ?off ?vi
              = (take ?off (handles_info lp1) @ ?vi @ drop (?off + unat n) (handles_info lp1),
                 False)"
    using fi lvi by (simp add: store_cells_def)
  have l1: "length (take ?off (handles lp1)) = ?off" using fh by simp
  have l2: "length (take ?off (handles_info lp1)) = ?off" using fi by simp
  have short: "\<not> (length h < unat n \<or> length idt < unat n)" using nh ni by simp
  show ?thesis
    using e1 c1 lvh lvi l1 l2 short
    by (simp add: launchpad_add_handles_def m sh si Let_def lp_error_def
        undefined_behaviour_def status_defs)
qed

lemma add_handles_no_memory:
  assumes nh: "unat n \<le> length h" and ni: "unat n \<le> length idt"
    and e: "error lp = NO_ERROR"
    and lh: "length (handles lp) = unat (handle_alloc lp)"
    and ca: "handle_count lp \<le> handle_alloc lp" and small: "handle_alloc lp < 2 ^ 61"
    and full: "unat (handle_alloc lp) < unat (handle_count lp) + unat n"
    and fail: "rh = None \<or> ri = None"
  shows "case launchpad_add_handles lp w n h idt rh ri of
           (st, lp', w') \<Rightarrow>
             st = ERR_NO_MEMORY \<and> error lp' = ERR_NO_MEMORY
             \<and> handle_count lp' = handle_count lp
             \<and> take (unat (handle_count lp)) (handles lp')
                 = take (unat (handle_count lp)) (handles lp)
             \<and> handles_info lp' = handles_info lp
             \<and> w' = fold mx_handle_close (take (unat n) h) w"
proof -
  have r: "handle_alloc lp - handle_count lp < n" using room_iff[OF ca, of n] full by simp
  have short: "\<not> (length h < unat n \<or> length idt < unat n)" using nh ni by simp
  have cle: "unat (handle_count lp) \<le> unat (handle_alloc lp)"
    using ca by (simp add: word_le_nat_alt)
  have am: "unat (handle_alloc lp)
              \<le> cells_of (if handle_alloc lp = 0 then 8 else handle_alloc lp * 2)"
    by (simp only: grown_alloc[OF small]) simp
  show ?thesis
  proof (cases rh)
    case None
    then show ?thesis
      using e r short
      by (simp add: launchpad_add_handles_def more_handles_def lp_error_def Let_def
          undefined_behaviour_def status_defs)
  next
    case (Some jh)
    with fail have "ri = None" by simp
    then show ?thesis
      using e r short Some cle am lh
      by (simp add: launchpad_add_handles_def more_handles_def lp_error_def Let_def
          undefined_behaviour_def status_defs realloc_cells_take)
  qed
qed

lemma add_handles_in_error:
  assumes "unat n \<le> length h" and "unat n \<le> length idt" and "error lp \<noteq> NO_ERROR"
  shows "launchpad_add_handles lp w n h idt rh ri
           = (error lp, lp, fold mx_handle_close (take (unat n) h) w)"
proof -
  have "\<not> (length h < unat n \<or> length idt < unat n)" using assms(1,2) by simp
  then show ?thesis using assms(3)
    by (simp add: launchpad_add_handles_def more_handles_def undefined_behaviour_def
        NO_ERROR_def)
qed

text \<open>
  C1 (as the code has it). A batch that holds the invalid handle is not dropped. Take a
  table that is well formed (both blocks have \<open>handle_alloc\<close> cells and the count is at
  most \<open>handle_alloc\<close>) and caller arrays of at least \<open>n\<close> cells. When the context is
  not in error and the batch fits (there is room, or both \<^verbatim>\<open>realloc\<close> calls succeed and
  one doubling is enough), \<^verbatim>\<open>launchpad_add_handles\<close> stores the batch and its tags in
  the \<open>n\<close> cells from the old count on, keeps the earlier entries, adds \<open>n\<close> to the
  count and closes nothing; it returns and latches \<^verbatim>\<open>ERR_BAD_HANDLE\<close> when the batch
  holds the invalid handle and returns \<^verbatim>\<open>NO_ERROR\<close> otherwise. When the context is not
  in error, there is no room and a \<^verbatim>\<open>realloc\<close> fails, it returns and latches
  \<^verbatim>\<open>ERR_NO_MEMORY\<close>, leaves the count and the earlier entries as they are and closes
  every handle of the batch. When the context is in error, it returns that error, leaves
  the context as it is and closes every handle of the batch.
\<close>

theorem add_handles_invalid_kept:
  assumes "unat n \<le> length h" and "unat n \<le> length idt"
    and "length (handles lp) = unat (handle_alloc lp)"
    and "length (handles_info lp) = unat (handle_alloc lp)"
    and "handle_count lp \<le> handle_alloc lp" and "handle_alloc lp < 2 ^ 61"
  shows
    "(error lp = NO_ERROR
        \<and> (unat (handle_count lp) + unat n \<le> unat (handle_alloc lp)
            \<or> rh \<noteq> None \<and> ri \<noteq> None
              \<and> unat (handle_count lp) + unat n
                  \<le> (if handle_alloc lp = 0 then 8 else 2 * unat (handle_alloc lp)))
      \<longrightarrow> (case launchpad_add_handles lp w n h idt rh ri of
             (st, lp', w') \<Rightarrow>
               st = (if MX_HANDLE_INVALID \<in> set (take (unat n) h) then ERR_BAD_HANDLE
                     else NO_ERROR)
               \<and> error lp' = st
               \<and> handle_count lp' = handle_count lp + n
               \<and> take (unat (handle_count lp)) (handles lp')
                   = take (unat (handle_count lp)) (handles lp)
               \<and> take (unat n) (drop (unat (handle_count lp)) (handles lp')) = take (unat n) h
               \<and> take (unat (handle_count lp)) (handles_info lp')
                   = take (unat (handle_count lp)) (handles_info lp)
               \<and> take (unat n) (drop (unat (handle_count lp)) (handles_info lp'))
                   = take (unat n) idt
               \<and> w' = w))
     \<and> (error lp = NO_ERROR
          \<and> unat (handle_alloc lp) < unat (handle_count lp) + unat n
          \<and> (rh = None \<or> ri = None)
        \<longrightarrow> (case launchpad_add_handles lp w n h idt rh ri of
               (st, lp', w') \<Rightarrow>
                 st = ERR_NO_MEMORY \<and> error lp' = ERR_NO_MEMORY
                 \<and> handle_count lp' = handle_count lp
                 \<and> take (unat (handle_count lp)) (handles lp')
                     = take (unat (handle_count lp)) (handles lp)
                 \<and> handles_info lp' = handles_info lp
                 \<and> w' = fold mx_handle_close (take (unat n) h) w))
     \<and> (error lp \<noteq> NO_ERROR
        \<longrightarrow> launchpad_add_handles lp w n h idt rh ri
              = (error lp, lp, fold mx_handle_close (take (unat n) h) w))"
proof (intro conjI impI)
  assume a: "error lp = NO_ERROR
        \<and> (unat (handle_count lp) + unat n \<le> unat (handle_alloc lp)
            \<or> rh \<noteq> None \<and> ri \<noteq> None
              \<and> unat (handle_count lp) + unat n
                  \<le> (if handle_alloc lp = 0 then 8 else 2 * unat (handle_alloc lp)))"
  then have e: "error lp = NO_ERROR" by simp
  from a have fit: "unat (handle_count lp) + unat n \<le> unat (handle_alloc lp)
            \<or> rh \<noteq> None \<and> ri \<noteq> None
              \<and> unat (handle_count lp) + unat n
                  \<le> (if handle_alloc lp = 0 then 8 else 2 * unat (handle_alloc lp))"
    by simp
  from more_handles_fit[OF e assms(3-6) fit] obtain lp1 where
    m: "more_handles lp n rh ri = (NO_ERROR, lp1)"
    and e1: "error lp1 = NO_ERROR" and c1: "handle_count lp1 = handle_count lp"
    and fh: "unat (handle_count lp) + unat n \<le> length (handles lp1)"
    and fi: "unat (handle_count lp) + unat n \<le> length (handles_info lp1)"
    and th: "take (unat (handle_count lp)) (handles lp1)
               = take (unat (handle_count lp)) (handles lp)"
    and ti: "take (unat (handle_count lp)) (handles_info lp1)
               = take (unat (handle_count lp)) (handles_info lp)"
    by blast
  from add_handles_fit[OF assms(1,2) m e1 c1 fh fi, of w]
  show "case launchpad_add_handles lp w n h idt rh ri of
             (st, lp', w') \<Rightarrow>
               st = (if MX_HANDLE_INVALID \<in> set (take (unat n) h) then ERR_BAD_HANDLE
                     else NO_ERROR)
               \<and> error lp' = st
               \<and> handle_count lp' = handle_count lp + n
               \<and> take (unat (handle_count lp)) (handles lp')
                   = take (unat (handle_count lp)) (handles lp)
               \<and> take (unat n) (drop (unat (handle_count lp)) (handles lp')) = take (unat n) h
               \<and> take (unat (handle_count lp)) (handles_info lp')
                   = take (unat (handle_count lp)) (handles_info lp)
               \<and> take (unat n) (drop (unat (handle_count lp)) (handles_info lp'))
                   = take (unat n) idt
               \<and> w' = w"
    by (simp only: th ti)
next
  assume b: "error lp = NO_ERROR
          \<and> unat (handle_alloc lp) < unat (handle_count lp) + unat n
          \<and> (rh = None \<or> ri = None)"
  then have e: "error lp = NO_ERROR"
    and full: "unat (handle_alloc lp) < unat (handle_count lp) + unat n"
    and fail: "rh = None \<or> ri = None"
    by simp_all
  show "case launchpad_add_handles lp w n h idt rh ri of
               (st, lp', w') \<Rightarrow>
                 st = ERR_NO_MEMORY \<and> error lp' = ERR_NO_MEMORY
                 \<and> handle_count lp' = handle_count lp
                 \<and> take (unat (handle_count lp)) (handles lp')
                     = take (unat (handle_count lp)) (handles lp)
                 \<and> handles_info lp' = handles_info lp
                 \<and> w' = fold mx_handle_close (take (unat n) h) w"
    by (rule add_handles_no_memory[OF assms(1,2) e assms(3,5,6) full fail])
next
  assume "error lp \<noteq> NO_ERROR"
  then show "launchpad_add_handles lp w n h idt rh ri
              = (error lp, lp, fold mx_handle_close (take (unat n) h) w)"
    by (rule add_handles_in_error[OF assms(1,2)])
qed

text \<open>
  The sample context, which holds two handles in a table of eight: a batch of two with the
  invalid handle is stored and counted; a batch of seven when \<^verbatim>\<open>realloc\<close> fails is
  closed; and so is a batch given to the context once it is in error.
\<close>

theorem add_handles_invalid_kept_witness:
  "(case launchpad_add_handles sample_launchpad world0 2 [5, MX_HANDLE_INVALID] [1, 2]
           None None of
      (st, lp', w') \<Rightarrow>
        st = ERR_BAD_HANDLE \<and> error lp' = ERR_BAD_HANDLE
        \<and> handle_count lp' = 4
        \<and> take 2 (handles lp') = [3, 4]
        \<and> take 2 (drop 2 (handles lp')) = [5, MX_HANDLE_INVALID]
        \<and> take 2 (handles_info lp') = [MX_HND_TYPE_PROC_SELF, MX_HND_TYPE_VMAR_ROOT]
        \<and> take 2 (drop 2 (handles_info lp')) = [1, 2]
        \<and> w' = world0)
   \<and> (case launchpad_add_handles sample_launchpad world0 7 [5, 6, 7, 8, 9, 10, 11]
            [1, 1, 1, 1, 1, 1, 1] (Some (\<lambda>i. 0)) None of
        (st, lp', w') \<Rightarrow>
          st = ERR_NO_MEMORY \<and> error lp' = ERR_NO_MEMORY
          \<and> handle_count lp' = 2
          \<and> take 2 (handles lp') = [3, 4]
          \<and> handles_info lp' = handles_info sample_launchpad
          \<and> w' = fold mx_handle_close [5, 6, 7, 8, 9, 10, 11] world0)
   \<and> launchpad_add_handles (sample_launchpad\<lparr>error := ERR_BAD_HANDLE\<rparr>) world0 2 [6, 7] [1, 1]
         None None
       = (ERR_BAD_HANDLE, sample_launchpad\<lparr>error := ERR_BAD_HANDLE\<rparr>,
          fold mx_handle_close [6, 7] world0)"
  using add_handles_invalid_kept[where lp = sample_launchpad and n = 2 and rh = None
      and ri = None and h = "[5, MX_HANDLE_INVALID]" and w = world0 and idt = "[1, 2]"]
    add_handles_invalid_kept[where lp = sample_launchpad and n = 7
      and rh = "Some (\<lambda>i. 0)" and ri = None and h = "[5, 6, 7, 8, 9, 10, 11]" and w = world0
      and idt = "[1, 1, 1, 1, 1, 1, 1]"]
    add_handles_invalid_kept[where lp = "sample_launchpad\<lparr>error := ERR_BAD_HANDLE\<rparr>"
      and n = 2 and rh = None and ri = None and h = "[6, 7]" and w = world0
      and idt = "[1, 1]"]
  by (simp add: sample_launchpad_def new_launchpad_def zeroed_launchpad_def status_defs
      split_beta)

text \<open>
  The claim as stated fails: a context that holds its two first handles and has room for
  six more, and a batch of two handles of which the second is the invalid handle. The call
  reports \<^verbatim>\<open>ERR_BAD_HANDLE\<close>, yet both entries are in the table, the count has gone
  from 2 to 4, and no handle was closed.
\<close>

theorem add_handles_invalid_counterexample:
  "handle_count sample_launchpad = 2
   \<and> fst (launchpad_add_handles sample_launchpad world0 2 [5, 0] [1, 2] None None)
       = ERR_BAD_HANDLE
   \<and> handle_count (fst (snd (launchpad_add_handles sample_launchpad world0 2 [5, 0] [1, 2]
            None None))) = 4
   \<and> take 4 (handles (fst (snd (launchpad_add_handles sample_launchpad world0 2 [5, 0] [1, 2]
            None None)))) = [3, 4, 5, MX_HANDLE_INVALID]
   \<and> closed_handles (snd (snd (launchpad_add_handles sample_launchpad world0 2 [5, 0] [1, 2]
            None None))) = []
   \<and> \<not> ub (snd (snd (launchpad_add_handles sample_launchpad world0 2 [5, 0] [1, 2]
            None None)))"
  by (simp add: launchpad_add_handles_def more_handles_def sample_launchpad_def new_launchpad_def
      zeroed_launchpad_def world0_def Let_def lp_error_def undefined_behaviour_def
      store_cells_def realloc_cells_def cells_of_def status_defs MX_HANDLE_INVALID_def
      upt_rec)

subsection \<open>Growing the table\<close>

text \<open>
  C8 (what the code does at a batch larger than one doubling). \<^verbatim>\<open>more_handles\<close> grows
  the table once. On a context that holds two handles in a table of eight, a request for
  fifteen entries succeeds with a capacity of sixteen; \<^verbatim>\<open>launchpad_add_handles\<close> then
  copies fifteen entries from cell 2 on into blocks of sixteen cells, which leaves the
  blocks, reports success and sets the count to seventeen.
\<close>

theorem more_handles_grows_once:
  "handle_count sample_launchpad = 2 \<and> handle_alloc sample_launchpad = 8
   \<and> fst (more_handles sample_launchpad 15 (Some (\<lambda>i. 0)) (Some (\<lambda>i. 0))) = NO_ERROR
   \<and> handle_alloc (snd (more_handles sample_launchpad 15 (Some (\<lambda>i. 0)) (Some (\<lambda>i. 0)))) = 16
   \<and> length (handles (snd (more_handles sample_launchpad 15 (Some (\<lambda>i. 0)) (Some (\<lambda>i. 0)))))
       = 16
   \<and> fst (launchpad_add_handles sample_launchpad world0 15
            [5, 6, 7, 8, 9, 10, 11, 12, 13, 14, 15, 16, 17, 18, 19]
            [1, 1, 1, 1, 1, 1, 1, 1, 1, 1, 1, 1, 1, 1, 1]
            (Some (\<lambda>i. 0)) (Some (\<lambda>i. 0))) = NO_ERROR
   \<and> ub (snd (snd (launchpad_add_handles sample_launchpad world0 15
            [5, 6, 7, 8, 9, 10, 11, 12, 13, 14, 15, 16, 17, 18, 19]
            [1, 1, 1, 1, 1, 1, 1, 1, 1, 1, 1, 1, 1, 1, 1]
            (Some (\<lambda>i. 0)) (Some (\<lambda>i. 0)))))
   \<and> handle_count (fst (snd (launchpad_add_handles sample_launchpad world0 15
            [5, 6, 7, 8, 9, 10, 11, 12, 13, 14, 15, 16, 17, 18, 19]
            [1, 1, 1, 1, 1, 1, 1, 1, 1, 1, 1, 1, 1, 1, 1]
            (Some (\<lambda>i. 0)) (Some (\<lambda>i. 0))))) = 17"
  by (simp add: launchpad_add_handles_def more_handles_def sample_launchpad_def new_launchpad_def
      zeroed_launchpad_def world0_def Let_def lp_error_def undefined_behaviour_def
      store_cells_def realloc_cells_def cells_of_def status_defs MX_HANDLE_INVALID_def
      upt_rec)

subsection \<open>Replies of the loader service\<close>

text \<open>
  C4. When the request went out and \<^verbatim>\<open>mx_channel_call\<close> returned a reply, each protocol
  violation makes \<^verbatim>\<open>loader_svc_rpc\<close> return \<^verbatim>\<open>ERR_BAD_STATE\<close> after giving the
  reply's handle to \<^verbatim>\<open>mx_handle_close\<close>: a reply whose size is not the size of the
  header, a reply whose opcode is not the status opcode, a handle that comes with a failure
  status, and a failure status that is not negative.
\<close>

theorem rpc_protocol_violation:
  assumes "unat len < LOADER_SVC_MSG_MAX - sizeof_mx_loader_svc_msg_t"
    and "call_status r = NO_ERROR"
    and "unat (reply_size r) \<noteq> sizeof_mx_loader_svc_msg_t
         \<or> reply_opcode r \<noteq> LOADER_SVC_OP_STATUS
         \<or> (reply_arg r \<noteq> NO_ERROR \<and> reply_handle r \<noteq> MX_HANDLE_INVALID)
         \<or> (reply_arg r \<noteq> NO_ERROR \<and> \<not> reply_arg r < 0)"
  shows "fst (loader_svc_rpc w svc opcode data len r) = ERR_BAD_STATE
         \<and> closed_handles (snd (loader_svc_rpc w svc opcode data len r))
             = closed_handles w @ [reply_handle r]"
  using assms
  by (auto simp: loader_svc_rpc_def Let_def mx_handle_close_def undefined_behaviour_def
      NO_ERROR_def)

text \<open>
  The four violations, each at a concrete reply to a request of four bytes: a reply of 24
  bytes, a reply with opcode 7, a failure status with handle 9, and the status 5.
\<close>

theorem rpc_protocol_violation_witness:
  "fst (loader_svc_rpc world0 3 LOADER_SVC_OP_LOAD_OBJECT ''libc'' 4
         \<lparr>call_status = 0, read_status = 0, reply_size = 24, reply_opcode = 0,
          reply_arg = 0, reply_handle = 9\<rparr>) = ERR_BAD_STATE
   \<and> closed_handles (snd (loader_svc_rpc world0 3 LOADER_SVC_OP_LOAD_OBJECT ''libc'' 4
         \<lparr>call_status = 0, read_status = 0, reply_size = 24, reply_opcode = 0,
          reply_arg = 0, reply_handle = 9\<rparr>)) = [9]
   \<and> fst (loader_svc_rpc world0 3 LOADER_SVC_OP_LOAD_OBJECT ''libc'' 4
         \<lparr>call_status = 0, read_status = 0, reply_size = 20, reply_opcode = 7,
          reply_arg = 0, reply_handle = 9\<rparr>) = ERR_BAD_STATE
   \<and> fst (loader_svc_rpc world0 3 LOADER_SVC_OP_LOAD_OBJECT ''libc'' 4
         \<lparr>call_status = 0, read_status = 0, reply_size = 20, reply_opcode = 0,
          reply_arg = - 25, reply_handle = 9\<rparr>) = ERR_BAD_STATE
   \<and> fst (loader_svc_rpc world0 3 LOADER_SVC_OP_LOAD_OBJECT ''libc'' 4
         \<lparr>call_status = 0, read_status = 0, reply_size = 20, reply_opcode = 0,
          reply_arg = 5, reply_handle = 0\<rparr>) = ERR_BAD_STATE"
  using
    rpc_protocol_violation[where len = 4 and r = "\<lparr>call_status = 0, read_status = 0, reply_size = 24,
      reply_opcode = 0, reply_arg = 0, reply_handle = 9\<rparr>" and w = world0 and svc = 3
      and opcode = LOADER_SVC_OP_LOAD_OBJECT and data = "''libc''"]
    rpc_protocol_violation[where len = 4 and r = "\<lparr>call_status = 0, read_status = 0, reply_size = 20,
      reply_opcode = 7, reply_arg = 0, reply_handle = 9\<rparr>" and w = world0 and svc = 3
      and opcode = LOADER_SVC_OP_LOAD_OBJECT and data = "''libc''"]
    rpc_protocol_violation[where len = 4 and r = "\<lparr>call_status = 0, read_status = 0, reply_size = 20,
      reply_opcode = 0, reply_arg = - 25, reply_handle = 9\<rparr>" and w = world0 and svc = 3
      and opcode = LOADER_SVC_OP_LOAD_OBJECT and data = "''libc''"]
    rpc_protocol_violation[where len = 4 and r = "\<lparr>call_status = 0, read_status = 0, reply_size = 20,
      reply_opcode = 0, reply_arg = 5, reply_handle = 0\<rparr>" and w = world0 and svc = 3
      and opcode = LOADER_SVC_OP_LOAD_OBJECT and data = "''libc''"]
  by (simp add: LOADER_SVC_MSG_MAX_def sizeof_mx_loader_svc_msg_t_def NO_ERROR_def
      LOADER_SVC_OP_STATUS_def MX_HANDLE_INVALID_def world0_def)

subsection \<open>Serialising the argument strings\<close>

lemma c_str_id: "CHR 0x00 \<notin> set s \<Longrightarrow> c_str s = s"
  by (auto simp: c_str_def)

lemma c_str_no_nul: "CHR 0x00 \<notin> set (c_str s)"
  by (auto simp: c_str_def dest: set_takeWhileD)

lemma c_str_append_nul: "c_str (c_str s @ CHR 0x00 # rest) = c_str s"
  using c_str_no_nul[of s] by (simp add: c_str_def takeWhile_tail)

lemma strings_total_eq:
  "strings_total ss = of_nat (\<Sum>s\<leftarrow>ss. length (c_str s) + 1)"
  by (induction ss) (simp_all add: strlen_def)

lemma length_strings_copy:
  "length (strings_copy ss) = (\<Sum>s\<leftarrow>ss. length (c_str s) + 1)"
  by (induction ss) simp_all

lemma split_nul_strings_copy: "split_nul (strings_copy ss) = map c_str ss"
proof (induction ss)
  case Nil
  show ?case by simp
next
  case (Cons s ss)
  obtain c cs where e: "c_str s @ CHR 0x00 # strings_copy ss = c # cs"
    by (cases "c_str s @ CHR 0x00 # strings_copy ss") auto
  have "split_nul (c # cs)
          = c_str (c # cs) # split_nul (drop (Suc (length (c_str (c # cs)))) (c # cs))"
    by simp
  then show ?case
    unfolding e[symmetric] using Cons.IH by (simp add: c_str_append_nul del: split_nul.simps)
qed

lemma unat_total:
  assumes "(\<Sum>s\<leftarrow>ss. length (c_str s) + 1) < 2 ^ 64"
  shows "unat (strings_total ss) = (\<Sum>s\<leftarrow>ss. length (c_str s) + 1)"
  using assms by (simp add: strings_total_eq unat_of_nat)

lemma sum_c_str:
  "\<forall>s\<in>set ss. CHR 0x00 \<notin> set s \<Longrightarrow>
     (\<Sum>s\<leftarrow>ss. length (c_str s) + 1) = (\<Sum>s\<leftarrow>ss. length s + 1)"
  by (induction ss) (simp_all add: c_str_id)

lemma map_c_str: "\<forall>s\<in>set ss. CHR 0x00 \<notin> set s \<Longrightarrow> map c_str ss = ss"
  by (induction ss) (simp_all add: c_str_id)

lemma sum_pos: "ss \<noteq> [] \<Longrightarrow> 0 < (\<Sum>s\<leftarrow>ss. length (c_str s) + 1)"
  by (cases ss) simp_all

text \<open>
  C7. For a context that is not in error and a caller that leaves its strings alone,
  \<^verbatim>\<open>launchpad_set_args\<close> stores one buffer that is the strings in order, each followed by
  one NUL; the stored length is the sum of the lengths plus one each; cutting the buffer at
  the NULs gives the list back. The strings are C strings (no NUL inside) and fit in the
  address space.
\<close>

theorem set_args_roundtrip:
  assumes "error lp = NO_ERROR"
    and "\<forall>s\<in>set argv. CHR 0x00 \<notin> set s"
    and "(\<Sum>s\<leftarrow>argv. length s + 1) < 2 ^ 64"
  shows "case launchpad_set_args lp w (int (length argv)) argv argv True of
           (st, lp', w') \<Rightarrow>
             st = NO_ERROR \<and> error lp' = NO_ERROR
             \<and> unat (args_len lp') = (\<Sum>s\<leftarrow>argv. length s + 1)
             \<and> buffer_bytes (args lp') (args_len lp')
                 = concat (map (\<lambda>s. s @ [CHR 0x00]) argv)
             \<and> split_nul (buffer_bytes (args lp') (args_len lp')) = argv
             \<and> argc lp' = of_nat (length argv)
             \<and> ub w' = ub w"
proof (cases "argv = []")
  case True
  then show ?thesis using assms(1)
    by (simp add: launchpad_set_args_def Let_def undefined_behaviour_def buffer_bytes_def
        status_defs)
next
  case False
  have s: "(\<Sum>s\<leftarrow>argv. length (c_str s) + 1) = (\<Sum>s\<leftarrow>argv. length s + 1)"
    using assms(2) by (rule sum_c_str)
  have u: "unat (strings_total argv) = (\<Sum>s\<leftarrow>argv. length s + 1)"
    using unat_total[of argv] assms(3) s by simp
  have pos: "0 < strings_total argv"
    using u sum_pos[OF False] s by (simp add: word_gt_0 flip: unat_gt_0)
  have len: "(of_nat (length (strings_copy argv)) :: size_t) = strings_total argv"
    by (simp add: length_strings_copy strings_total_eq)
  have cp: "strings_copy argv = concat (map (\<lambda>s. s @ [CHR 0x00]) argv)"
    using assms(2) by (induction argv) (simp_all add: c_str_id)
  have sp: "split_nul (strings_copy argv) = argv"
    using assms(2) by (simp add: split_nul_strings_copy map_c_str)
  have l2: "length (strings_copy argv) = unat (strings_total argv)"
    using u s by (simp add: length_strings_copy)
  show ?thesis using assms(1) pos len sp l2 cp[symmetric] u
    by (simp add: launchpad_set_args_def Let_def undefined_behaviour_def buffer_bytes_def
        status_defs)
qed

text \<open>The example of the specification: three strings, nine bytes.\<close>

theorem set_args_roundtrip_witness:
  "case launchpad_set_args new_launchpad world0 3 [''a'', ''bb'', ''ccc'']
          [''a'', ''bb'', ''ccc''] True of
     (st, lp', w') \<Rightarrow>
       st = NO_ERROR \<and> args_len lp' = 9
       \<and> unat (args_len lp') = 1 + 1 + (2 + 1) + (3 + 1)
       \<and> split_nul (buffer_bytes (args lp') (args_len lp')) = [''a'', ''bb'', ''ccc'']"
  using set_args_roundtrip[where lp = new_launchpad and argv = "[''a'', ''bb'', ''ccc'']"
      and w = world0]
  by (auto simp: new_launchpad_def zeroed_launchpad_def NO_ERROR_def split: prod.splits
      dest!: arg_cong[where f = "word_of_nat :: nat \<Rightarrow> size_t"])

subsection \<open>Strings that change between the two passes\<close>

lemma torn_neq:
  assumes "n < unat (t :: size_t)"
  shows "(of_nat n :: size_t) \<noteq> t"
proof
  assume "of_nat n = t"
  then have "unat t = n mod 2 ^ 64" by (auto simp: unat_of_nat)
  then show False using assms by (metis mod_less_eq_dividend not_less)
qed

text \<open>
  C6 (as the code has it). When the second pass copies fewer bytes than the first pass
  measured, \<^verbatim>\<open>launchpad_set_args\<close> and \<^verbatim>\<open>launchpad_set_environ\<close> fail with
  \<^verbatim>\<open>ERR_INVALID_ARGS\<close>, the status they also use for a bad argument; the status is
  latched as the context's error and nothing else of the context changes, so the buffer
  and the counts stored before stay.
\<close>

theorem set_args_torn:
  assumes "error lp = NO_ERROR"
  shows "(0 \<le> argc_in
          \<and> length (strings_copy (take (nat argc_in) argv_copy))
              < unat (strings_total (take (nat argc_in) argv))
          \<longrightarrow> fst (launchpad_set_args lp w argc_in argv argv_copy True) = ERR_INVALID_ARGS
              \<and> fst (snd (launchpad_set_args lp w argc_in argv argv_copy True))
                  = lp\<lparr>error := ERR_INVALID_ARGS, errmsg := ''arguments: trickery''\<rparr>)
         \<and> (length (strings_copy (case envp_copy of None \<Rightarrow> [] | Some ss \<Rightarrow> ss))
              < unat (strings_total (case envp of None \<Rightarrow> [] | Some ss \<Rightarrow> ss))
          \<longrightarrow> fst (launchpad_set_environ lp w envp envp_copy True) = ERR_INVALID_ARGS
              \<and> fst (snd (launchpad_set_environ lp w envp envp_copy True))
                  = lp\<lparr>error := ERR_INVALID_ARGS, errmsg := ''environ: trickery''\<rparr>)"
proof (intro conjI impI)
  assume a: "0 \<le> argc_in
          \<and> length (strings_copy (take (nat argc_in) argv_copy))
              < unat (strings_total (take (nat argc_in) argv))"
  then have p: "0 < strings_total (take (nat argc_in) argv)"
    by (simp add: word_gt_0 flip: unat_gt_0)
  from a have n: "(of_nat (length (strings_copy (take (nat argc_in) argv_copy))) :: size_t)
            \<noteq> strings_total (take (nat argc_in) argv)"
    by (intro torn_neq) simp
  show "fst (launchpad_set_args lp w argc_in argv argv_copy True) = ERR_INVALID_ARGS"
    using assms a p n
    by (simp add: launchpad_set_args_def Let_def lp_error_def status_defs)
  show "fst (snd (launchpad_set_args lp w argc_in argv argv_copy True))
          = lp\<lparr>error := ERR_INVALID_ARGS, errmsg := ''arguments: trickery''\<rparr>"
    using assms a p n
    by (simp add: launchpad_set_args_def Let_def lp_error_def status_defs)
next
  assume a: "length (strings_copy (case envp_copy of None \<Rightarrow> [] | Some ss \<Rightarrow> ss))
              < unat (strings_total (case envp of None \<Rightarrow> [] | Some ss \<Rightarrow> ss))"
  then have p: "0 < strings_total (case envp of None \<Rightarrow> [] | Some ss \<Rightarrow> ss)"
    by (simp add: word_gt_0 flip: unat_gt_0)
  note n = torn_neq[OF a]
  show "fst (launchpad_set_environ lp w envp envp_copy True) = ERR_INVALID_ARGS"
    using assms p n
    by (simp add: launchpad_set_environ_def Let_def lp_error_def status_defs)
  show "fst (snd (launchpad_set_environ lp w envp envp_copy True))
          = lp\<lparr>error := ERR_INVALID_ARGS, errmsg := ''environ: trickery''\<rparr>"
    using assms p n
    by (simp add: launchpad_set_environ_def Let_def lp_error_def status_defs)
qed

text \<open>
  A context that holds the arguments \<open>[''x'']\<close>; the caller's string \<open>''ab''\<close> has become
  \<open>''a''\<close> by the time of the second pass.
\<close>

theorem set_args_torn_witness:
  "fst (launchpad_set_args (new_launchpad\<lparr>argc := 1, args := Some [CHR ''x'', CHR 0x00],
          args_len := 2\<rparr>) world0 1 [''ab''] [''a''] True) = ERR_INVALID_ARGS
   \<and> args (fst (snd (launchpad_set_args (new_launchpad\<lparr>argc := 1,
          args := Some [CHR ''x'', CHR 0x00], args_len := 2\<rparr>) world0 1 [''ab''] [''a''] True)))
       = Some [CHR ''x'', CHR 0x00]
   \<and> fst (launchpad_set_environ (new_launchpad\<lparr>argc := 1,
          args := Some [CHR ''x'', CHR 0x00], args_len := 2\<rparr>) world0
          (Some [''A=bc'']) (Some [''A=b'']) True) = ERR_INVALID_ARGS"
  using set_args_torn[where lp = "new_launchpad\<lparr>argc := 1,
      args := Some [CHR ''x'', CHR 0x00], args_len := 2\<rparr>" and argc_in = 1
      and argv_copy = "[''a'']" and argv = "[''ab'']" and w = world0
      and envp_copy = "Some [''A=b'']" and envp = "Some [''A=bc'']"]
  by (simp add: new_launchpad_def zeroed_launchpad_def NO_ERROR_def c_str_def strlen_def)

text \<open>
  The claim as stated fails. There is no status of its own for strings that changed: the
  call returns \<^verbatim>\<open>ERR_INVALID_ARGS\<close>, as it does for a negative \<^verbatim>\<open>argc\<close>. And when the
  second pass reads a longer string than the first pass measured (\<open>''a''\<close> has become
  \<open>''abc''\<close>), the copy has already run past the end of the buffer when the lengths are
  compared.
\<close>

theorem set_args_torn_counterexample:
  "fst (launchpad_set_args new_launchpad world0 1 [''ab''] [''a''] True) = ERR_INVALID_ARGS
   \<and> fst (launchpad_set_args new_launchpad world0 (- 1) [] [] True) = ERR_INVALID_ARGS
   \<and> ub (snd (snd (launchpad_set_args new_launchpad world0 1 [''a''] [''abc''] True)))"
  by (simp add: launchpad_set_args_def new_launchpad_def zeroed_launchpad_def world0_def
      Let_def lp_error_def undefined_behaviour_def c_str_def strlen_def status_defs)

subsection \<open>The stack size\<close>

lemma and_neg_page: "(x :: 64 word) AND - 4096 = push_bit 12 (drop_bit 12 x)"
proof -
  have "(- 4096 :: 64 word) = NOT (mask 12)"
    by (simp add: mask_eq_exp_minus_1)
  then show ?thesis
    by (simp add: bit_eq_iff bit_simps) (auto simp: bit_simps)
qed

lemma unat_and_neg_page: "unat ((x :: 64 word) AND - 4096) = unat x div 4096 * 4096"
proof -
  have y: "unat (drop_bit 12 x) = unat x div 4096"
    by (simp only: unat_drop_bit_eq) (simp add: drop_bit_eq_div)
  have b: "unat x < 2 ^ 64"
    using unsigned_less[of x, where 'a = nat] by simp
  have c: "unat x div 4096 * 4096 \<le> unat x"
    by simp
  have "unat (push_bit 12 (drop_bit 12 x)) = (unat x div 4096 * 4096) mod 2 ^ 64"
    by (simp add: push_bit_eq_mult unat_word_ariths y)
  also have "\<dots> = unat x div 4096 * 4096"
    using b c by simp
  finally show ?thesis by (simp add: and_neg_page)
qed

lemma unat_round_up:
  assumes "(n :: 64 word) < - 4096"
  shows "unat ((n + 4096 - 1) AND - 4096) = (unat n + 4095) div 4096 * 4096"
proof -
  have "unat n < 2 ^ 64 - 4096"
    using assms by (simp add: word_less_nat_alt)
  then have "unat (n + 4095) = unat n + 4095"
    by (simp add: unat_word_ariths)
  moreover have "n + 4096 - 1 = n + 4095" by simp
  ultimately show ?thesis by (simp only: unat_and_neg_page)
qed

lemma page_aligned_le_limit:
  assumes "4096 dvd unat (m :: 64 word)"
  shows "m \<le> - 4096"
proof -
  obtain q where q: "unat m = 4096 * q" using assms by (auto simp: dvd_def)
  have "unat m < 2 ^ 64" using unsigned_less[of m, where 'a = nat] by simp
  then have "q < 2 ^ 52" using q by simp
  then have "unat m \<le> 2 ^ 64 - 4096" using q by simp
  then show ?thesis by (simp add: word_le_nat_alt)
qed

lemma stack_size_stored:
  assumes "error lp = NO_ERROR"
  shows "stack_size (snd (launchpad_set_stack_size lp n))
           = (if - 4096 \<le> n then - 4096 else if 0 < n then (n + 4096 - 1) AND - 4096 else 0)"
  using assms
  by (auto simp: launchpad_set_stack_size_def Let_def SIZE_MAX_def PAGE_SIZE_def word_gt_0)

lemma prepare_stack_zero: "stack_size lp = 0 \<Longrightarrow> prepare_stack lp w k = Inr (0, lp, w)"
  by (simp add: prepare_stack_def)

lemma prepare_start_zero_sp:
  "stack_size lp = 0 \<Longrightarrow> entry lp \<noteq> 0 \<Longrightarrow>
     snd (snd (snd (snd (prepare_start lp w to_child k)))) = Some 0"
  by (simp add: prepare_start_def prepare_stack_zero Let_def split: sum.splits prod.splits)

lemma prepare_thread_indep:
  "prepare_thread lp w (k\<lparr>vmo_create := a, vmar_map := b, initial_sp := f, stack_realloc := r\<rparr>)
     = prepare_thread lp w k"
  by (simp add: prepare_thread_def Let_def cong: prod.case_cong if_cong)

lemma send_bootstrap_indep:
  "send_bootstrap lp w thread to_child
     (k\<lparr>vmo_create := a, vmar_map := b, initial_sp := f, stack_realloc := r\<rparr>)
     = send_bootstrap lp w thread to_child k"
  by (simp add: send_bootstrap_def Let_def cong: option.case_cong prod.case_cong if_cong)

lemma prepare_start_zero_indep:
  "stack_size lp = 0 \<Longrightarrow>
     prepare_start lp w to_child
       (k\<lparr>vmo_create := a, vmar_map := b, initial_sp := f, stack_realloc := r\<rparr>)
     = prepare_start lp w to_child k"
  by (simp add: prepare_start_def prepare_stack_zero prepare_thread_indep send_bootstrap_indep
      cong: sum.case_cong prod.case_cong if_cong)

lemma round_up_bounds:
  "(x :: nat) \<le> (x + 4095) div 4096 * 4096 \<and> (x + 4095) div 4096 * 4096 < x + 4096"
proof -
  have "(x + 4095) div 4096 * 4096 + (x + 4095) mod 4096 = x + 4095"
    by (rule div_mult_mod_eq)
  moreover have "(x + 4095) mod 4096 < 4096" by simp
  ultimately show ?thesis by linarith
qed

text \<open>
  C9. For a context that is not in error, \<^verbatim>\<open>launchpad_set_stack_size\<close> returns the old
  size and stores a multiple of the page size: a positive request below the largest
  page-aligned value is rounded up to the next multiple (never to zero), a request at or
  above it is clamped to it, and zero is stored as zero. With a stack size of zero
  \<^verbatim>\<open>prepare_start\<close> allocates no stack: the stack step leaves launchpad and world as they
  are (no handle is added), the stack pointer it hands out is zero, and what
  \<^verbatim>\<open>mx_vmo_create\<close>, \<^verbatim>\<open>mx_vmar_map\<close> and the allocator would have answered for the
  stack has no influence on the result.
\<close>

theorem stack_size_page_rounded:
  assumes "error lp = NO_ERROR"
  shows "case launchpad_set_stack_size lp new_size of
           (old, lp') \<Rightarrow>
             old = stack_size lp
             \<and> unat PAGE_SIZE dvd unat (stack_size lp')
             \<and> (0 < new_size \<longrightarrow> stack_size lp' \<noteq> 0)
             \<and> (new_size < SIZE_MAX AND - PAGE_SIZE \<longrightarrow>
                  unat new_size \<le> unat (stack_size lp')
                  \<and> unat (stack_size lp') < unat new_size + unat PAGE_SIZE)
             \<and> (SIZE_MAX AND - PAGE_SIZE \<le> new_size \<longrightarrow>
                  stack_size lp' = SIZE_MAX AND - PAGE_SIZE)
             \<and> (\<forall>m. unat PAGE_SIZE dvd unat m \<longrightarrow> m \<le> SIZE_MAX AND - PAGE_SIZE)
             \<and> (new_size = 0 \<longrightarrow>
                  stack_size lp' = 0
                  \<and> prepare_stack lp' w k = Inr (0, lp', w)
                  \<and> (entry lp' \<noteq> 0 \<longrightarrow>
                       snd (snd (snd (snd (prepare_start lp' w to_child k)))) = Some 0)
                  \<and> prepare_start lp' w to_child
                       (k\<lparr>vmo_create := a, vmar_map := b, initial_sp := f, stack_realloc := r\<rparr>)
                     = prepare_start lp' w to_child k)"
proof -
  obtain old lp' where e: "launchpad_set_stack_size lp new_size = (old, lp')"
    by (cases "launchpad_set_stack_size lp new_size")
  have old: "old = stack_size lp"
    using e by (simp add: launchpad_set_stack_size_def Let_def)
  have sz: "stack_size lp'
              = (if - 4096 \<le> new_size then - 4096
                 else if 0 < new_size then (new_size + 4096 - 1) AND - 4096 else 0)"
    using stack_size_stored[OF assms, of new_size] e by simp
  have dv: "4096 dvd unat (stack_size lp')"
  proof (cases "- 4096 \<le> new_size")
    case True
    then show ?thesis by (simp add: sz)
  next
    case False
    then have "new_size < - 4096" by simp
    from unat_round_up[OF this] False show ?thesis by (simp add: sz)
  qed
  have nz: "stack_size lp' \<noteq> 0" if "0 < new_size"
  proof (cases "- 4096 \<le> new_size")
    case True
    then show ?thesis by (simp add: sz)
  next
    case False
    then have l: "new_size < - 4096" by simp
    have "0 < unat new_size" using that by (simp add: word_gt_0 unat_gt_0)
    then have "0 < (unat new_size + 4095) div 4096 * 4096" by simp
    then have "unat (stack_size lp') \<noteq> 0"
      using unat_round_up[OF l] False that by (simp add: sz)
    then show ?thesis by (simp add: unat_eq_0)
  qed
  have rd: "unat new_size \<le> unat (stack_size lp')
            \<and> unat (stack_size lp') < unat new_size + 4096" if "new_size < - 4096"
  proof (cases "0 < new_size")
    case True
    have "unat (stack_size lp') = (unat new_size + 4095) div 4096 * 4096"
      using unat_round_up[OF that] that True by (simp add: sz)
    then show ?thesis using round_up_bounds[of "unat new_size"] by simp
  next
    case False
    then have "new_size = 0" by (simp add: word_gt_0)
    then show ?thesis by (simp add: sz)
  qed
  have zero: "stack_size lp' = 0" if "new_size = 0"
    using that by (simp add: sz)
  have lim: "SIZE_MAX AND - PAGE_SIZE = - 4096" and pg: "unat PAGE_SIZE = 4096"
    by (simp_all add: SIZE_MAX_def PAGE_SIZE_def)
  have top: "stack_size lp' = - 4096" if "- 4096 \<le> new_size"
    using that by (simp add: sz)
  show ?thesis
    unfolding e prod.case lim pg
    using old dv nz rd zero top page_aligned_le_limit
      prepare_stack_zero[of lp' w k] prepare_start_zero_sp[of lp' w to_child k]
      prepare_start_zero_indep[where lp = lp' and w = w and to_child = to_child and k = k
        and a = a and b = b and f = f and r = r]
    by blast
qed

text \<open>A request of 5000 bytes, a request of \<^verbatim>\<open>SIZE_MAX\<close> and a request of zero.\<close>

theorem stack_size_page_rounded_witness:
  "fst (launchpad_set_stack_size new_launchpad 5000) = MAGENTA_DEFAULT_STACK_SIZE
   \<and> stack_size (snd (launchpad_set_stack_size new_launchpad 5000)) = 8192
   \<and> stack_size (snd (launchpad_set_stack_size new_launchpad (- 1))) = - 4096
   \<and> stack_size (snd (launchpad_set_stack_size new_launchpad 0)) = 0
   \<and> prepare_stack (snd (launchpad_set_stack_size new_launchpad 0)) world0 answers_ok
       = Inr (0, snd (launchpad_set_stack_size new_launchpad 0), world0)"
  using stack_size_page_rounded[where lp = new_launchpad and new_size = 5000 and w = world0
      and k = answers_ok]
    stack_size_page_rounded[where lp = new_launchpad and new_size = "- 1" and w = world0
      and k = answers_ok]
    stack_size_page_rounded[where lp = new_launchpad and new_size = 0 and w = world0
      and k = answers_ok]
  by (simp add: new_launchpad_def zeroed_launchpad_def NO_ERROR_def
      launchpad_set_stack_size_def SIZE_MAX_def PAGE_SIZE_def split: prod.splits)

subsection \<open>Loading an executable that names an interpreter\<close>

lemma handle_interp_ok:
  assumes "handle_interp lp w vmo path path_len ld svc_new r = (NO_ERROR, lp', w')"
  shows "loader_message lp' \<and> exec_vmo lp' = vmo \<and> error lp' = error lp
     \<and> (\<exists>interp_vmo ielf w1.
           loader_svc_rpc w (if loader_svc lp \<noteq> MX_HANDLE_INVALID then loader_svc lp else svc_new)
             LOADER_SVC_OP_LOAD_OBJECT path path_len r = (interp_vmo, w1)
           \<and> 0 \<le> interp_vmo
           \<and> elf_load_start ld interp_vmo = (NO_ERROR, ielf)
           \<and> fst (elf_load_finish ld (fst (lp_vmar lp)) ielf interp_vmo) = NO_ERROR
           \<and> (case snd (elf_load_finish ld (fst (lp_vmar lp)) ielf interp_vmo) of
                 None \<Rightarrow> base lp' = base lp \<and> entry lp' = entry lp
               | Some (b, e) \<Rightarrow> base lp' = b \<and> entry lp' = e)
           \<and> closed_handles w'
               = closed_handles w1 @ [interp_vmo]
                 @ (if exec_vmo lp \<noteq> MX_HANDLE_INVALID then [exec_vmo lp] else []))"
  using assms
  by (auto simp: handle_interp_def setup_loader_svc_def Let_def lp_vmar_def store_base_entry_def
      mx_handle_close_def undefined_behaviour_def NO_ERROR_def
      split: if_splits prod.splits option.splits)

text \<open>
  C5. When \<^verbatim>\<open>launchpad_elf_load\<close> succeeds on an executable whose interpreter lookup
  gives a path, the loader-message flag is set and the executable's handle is the
  alternate-executable special handle. The loader service was asked for the path and
  answered with a handle \<open>interp_vmo\<close>; \<^verbatim>\<open>elf_load_start\<close> and \<^verbatim>\<open>elf_load_finish\<close>
  ran on that image, and base and entry point of the context are what
  \<^verbatim>\<open>elf_load_finish\<close> stored for it. The call closed \<open>interp_vmo\<close> and the special
  handle that was there before, if there was one; the executable's handle is kept.
\<close>

theorem elf_load_interp:
  assumes "launchpad_elf_load lp w vmo ld svc_new r = (NO_ERROR, lp', w')"
    and "snd (elf_load_get_interp ld (snd (elf_load_start ld vmo)) vmo) = Some (path, path_len)"
  shows "loader_message lp' \<and> exec_vmo lp' = vmo \<and> error lp' = NO_ERROR
     \<and> (\<exists>interp_vmo ielf w1.
           loader_svc_rpc w (if loader_svc lp \<noteq> MX_HANDLE_INVALID then loader_svc lp else svc_new)
             LOADER_SVC_OP_LOAD_OBJECT path path_len r = (interp_vmo, w1)
           \<and> 0 \<le> interp_vmo
           \<and> elf_load_start ld interp_vmo = (NO_ERROR, ielf)
           \<and> fst (elf_load_finish ld (fst (lp_vmar lp)) ielf interp_vmo) = NO_ERROR
           \<and> (case snd (elf_load_finish ld (fst (lp_vmar lp)) ielf interp_vmo) of
                 None \<Rightarrow> base lp' = base lp \<and> entry lp' = entry lp
               | Some (b, e) \<Rightarrow> base lp' = b \<and> entry lp' = e)
           \<and> closed_handles w'
               = closed_handles w1 @ [interp_vmo]
                 @ (if exec_vmo lp \<noteq> MX_HANDLE_INVALID then [exec_vmo lp] else []))"
proof -
  obtain st1 elf where s1: "elf_load_start ld vmo = (st1, elf)"
    by (cases "elf_load_start ld vmo")
  obtain st2 where s2: "elf_load_get_interp ld elf vmo = (st2, Some (path, path_len))"
    using assms(2) s1 by (cases "elf_load_get_interp ld elf vmo") auto
  obtain st3 lp1 w1 where h: "handle_interp lp w vmo path path_len ld svc_new r = (st3, lp1, w1)"
    by (cases "handle_interp lp w vmo path path_len ld svc_new r")
  have e0: "error lp = 0" and v: "0 < vmo" and z1: "st1 = 0" and z2: "st2 = 0"
    using assms(1) lp_error_nonzero[of st1 lp] lp_error_nonzero[of st2 lp]
      lp_error_nonzero[of vmo lp] lp_error_nonzero[of ERR_INVALID_ARGS lp]
    by (auto simp: launchpad_elf_load_def s1 s2 Let_def NO_ERROR_def ERR_INVALID_ARGS_def
        MX_HANDLE_INVALID_def split_beta lp_error_returns[symmetric]
        split: if_splits)
  have z3: "st3 = 0"
  proof (rule ccontr)
    assume n: "st3 \<noteq> 0"
    then have "error (check_elf_stack_size (snd (lp_error lp1 st3 ''elf_load: handle_interp failed'')) ld elf) \<noteq> 0
      \<and> error (snd (lp_error lp1 st3 ''elf_load: handle_interp failed'')) \<noteq> 0"
      using lp_error_nonzero[OF n, of lp1] by (simp add: check_elf_stack_size_frame lp_error_returns)
    then show False using assms(1) e0 v z1 z2 n
      by (simp add: launchpad_elf_load_def s1 s2 h Let_def NO_ERROR_def MX_HANDLE_INVALID_def)
  qed
  have lp': "lp' = check_elf_stack_size lp1 ld elf" and w': "w' = w1"
    using assms(1) e0 v z1 z2 z3
    by (simp_all add: launchpad_elf_load_def s1 s2 h Let_def NO_ERROR_def MX_HANDLE_INVALID_def)
  have f: "loader_message lp' = loader_message lp1" "exec_vmo lp' = exec_vmo lp1"
    "base lp' = base lp1" "entry lp' = entry lp1" "error lp' = error lp1"
    by (simp_all add: lp' check_elf_stack_size_frame)
  have k: "handle_interp lp w vmo path path_len ld svc_new r = (NO_ERROR, lp1, w1)"
    using h z3 by (simp add: NO_ERROR_def)
  show ?thesis
    unfolding f w' using handle_interp_ok[OF k] e0 by (simp add: NO_ERROR_def)
qed

text \<open>
  The sample loader: the executable is handle 12, the interpreter's image comes back as
  handle 13. The entry point is the interpreter's, 0x20040, not the executable's 0x1234.
\<close>

theorem elf_load_interp_witness:
  "fst (launchpad_elf_load sample_launchpad world0 12 sample_loader 14 sample_reply) = NO_ERROR
   \<and> loader_message
        (fst (snd (launchpad_elf_load sample_launchpad world0 12 sample_loader 14 sample_reply)))
   \<and> exec_vmo
        (fst (snd (launchpad_elf_load sample_launchpad world0 12 sample_loader 14 sample_reply)))
       = 12
   \<and> entry
        (fst (snd (launchpad_elf_load sample_launchpad world0 12 sample_loader 14 sample_reply)))
       = 0x20040
   \<and> base
        (fst (snd (launchpad_elf_load sample_launchpad world0 12 sample_loader 14 sample_reply)))
       = 0x20000
   \<and> closed_handles
        (snd (snd (launchpad_elf_load sample_launchpad world0 12 sample_loader 14 sample_reply)))
       = [13]"
  using elf_load_interp[where lp = sample_launchpad and w = world0 and vmo = 12
      and ld = sample_loader and svc_new = 14 and r = sample_reply
      and lp' = "fst (snd (launchpad_elf_load sample_launchpad world0 12 sample_loader 14
                             sample_reply))"
      and w' = "snd (snd (launchpad_elf_load sample_launchpad world0 12 sample_loader 14
                            sample_reply))"
      and path = "''ld.so.1''" and path_len = 7]
  by (simp add: launchpad_elf_load_def handle_interp_def setup_loader_svc_def
      loader_svc_rpc_def sample_launchpad_def sample_loader_def sample_reply_def
      new_launchpad_def zeroed_launchpad_def world0_def lp_vmar_def load_cell_def
      store_base_entry_def check_elf_stack_size_def mx_handle_close_def
      undefined_behaviour_def Let_def status_defs MX_HANDLE_INVALID_def
      LOADER_SVC_MSG_MAX_def sizeof_mx_loader_svc_msg_t_def LOADER_SVC_OP_STATUS_def)

subsection \<open>What a call returns, and calls on a context in error\<close>

lemma more_handles_status:
  "fst (more_handles lp n rh ri) = error (snd (more_handles lp n rh ri))"
  by (simp add: more_handles_def lp_error_def Let_def NO_ERROR_def split: option.splits)

lemma more_handles_stuck: "error lp \<noteq> 0 \<Longrightarrow> more_handles lp n rh ri = (error lp, lp)"
  by (simp add: more_handles_def)

lemma more_handles_codes:
  "error lp = 0 \<Longrightarrow> fst (more_handles lp n rh ri) = NO_ERROR
     \<or> fst (more_handles lp n rh ri) = ERR_NO_MEMORY"
  by (simp add: more_handles_def lp_error_def Let_def NO_ERROR_def split: option.splits)

lemma add_handle_status:
  "fst (launchpad_add_handle lp w h idt rh ri)
     = error (fst (snd (launchpad_add_handle lp w h idt rh ri)))"
  using more_handles_status[of lp 1 rh ri]
  by (simp add: launchpad_add_handle_def lp_error_def Let_def split_beta)

lemma add_handle_codes:
  "error lp = 0 \<Longrightarrow>
     fst (launchpad_add_handle lp w h idt rh ri) \<in> {NO_ERROR, ERR_NO_MEMORY, ERR_BAD_HANDLE}"
  using more_handles_codes[of lp 1 rh ri]
  by (auto simp: launchpad_add_handle_def lp_error_def Let_def split_beta NO_ERROR_def)

lemma add_handle_stuck:
  "error lp \<noteq> 0 \<Longrightarrow>
     launchpad_add_handle lp w h idt rh ri
       = (error lp, lp, if h = MX_HANDLE_INVALID then w else mx_handle_close h w)"
  by (simp add: launchpad_add_handle_def more_handles_stuck lp_error_stuck NO_ERROR_def)

lemma add_handles_status:
  "fst (launchpad_add_handles lp w n h idt rh ri)
     = error (fst (snd (launchpad_add_handles lp w n h idt rh ri)))"
  using more_handles_status[of lp n rh ri]
  by (simp add: launchpad_add_handles_def lp_error_def Let_def split_beta NO_ERROR_def)

lemma add_handles_stuck:
  "error lp \<noteq> 0 \<Longrightarrow>
     launchpad_add_handles lp w n h idt rh ri
       = (error lp, lp,
          undefined_behaviour (length h < unat n \<or> length idt < unat n)
            (fold mx_handle_close (take (unat n) h) w))"
  by (simp add: launchpad_add_handles_def more_handles_stuck NO_ERROR_def)

lemma set_args_status:
  "fst (launchpad_set_args lp w a v v' ok) = error (fst (snd (launchpad_set_args lp w a v v' ok)))"
  by (simp add: launchpad_set_args_def lp_error_def Let_def NO_ERROR_def)

lemma set_environ_status:
  "fst (launchpad_set_environ lp w e e' ok)
     = error (fst (snd (launchpad_set_environ lp w e e' ok)))"
  by (simp add: launchpad_set_environ_def lp_error_def Let_def NO_ERROR_def)

lemma elf_load_basic_status:
  "fst (launchpad_elf_load_basic lp w vmo ld)
     = error (fst (snd (launchpad_elf_load_basic lp w vmo ld)))"
  by (simp add: launchpad_elf_load_basic_def lp_error_def Let_def split_beta)

lemma elf_load_extra_status:
  "fst (launchpad_elf_load_extra lp w vmo ld)
     = error (fst (snd (launchpad_elf_load_extra lp w vmo ld)))"
  by (simp add: launchpad_elf_load_extra_def lp_error_def Let_def split_beta)

lemma elf_load_status:
  "fst (launchpad_elf_load lp w vmo ld svc_new r)
     = error (fst (snd (launchpad_elf_load lp w vmo ld svc_new r)))"
  by (simp add: launchpad_elf_load_def lp_error_def Let_def split_beta split: option.splits)

lemma add_pipe_status:
  "fst (launchpad_add_pipe lp w fd pipe rh ri)
     = error (fst (snd (launchpad_add_pipe lp w fd pipe rh ri)))"
proof (cases "error lp = 0")
  case False
  then show ?thesis by (simp add: launchpad_add_pipe_def)
next
  case True
  obtain pfd handle idt where p: "pipe = (pfd, handle, idt)" by (cases pipe)
  let ?a = "launchpad_add_handle lp w handle
              (MX_HND_INFO (MX_HND_INFO_TYPE idt) (word_of_int fd)) rh ri"
  have c: "fst ?a \<in> {NO_ERROR, ERR_NO_MEMORY, ERR_BAD_HANDLE}"
    using True by (rule add_handle_codes)
  have e: "fst ?a = error (fst (snd ?a))" by (rule add_handle_status)
  show ?thesis using True c e
    by (auto simp: launchpad_add_pipe_def p lp_error_def Let_def split_beta status_defs)
qed

lemma add_vdso_vmo_status:
  "fst (launchpad_add_vdso_vmo lp w startup dup rh ri)
     = error (fst (snd (launchpad_add_vdso_vmo lp w startup dup rh ri)))"
  by (simp add: launchpad_add_vdso_vmo_def lp_error_def Let_def split_beta add_handle_status)

lemma load_vdso_status:
  "fst (launchpad_load_vdso lp w vmo ld startup)
     = error (fst (snd (launchpad_load_vdso lp w vmo ld startup)))"
proof -
  have "\<And>w' v. fst (launchpad_elf_load_extra lp w' v ld)
          = error (case snd (snd (snd (launchpad_elf_load_extra lp w' v ld))) of
                     None \<Rightarrow> fst (snd (launchpad_elf_load_extra lp w' v ld))
                   | Some (b, e) \<Rightarrow> fst (snd (launchpad_elf_load_extra lp w' v ld))\<lparr>vdso_base := b\<rparr>)"
    by (simp add: elf_load_extra_status split: option.splits)
  then show ?thesis
    by (simp add: launchpad_load_vdso_def Let_def split_beta)
qed

lemma elf_load_with_vdso_status:
  "fst (launchpad_elf_load_with_vdso lp w vmo ld svc_new r startup dup rh ri)
     = error (fst (snd (launchpad_elf_load_with_vdso lp w vmo ld svc_new r startup dup rh ri)))"
  by (simp add: launchpad_elf_load_with_vdso_def Let_def split_beta add_vdso_vmo_status)

lemma set_args_stuck:
  "error lp \<noteq> 0 \<Longrightarrow> launchpad_set_args lp w a v v' ok = (error lp, lp, w)"
  by (simp add: launchpad_set_args_def)

lemma set_environ_stuck:
  "error lp \<noteq> 0 \<Longrightarrow> launchpad_set_environ lp w e e' ok = (error lp, lp, w)"
  by (simp add: launchpad_set_environ_def)

lemma add_pipe_stuck:
  "error lp \<noteq> 0 \<Longrightarrow> launchpad_add_pipe lp w fd pipe rh ri = (error lp, lp, w, None)"
  by (simp add: launchpad_add_pipe_def)

lemma elf_load_basic_stuck:
  "error lp \<noteq> 0 \<Longrightarrow>
     launchpad_elf_load_basic lp w vmo ld
       = (error lp, lp, if 0 < vmo then mx_handle_close vmo w else w)"
  by (auto simp: launchpad_elf_load_basic_def lp_error_stuck MX_HANDLE_INVALID_def)

lemma elf_load_extra_stuck:
  "error lp \<noteq> 0 \<Longrightarrow> launchpad_elf_load_extra lp w vmo ld = (error lp, lp, w, None)"
  by (simp add: launchpad_elf_load_extra_def)

lemma elf_load_stuck:
  "error lp \<noteq> 0 \<Longrightarrow>
     launchpad_elf_load lp w vmo ld svc_new r
       = (error lp, lp, if 0 < vmo then mx_handle_close vmo w else w)"
  by (auto simp: launchpad_elf_load_def lp_error_stuck MX_HANDLE_INVALID_def)

lemma add_vdso_vmo_stuck:
  "error lp \<noteq> 0 \<Longrightarrow> launchpad_add_vdso_vmo lp w startup dup rh ri = (error lp, lp, w)"
  by (simp add: launchpad_add_vdso_vmo_def)

lemma load_vdso_stuck:
  "error lp \<noteq> 0 \<Longrightarrow>
     launchpad_load_vdso lp w vmo ld startup
       = (error lp, lp,
          if vmo \<noteq> MX_HANDLE_INVALID then w else snd (vdso_get_vmo w startup))"
  by (simp add: launchpad_load_vdso_def elf_load_extra_stuck split_beta)

lemma elf_load_with_vdso_stuck:
  "error lp \<noteq> 0 \<Longrightarrow>
     launchpad_elf_load_with_vdso lp w vmo ld svc_new r startup dup rh ri
       = (error lp, lp,
          snd (vdso_get_vmo (if 0 < vmo then mx_handle_close vmo w else w) startup))"
  by (simp add: launchpad_elf_load_with_vdso_def elf_load_stuck load_vdso_stuck
      add_vdso_vmo_stuck MX_HANDLE_INVALID_def)

lemma use_loader_service_stuck:
  "error lp \<noteq> 0 \<Longrightarrow>
     launchpad_use_loader_service lp w svc = (error lp, lp, mx_handle_close svc w)"
  by (simp add: launchpad_use_loader_service_def)

lemma start_stuck: "error lp \<noteq> 0 \<Longrightarrow> launchpad_start lp w k = (error lp, lp, w)"
  by (simp add: launchpad_start_def)

lemma start_injected_stuck:
  "error lp \<noteq> 0 \<Longrightarrow> launchpad_start_injected lp w c a k ts = (error lp, lp, w)"
  by (simp add: launchpad_start_injected_def)

lemma abort_stuck: "error lp \<noteq> 0 \<Longrightarrow> launchpad_abort lp e msg = lp"
  by (simp add: launchpad_abort_def lp_error_stuck)

lemma set_stack_size_stuck:
  "error lp \<noteq> 0 \<Longrightarrow> launchpad_set_stack_size lp n = (stack_size lp, lp)"
  by (simp add: launchpad_set_stack_size_def Let_def NO_ERROR_def)

lemma send_loader_message_stuck:
  "error lp \<noteq> 0 \<Longrightarrow> launchpad_send_loader_message lp b = (loader_message lp, lp)"
  by (simp add: launchpad_send_loader_message_def)

lemma lp_error_latched:
  "e \<noteq> 0 \<Longrightarrow> error lp = 0 \<or> error lp = e \<Longrightarrow>
     fst (lp_error lp e msg) = e \<and> error (snd (lp_error lp e msg)) = e"
  by (auto simp: lp_error_def Let_def NO_ERROR_def)

lemma prepare_stack_status:
  assumes "error lp = 0"
  shows "case prepare_stack lp w k of
           Inl (s, lp1, w1, sp) \<Rightarrow> s \<noteq> 0 \<and> error lp1 = s
         | Inr (sp, lp1, w1) \<Rightarrow> error lp1 = 0"
proof -
  obtain st0 stack_vmo where a: "vmo_create k = (st0, stack_vmo)" by (cases "vmo_create k")
  obtain st1 stack_base where b: "vmar_map k = (st1, stack_base)" by (cases "vmar_map k")
  obtain vh out where c: "lp_vmar lp = (vh, out)" by (cases "lp_vmar lp")
  let ?ah = "launchpad_add_handle lp (undefined_behaviour out w) stack_vmo MX_HND_TYPE_STACK_VMO
               (fst (stack_realloc k)) (snd (stack_realloc k))"
  obtain s2 lp2 w2 where d: "?ah = (s2, lp2, w2)" by (cases ?ah)
  have e: "s2 = error lp2" using add_handle_status[of lp "undefined_behaviour out w" stack_vmo
      MX_HND_TYPE_STACK_VMO "fst (stack_realloc k)" "snd (stack_realloc k)"] d by simp
  show ?thesis
    using assms e lp_error_latched[of s2 lp2 "''cannot map stack vmo''"]
      lp_error_latched[of st1 lp "''cannot map stack vmo''"]
      lp_error_latched[of st0 lp "''cannot create stack vmo''"]
    by (auto simp: prepare_stack_def a b c d Let_def NO_ERROR_def split_beta)
qed

lemma prepare_thread_status:
  assumes "error lp = 0"
  shows "case prepare_thread lp w k of
           Inl (s, lp1, w1, thr) \<Rightarrow> s \<noteq> 0 \<and> error lp1 = s
         | Inr (thread, lp1, w1) \<Rightarrow> error lp1 = 0"
proof -
  obtain st0 thread where a: "thread_create k = (st0, thread)" by (cases "thread_create k")
  obtain st1 thread_copy where b: "thread_dup k = (st1, thread_copy)" by (cases "thread_dup k")
  obtain ph out where c: "lp_proc lp = (ph, out)" by (cases "lp_proc lp")
  let ?ah = "launchpad_add_handle lp (undefined_behaviour out w) thread_copy
               MX_HND_TYPE_THREAD_SELF (fst (thread_realloc k)) (snd (thread_realloc k))"
  obtain s2 lp2 w2 where d: "?ah = (s2, lp2, w2)" by (cases ?ah)
  have e: "s2 = error lp2" using add_handle_status[of lp "undefined_behaviour out w" thread_copy
      MX_HND_TYPE_THREAD_SELF "fst (thread_realloc k)" "snd (thread_realloc k)"] d by simp
  show ?thesis
    using assms e
      lp_error_latched[of st0 lp "''cannot create initial thread''"]
      lp_error_latched[of st1 lp "''cannot duplicate thread handle''"]
    by (auto simp: prepare_thread_def a b c d Let_def NO_ERROR_def split_beta)
qed

lemma send_loader_message_error:
  "error (fst (snd (send_loader_message lp w t c k))) = error lp"
  by (simp add: send_loader_message_def Let_def split_beta)

lemma send_bootstrap_status:
  assumes "error lp = 0"
  shows "fst (send_bootstrap lp w t c k) = error (fst (snd (send_bootstrap lp w t c k)))"
  using assms
  by (simp add: send_bootstrap_def lp_error_def Let_def NO_ERROR_def split: option.splits)

lemma prepare_start_status:
  assumes "error lp = 0"
  shows "case prepare_start lp w c k of
           (st, lp1, w1, thr, sp) \<Rightarrow> error lp1 = st \<or> (error lp1 = 0 \<and> st \<noteq> 0)"
proof (cases "entry lp = 0")
  case True
  then show ?thesis using assms by (simp add: prepare_start_def ERR_BAD_STATE_def)
next
  case False
  note ne = this
  show ?thesis
  proof (cases "prepare_stack lp w k")
    case (Inl x)
    then show ?thesis using ne prepare_stack_status[OF assms, of w k]
      by (auto simp: prepare_start_def)
  next
    case (Inr y)
    obtain sp lp1 w1 where y: "y = (sp, lp1, w1)" by (cases y)
    have e1: "error lp1 = 0" using prepare_stack_status[OF assms, of w k] Inr y by simp
    show ?thesis
    proof (cases "prepare_thread lp1 w1 k")
      case (Inl x)
      then show ?thesis using ne Inr y prepare_thread_status[OF e1, of w1 k]
        by (auto simp: prepare_start_def)
    next
      case (Inr z)
      obtain thread lp2 w2 where z: "z = (thread, lp2, w2)" by (cases z)
      have e2: "error lp2 = 0" using prepare_thread_status[OF e1, of w1 k] Inr z by simp
      let ?lm = "if loader_message lp2 then send_loader_message lp2 w2 thread c (loader_msg k)
                 else (NO_ERROR, lp2, w2)"
      obtain st lp3 w3 where l: "?lm = (st, lp3, w3)" by (cases ?lm)
      have e3: "error lp3 = 0"
        using l e2 send_loader_message_error[of lp2 w2 thread c "loader_msg k"]
        by (auto split: if_splits)
      show ?thesis
        using ne \<open>prepare_stack lp w k = Inr y\<close> y Inr z l e3
          send_bootstrap_status[OF e3, of w3 thread c k]
          lp_error_latched[of st lp3 "''failed to send loader message''"]
        by (auto simp: prepare_start_def Let_def split_beta NO_ERROR_def)
    qed
  qed
qed

lemma start_injected_status:
  "fst (launchpad_start_injected lp w c a k ts)
     = error (fst (snd (launchpad_start_injected lp w c a k ts)))"
proof (cases "error lp = 0")
  case False
  then show ?thesis by (simp add: start_injected_stuck)
next
  case True
  obtain st lp1 w1 thr sp where p: "prepare_start lp w c k = (st, lp1, w1, thr, sp)"
    by (cases "prepare_start lp w c k")
  have d: "error lp1 = st \<or> (error lp1 = 0 \<and> st \<noteq> 0)"
    using prepare_start_status[OF True, of w c k] p by simp
  show ?thesis
  proof (cases "st = 0")
    case False
    then show ?thesis
      using True d lp_error_latched[of st lp1 "''start_injected: prepare_start() failed''"]
      by (auto simp: launchpad_start_injected_def p NO_ERROR_def)
  next
    case z: True
    then have e1: "error lp1 = 0" using d by simp
    show ?thesis
      using True z e1
        lp_error_latched[of ts lp1 "''start_injected: mx_thread_start() failed''"]
      by (auto simp: launchpad_start_injected_def p Let_def NO_ERROR_def)
  qed
qed

lemma start_status:
  "error (fst (snd (launchpad_start lp w k))) \<noteq> 0 \<Longrightarrow>
     fst (launchpad_start lp w k) = error (fst (snd (launchpad_start lp w k)))"
proof (cases "error lp = 0")
  case False
  then show ?thesis by (simp add: start_stuck)
next
  case True
  assume n: "error (fst (snd (launchpad_start lp w k))) \<noteq> 0"
  obtain ph out where a: "lp_proc lp = (ph, out)" by (cases "lp_proc lp")
  obtain st0 proc where b: "proc_dup k = (st0, proc)" by (cases "proc_dup k")
  obtain st1 c0 c1 where c: "channel_create k = (st1, c0, c1)"
    by (cases "channel_create k") auto
  obtain st lp1 w1 thr sp where
    p: "prepare_start lp (undefined_behaviour out w) c0 (prepare k) = (st, lp1, w1, thr, sp)"
    by (cases "prepare_start lp (undefined_behaviour out w) c0 (prepare k)")
  have d: "error lp1 = st \<or> (error lp1 = 0 \<and> st \<noteq> 0)"
    using prepare_start_status[OF True, of "undefined_behaviour out w" c0 "prepare k"] p by simp
  show ?thesis
  proof (cases "st0 < 0")
    case True
    then show ?thesis using \<open>error lp = 0\<close>
      by (simp add: launchpad_start_def a b lp_error_def Let_def NO_ERROR_def)
  next
    case f0: False
    show ?thesis
    proof (cases "st1 = 0")
      case False
      then show ?thesis using \<open>error lp = 0\<close> f0
        by (simp add: launchpad_start_def a b c lp_error_def Let_def NO_ERROR_def)
    next
      case z1: True
      show ?thesis
      proof (cases "st = 0")
        case False
        then show ?thesis
          using \<open>error lp = 0\<close> f0 z1 d
            lp_error_latched[of st lp1 "''start: prepare_start() failed''"]
          by (auto simp: launchpad_start_def a b c p NO_ERROR_def)
      next
        case z: True
        then have e1: "error lp1 = 0" using d by simp
        show ?thesis
          using \<open>error lp = 0\<close> f0 z1 z e1 n
            lp_error_latched[of "process_start k" lp1 "''start: mx_process_start() failed''"]
          by (auto simp: launchpad_start_def a b c p Let_def NO_ERROR_def)
      qed
    qed
  qed
qed

lemma use_loader_service_status:
  "error (fst (snd (launchpad_use_loader_service lp w svc))) \<noteq> 0 \<Longrightarrow>
     fst (launchpad_use_loader_service lp w svc)
       = error (fst (snd (launchpad_use_loader_service lp w svc)))"
  by (simp add: launchpad_use_loader_service_def split: if_splits)

lemma more_handles_stack_size:
  "stack_size (snd (more_handles lp n rh ri)) = stack_size lp"
  by (simp add: more_handles_def lp_error_def Let_def split: option.splits)

lemma add_handle_stack_size:
  "stack_size (fst (snd (launchpad_add_handle lp w h idt rh ri))) = stack_size lp"
  using more_handles_stack_size[of lp 1 rh ri]
  by (simp add: launchpad_add_handle_def lp_error_def Let_def split_beta)

lemma prepare_stack_cases:
  "case prepare_stack lp w k of
     Inl (s, lp1, w1, sp) \<Rightarrow> s \<noteq> 0
   | Inr (sp, lp1, w1) \<Rightarrow> stack_size lp1 = stack_size lp"
proof -
  obtain st0 stack_vmo where a: "vmo_create k = (st0, stack_vmo)" by (cases "vmo_create k")
  obtain st1 stack_base where b: "vmar_map k = (st1, stack_base)" by (cases "vmar_map k")
  obtain vh out where c: "lp_vmar lp = (vh, out)" by (cases "lp_vmar lp")
  let ?ah = "launchpad_add_handle lp (undefined_behaviour out w) stack_vmo MX_HND_TYPE_STACK_VMO
               (fst (stack_realloc k)) (snd (stack_realloc k))"
  obtain s2 lp2 w2 where d: "?ah = (s2, lp2, w2)" by (cases ?ah)
  have e: "stack_size lp2 = stack_size lp"
    using add_handle_stack_size[of lp "undefined_behaviour out w" stack_vmo
      MX_HND_TYPE_STACK_VMO "fst (stack_realloc k)" "snd (stack_realloc k)"] d by simp
  show ?thesis
    using e lp_error_nonzero[of s2 lp2 "''cannot map stack vmo''"]
      lp_error_nonzero[of st1 lp "''cannot map stack vmo''"]
      lp_error_nonzero[of st0 lp "''cannot create stack vmo''"]
    by (auto simp: prepare_stack_def a b c d Let_def NO_ERROR_def split_beta)
qed

lemma prepare_thread_cases:
  "case prepare_thread lp w k of
     Inl (s, lp1, w1, thr) \<Rightarrow> s \<noteq> 0
   | Inr (t, lp1, w1) \<Rightarrow> stack_size lp1 = stack_size lp"
proof -
  obtain st0 thread where a: "thread_create k = (st0, thread)" by (cases "thread_create k")
  obtain st1 thread_copy where b: "thread_dup k = (st1, thread_copy)" by (cases "thread_dup k")
  obtain ph out where c: "lp_proc lp = (ph, out)" by (cases "lp_proc lp")
  let ?ah = "launchpad_add_handle lp (undefined_behaviour out w) thread_copy
               MX_HND_TYPE_THREAD_SELF (fst (thread_realloc k)) (snd (thread_realloc k))"
  obtain s2 lp2 w2 where d: "?ah = (s2, lp2, w2)" by (cases ?ah)
  have e: "stack_size lp2 = stack_size lp"
    using add_handle_stack_size[of lp "undefined_behaviour out w" thread_copy
      MX_HND_TYPE_THREAD_SELF "fst (thread_realloc k)" "snd (thread_realloc k)"] d by simp
  show ?thesis
    using e
      lp_error_nonzero[of st0 lp "''cannot create initial thread''"]
      lp_error_nonzero[of st1 lp "''cannot duplicate thread handle''"]
    by (auto simp: prepare_thread_def a b c d Let_def NO_ERROR_def split_beta)
qed

lemma send_loader_message_stack_size:
  "stack_size (fst (snd (send_loader_message lp w t c k))) = stack_size lp"
  by (simp add: send_loader_message_def Let_def split_beta)

lemma send_bootstrap_ok:
  assumes "send_bootstrap lp w t c k = (NO_ERROR, lp', w')"
  shows "handle_count lp' = 0 \<and> stack_size lp' = stack_size lp
         \<and> (\<exists>msg hs. sent w' = sent w @ [(c, msg, hs)]
               \<and> msg_size msg \<le> stack_size lp div 2
               \<and> take (length hs) (handles lp') = replicate (length hs) MX_HANDLE_INVALID)"
proof -
  have n: "\<And>e m. e \<noteq> 0 \<Longrightarrow> fst (lp_error lp e m) \<noteq> NO_ERROR"
    using lp_error_nonzero by (simp add: NO_ERROR_def)
  obtain msg where m: "build_message lp (build_malloc_ok k) = Some msg"
    using assms n[of ERR_NO_MEMORY]
    by (cases "build_message lp (build_malloc_ok k)")
      (auto simp: send_bootstrap_def split_beta ERR_NO_MEMORY_def)
  have le: "msg_size msg \<le> stack_size lp div 2"
    using assms n[of ERR_BUFFER_TOO_SMALL]
    by (auto simp: send_bootstrap_def m Let_def split_beta ERR_BUFFER_TOO_SMALL_def not_less
        split: if_splits)
  have ok: "channel_write k = NO_ERROR"
    using assms le n[of "channel_write k"]
    by (auto simp: send_bootstrap_def m Let_def split_beta not_less NO_ERROR_def
        split: if_splits)
  have nl: "\<not> stack_size lp div 2 < msg_size msg" using le by (simp add: not_less)
  show ?thesis
    using assms le
    by (auto simp: send_bootstrap_def m ok nl Let_def undefined_behaviour_def min_def)
qed

lemma prepare_start_ok:
  assumes "prepare_start lp w c k = (NO_ERROR, lp', w', thr, sp)"
  shows "handle_count lp' = 0
         \<and> (\<exists>ws msg hs. sent w' = ws @ [(c, msg, hs)]
               \<and> msg_size msg \<le> stack_size lp div 2
               \<and> take (length hs) (handles lp') = replicate (length hs) MX_HANDLE_INVALID)"
proof -
  have ne: "entry lp \<noteq> 0"
    using assms by (auto simp: prepare_start_def status_defs)
  show ?thesis
  proof (cases "prepare_stack lp w k")
    case (Inl x)
    then show ?thesis using assms ne prepare_stack_cases[of lp w k]
      by (auto simp: prepare_start_def NO_ERROR_def)
  next
    case (Inr y)
    obtain sp1 lp1 w1 where y: "y = (sp1, lp1, w1)" by (cases y)
    have s1: "stack_size lp1 = stack_size lp" using prepare_stack_cases[of lp w k] Inr y by simp
    show ?thesis
    proof (cases "prepare_thread lp1 w1 k")
      case (Inl x)
      then show ?thesis using assms ne Inr y prepare_thread_cases[of lp1 w1 k]
        by (auto simp: prepare_start_def NO_ERROR_def)
    next
      case (Inr z)
      obtain thread lp2 w2 where z: "z = (thread, lp2, w2)" by (cases z)
      have s2: "stack_size lp2 = stack_size lp"
        using prepare_thread_cases[of lp1 w1 k] Inr z s1 by simp
      let ?lm = "if loader_message lp2 then send_loader_message lp2 w2 thread c (loader_msg k)
                 else (NO_ERROR, lp2, w2)"
      obtain st lp3 w3 where l: "?lm = (st, lp3, w3)" by (cases ?lm)
      have s3: "stack_size lp3 = stack_size lp"
        using l s2 send_loader_message_stack_size[of lp2 w2 thread c "loader_msg k"]
        by (auto split: if_splits)
      have z0: "st = 0"
        using assms ne \<open>prepare_stack lp w k = Inr y\<close> y Inr z l
          lp_error_nonzero[of st lp3 "''failed to send loader message''"]
        by (auto simp: prepare_start_def Let_def split_beta NO_ERROR_def split: if_splits)
      have sb: "send_bootstrap lp3 w3 thread c k = (NO_ERROR, lp', w')"
        using assms ne \<open>prepare_stack lp w k = Inr y\<close> y Inr z l z0
        by (auto simp: prepare_start_def Let_def split_beta NO_ERROR_def prod_eq_iff
            split: if_splits)
      show ?thesis using send_bootstrap_ok[OF sb] s3 by auto
    qed
  qed
qed

subsection \<open>The bootstrap message and the stack\<close>

lemma send_bootstrap_fit:
  assumes "error lp = NO_ERROR" and "build_malloc_ok k"
  shows "case send_bootstrap lp w thread to_child k of
           (st, lp', w') \<Rightarrow>
             (stack_size lp div 2 < build_message_total lp \<longrightarrow>
                st = ERR_BUFFER_TOO_SMALL \<and> error lp' = ERR_BUFFER_TOO_SMALL
                \<and> sent w' = sent w
                \<and> handles lp' = handles lp \<and> handle_count lp' = handle_count lp)
             \<and> (build_message_total lp \<le> stack_size lp div 2 \<and> channel_write k = NO_ERROR \<longrightarrow>
                  st = NO_ERROR \<and> handle_count lp' = 0
                  \<and> length (handles lp') = length (handles lp)
                  \<and> (\<forall>i < unat (handle_count lp). i < length (handles lp') \<longrightarrow>
                        handles lp' ! i = MX_HANDLE_INVALID)
                  \<and> (\<exists>msg. sent w'
                              = sent w @ [(to_child, msg, take (unat (handle_count lp)) (handles lp))]
                        \<and> msg_size msg = build_message_total lp))"
proof -
  obtain msg where m: "build_message lp (build_malloc_ok k) = Some msg"
    and sz: "msg_size msg = build_message_total lp"
    using assms(2) by (auto simp: build_message_def Let_def)
  show ?thesis
  proof (cases "stack_size lp div 2 < build_message_total lp")
    case True
    then have "\<not> build_message_total lp \<le> stack_size lp div 2" by (simp add: not_le)
    with True show ?thesis using assms(1)
      by (simp add: send_bootstrap_def m sz Let_def lp_error_def mx_handle_close_def
          undefined_behaviour_def status_defs)
  next
    case False
    then have le: "build_message_total lp \<le> stack_size lp div 2" by simp
    show ?thesis
    proof (cases "channel_write k = NO_ERROR")
      case True
      then show ?thesis using False le
        by (auto simp: send_bootstrap_def m sz Let_def undefined_behaviour_def nth_append
            min_def)
    next
      case False
      moreover have "\<not> stack_size lp div 2 < build_message_total lp"
        using le by (simp add: not_less)
      ultimately show ?thesis by (simp add: split_beta)
    qed
  qed
qed

text \<open>
  C3. At the last step of \<^verbatim>\<open>prepare_start\<close> (the context is not in error there, and the
  message could be allocated): a message larger than half the stack size makes the step
  return \<^verbatim>\<open>ERR_BUFFER_TOO_SMALL\<close> and latch it, nothing is written on the channel and
  the table is as it was; a message of at most half the stack size is written, and when the
  write succeeds the step returns \<^verbatim>\<open>NO_ERROR\<close>, the message went out with the handles of
  the table, the count is zero and every slot below the old count holds the invalid handle.
  For \<^verbatim>\<open>prepare_start\<close> as a whole: whenever it returns \<^verbatim>\<open>NO_ERROR\<close>, the last
  message written on the channel is at most half the stack size, the count is zero and the
  slots of the handles that went out hold the invalid handle.
\<close>

theorem bootstrap_stack_fit:
  assumes "error lp = NO_ERROR" and "build_malloc_ok k"
  shows "(case send_bootstrap lp w thread to_child k of
            (st, lp', w') \<Rightarrow>
              (stack_size lp div 2 < build_message_total lp \<longrightarrow>
                 st = ERR_BUFFER_TOO_SMALL \<and> error lp' = ERR_BUFFER_TOO_SMALL
                 \<and> sent w' = sent w
                 \<and> handles lp' = handles lp \<and> handle_count lp' = handle_count lp)
              \<and> (build_message_total lp \<le> stack_size lp div 2 \<and> channel_write k = NO_ERROR \<longrightarrow>
                   st = NO_ERROR \<and> handle_count lp' = 0
                   \<and> length (handles lp') = length (handles lp)
                   \<and> (\<forall>i < unat (handle_count lp). i < length (handles lp') \<longrightarrow>
                         handles lp' ! i = MX_HANDLE_INVALID)
                   \<and> (\<exists>msg. sent w'
                               = sent w @ [(to_child, msg, take (unat (handle_count lp)) (handles lp))]
                         \<and> msg_size msg = build_message_total lp)))
         \<and> (fst (prepare_start lp0 w0 to_child k0) = NO_ERROR \<longrightarrow>
              handle_count (fst (snd (prepare_start lp0 w0 to_child k0))) = 0
              \<and> (\<exists>ws msg hs.
                    sent (fst (snd (snd (prepare_start lp0 w0 to_child k0))))
                      = ws @ [(to_child, msg, hs)]
                    \<and> msg_size msg \<le> stack_size lp0 div 2
                    \<and> take (length hs) (handles (fst (snd (prepare_start lp0 w0 to_child k0))))
                        = replicate (length hs) MX_HANDLE_INVALID))"
proof (intro conjI impI)
  show "case send_bootstrap lp w thread to_child k of
            (st, lp', w') \<Rightarrow>
              (stack_size lp div 2 < build_message_total lp \<longrightarrow>
                 st = ERR_BUFFER_TOO_SMALL \<and> error lp' = ERR_BUFFER_TOO_SMALL
                 \<and> sent w' = sent w
                 \<and> handles lp' = handles lp \<and> handle_count lp' = handle_count lp)
              \<and> (build_message_total lp \<le> stack_size lp div 2 \<and> channel_write k = NO_ERROR \<longrightarrow>
                   st = NO_ERROR \<and> handle_count lp' = 0
                   \<and> length (handles lp') = length (handles lp)
                   \<and> (\<forall>i < unat (handle_count lp). i < length (handles lp') \<longrightarrow>
                         handles lp' ! i = MX_HANDLE_INVALID)
                   \<and> (\<exists>msg. sent w'
                               = sent w @ [(to_child, msg, take (unat (handle_count lp)) (handles lp))]
                         \<and> msg_size msg = build_message_total lp))"
    by (rule send_bootstrap_fit[OF assms])
next
  assume ok: "fst (prepare_start lp0 w0 to_child k0) = NO_ERROR"
  obtain lp' w' thr sp where
    e: "prepare_start lp0 w0 to_child k0 = (NO_ERROR, lp', w', thr, sp)"
    using ok by (cases "prepare_start lp0 w0 to_child k0") auto
  from prepare_start_ok[OF e]
  show "handle_count (fst (snd (prepare_start lp0 w0 to_child k0))) = 0"
    and "\<exists>ws msg hs.
           sent (fst (snd (snd (prepare_start lp0 w0 to_child k0)))) = ws @ [(to_child, msg, hs)]
           \<and> msg_size msg \<le> stack_size lp0 div 2
           \<and> take (length hs) (handles (fst (snd (prepare_start lp0 w0 to_child k0))))
               = replicate (length hs) MX_HANDLE_INVALID"
    by (simp_all add: e)
qed

text \<open>
  A stack of 4096 bytes: a message of 2049 bytes is refused and nothing is sent; a message
  of 2048 bytes is sent. And a whole \<^verbatim>\<open>prepare_start\<close> on the sample context, where every
  call of the outside succeeds.
\<close>

theorem bootstrap_stack_fit_witness:
  "build_message_total (with_args 2021) = 2049
   \<and> fst (send_bootstrap (with_args 2021) world0 6 11 answers_ok) = ERR_BUFFER_TOO_SMALL
   \<and> sent (snd (snd (send_bootstrap (with_args 2021) world0 6 11 answers_ok))) = []
   \<and> build_message_total (with_args 2020) = 2048
   \<and> fst (send_bootstrap (with_args 2020) world0 6 11 answers_ok) = NO_ERROR
   \<and> handle_count (fst (snd (send_bootstrap (with_args 2020) world0 6 11 answers_ok))) = 0
   \<and> fst (prepare_start sample_loaded world0 11 answers_ok) = NO_ERROR
   \<and> handle_count (fst (snd (prepare_start sample_loaded world0 11 answers_ok))) = 0"
proof -
  have p: "fst (prepare_start sample_loaded world0 11 answers_ok) = NO_ERROR"
    by (simp add: prepare_start_def prepare_stack_def prepare_thread_def send_bootstrap_def
        build_message_def build_message_total_def launchpad_add_handle_def more_handles_def
        store_cells_def lp_vmar_def lp_proc_def load_cell_def sample_loaded_def
        sample_launchpad_def new_launchpad_def zeroed_launchpad_def answers_ok_def
        world0_def undefined_behaviour_def Let_def status_defs MX_HANDLE_INVALID_def
        sizeof_mx_proc_args_t_def)
  show ?thesis
    using bootstrap_stack_fit[where lp = "with_args 2021" and k = answers_ok and w = world0
        and thread = 6 and to_child = 11 and lp0 = sample_loaded and w0 = world0
        and k0 = answers_ok]
      bootstrap_stack_fit[where lp = "with_args 2020" and k = answers_ok and w = world0
        and thread = 6 and to_child = 11 and lp0 = sample_loaded and w0 = world0
        and k0 = answers_ok]
      p
    by (simp add: with_args_def new_launchpad_def zeroed_launchpad_def answers_ok_def
        build_message_total_def sizeof_mx_proc_args_t_def NO_ERROR_def world0_def split_beta)
qed

subsection \<open>The sticky error\<close>

lemma closed_fold_close:
  "closed_handles (fold mx_handle_close hs w) = closed_handles w @ hs"
  by (induction hs arbitrary: w) (simp_all add: mx_handle_close_def)

lemma closed_vdso_get_vmo: "closed_handles (snd (vdso_get_vmo w startup)) = closed_handles w"
  by (simp add: vdso_get_vmo_def)

lemma call_stuck:
  assumes "error lp \<noteq> 0"
  shows "fst (snd (launchpad_call c lp w)) = lp
         \<and> closed_handles (snd (snd (launchpad_call c lp w)))
             = closed_handles w @ handles_passed c
         \<and> (returns_status c \<or> returns_handle c \<longrightarrow>
               fst (launchpad_call c lp w) = Status (error lp))"
  using assms
  by (cases c)
    (simp_all add: set_args_stuck set_environ_stuck add_handle_stuck add_handles_stuck
      add_pipe_stuck elf_load_basic_stuck elf_load_extra_stuck elf_load_stuck
      add_vdso_vmo_stuck load_vdso_stuck elf_load_with_vdso_stuck use_loader_service_stuck
      start_stuck start_injected_stuck abort_stuck set_stack_size_stuck
      send_loader_message_stuck closed_fold_close closed_vdso_get_vmo mx_handle_close_def
      undefined_behaviour_def)

lemma start_latches:
  assumes e: "error lp = NO_ERROR"
    and r: "r = launchpad_start lp w k"
    and s0: "st0 = fst (proc_dup k)" and s1: "st1 = fst (channel_create k)"
    and s2: "st2 = fst (prepare_start lp (undefined_behaviour (snd (lp_proc lp)) w)
                          (fst (snd (channel_create k))) (prepare k))"
    and s3: "st3 = process_start k"
  shows "(st0 < 0 \<longrightarrow> fst r = st0 \<and> error (fst (snd r)) = st0)
       \<and> (0 \<le> st0 \<and> st1 \<noteq> NO_ERROR \<longrightarrow> fst r = st1 \<and> error (fst (snd r)) = st1)
       \<and> (0 \<le> st0 \<and> st1 = NO_ERROR \<and> st2 \<noteq> NO_ERROR \<longrightarrow>
            fst r = st2 \<and> error (fst (snd r)) = st2)
       \<and> (0 \<le> st0 \<and> st1 = NO_ERROR \<and> st2 = NO_ERROR \<and> st3 \<noteq> NO_ERROR \<longrightarrow>
            fst r = st3 \<and> error (fst (snd r)) = st3)
       \<and> (0 \<le> st0 \<and> st1 = NO_ERROR \<and> st2 = NO_ERROR \<and> st3 = NO_ERROR \<longrightarrow>
            fst r = snd (proc_dup k) \<and> error (fst (snd r)) = NO_ERROR)"
proof -
  from e have e0: "error lp = 0" by (simp add: NO_ERROR_def)
  obtain ph out where a: "lp_proc lp = (ph, out)" by (cases "lp_proc lp")
  obtain proc where b: "proc_dup k = (st0, proc)" using s0 by (cases "proc_dup k") simp
  obtain c0 c1 where c: "channel_create k = (st1, c0, c1)"
    using s1 by (cases "channel_create k") auto
  obtain lp1 w1 thr sp where
    p: "prepare_start lp (undefined_behaviour out w) c0 (prepare k) = (st2, lp1, w1, thr, sp)"
    using s2 a c by (cases "prepare_start lp (undefined_behaviour out w) c0 (prepare k)") simp
  have d: "error lp1 = st2 \<or> (error lp1 = 0 \<and> st2 \<noteq> 0)"
    using prepare_start_status[OF e0, of "undefined_behaviour out w" c0 "prepare k"] p by simp
  have c1: "st0 < 0 \<Longrightarrow> fst r = st0 \<and> error (fst (snd r)) = st0"
    using e0 by (simp add: r launchpad_start_def a b lp_error_def Let_def NO_ERROR_def)
  have c2: "0 \<le> st0 \<Longrightarrow> st1 \<noteq> NO_ERROR \<Longrightarrow> fst r = st1 \<and> error (fst (snd r)) = st1"
    using e0 by (simp add: r launchpad_start_def a b c lp_error_def Let_def NO_ERROR_def)
  have c3: "0 \<le> st0 \<Longrightarrow> st1 = NO_ERROR \<Longrightarrow> st2 \<noteq> NO_ERROR \<Longrightarrow>
              fst r = st2 \<and> error (fst (snd r)) = st2"
    using e0 d lp_error_latched[of st2 lp1 "''start: prepare_start() failed''"]
    by (auto simp: r launchpad_start_def a b c p NO_ERROR_def)
  have c4: "0 \<le> st0 \<Longrightarrow> st1 = NO_ERROR \<Longrightarrow> st2 = NO_ERROR \<Longrightarrow> st3 \<noteq> NO_ERROR \<Longrightarrow>
              fst r = st3 \<and> error (fst (snd r)) = st3"
    using e0 d s3
      lp_error_latched[of "process_start k" lp1 "''start: mx_process_start() failed''"]
    by (auto simp: r launchpad_start_def a b c p Let_def NO_ERROR_def)
  have c5: "0 \<le> st0 \<Longrightarrow> st1 = NO_ERROR \<Longrightarrow> st2 = NO_ERROR \<Longrightarrow> st3 = NO_ERROR \<Longrightarrow>
              fst r = snd (proc_dup k) \<and> error (fst (snd r)) = NO_ERROR"
    using e0 d s3
    by (auto simp: r launchpad_start_def a b c p Let_def NO_ERROR_def)
  from c1 c2 c3 c4 c5 show ?thesis by blast
qed

lemma assign_same: "deref s p = Some lp \<Longrightarrow> assign s p lp = s"
  by (cases p) (simp_all add: deref_def assign_def fun_upd_idem)

lemma go_in_error:
  assumes "deref s p = Some lp" and "error lp < 0"
  shows "launchpad_go s w p want_proc k
           = (error lp, None, Some (errmsg lp), launchpad_destroy s w p)"
proof -
  have e: "error lp \<noteq> 0" using assms(2) by simp
  show ?thesis
    using assms
    by (simp add: launchpad_go_def start_stuck[OF e] assign_same split_beta)
qed

lemma use_loader_service_ok:
  "error lp = NO_ERROR \<Longrightarrow>
     launchpad_use_loader_service lp w svc = (loader_svc lp, lp\<lparr>loader_svc := svc\<rparr>, w)"
  by (simp add: launchpad_use_loader_service_def NO_ERROR_def)

text \<open>
  C2 (as the code has it). Every setup call leaves a context that is in error exactly as it
  is. A call whose C return type is \<^verbatim>\<open>mx_status_t\<close> returns the context's error as it
  stands after the call: a failure it reports is the latched error, and on a context in
  error it reports the first error again. \<^verbatim>\<open>launchpad_start\<close> and
  \<^verbatim>\<open>launchpad_use_loader_service\<close> return the error whenever the context is in error
  after the call. On a context that is not in error, \<^verbatim>\<open>launchpad_start\<close> returns and
  latches the status of its first step that fails (the copy of the process handle, the
  channel, \<^verbatim>\<open>prepare_start\<close>, \<^verbatim>\<open>mx_process_start\<close>), and returns the copy of the
  process handle with no error latched when every step succeeds;
  \<^verbatim>\<open>launchpad_use_loader_service\<close> stores the new handle and returns the previous one.
  \<^verbatim>\<open>launchpad_go\<close> on a context whose error is negative returns that error, stores no
  process handle, and destroys the context as \<^verbatim>\<open>launchpad_destroy\<close> does.
  \<^verbatim>\<open>launchpad_set_stack_size\<close> and \<^verbatim>\<open>launchpad_send_loader_message\<close> return the
  old size and the old flag, and \<^verbatim>\<open>launchpad_abort\<close> returns nothing.
\<close>

theorem sticky_error:
  "(error lp \<noteq> NO_ERROR \<longrightarrow> fst (snd (launchpad_call c lp w)) = lp)
   \<and> (returns_status c \<longrightarrow>
        fst (launchpad_call c lp w) = Status (error (fst (snd (launchpad_call c lp w)))))
   \<and> (returns_handle c \<and> error (fst (snd (launchpad_call c lp w))) \<noteq> NO_ERROR \<longrightarrow>
        fst (launchpad_call c lp w) = Status (error (fst (snd (launchpad_call c lp w)))))
   \<and> (error lp = NO_ERROR \<longrightarrow>
        (let st0 = fst (proc_dup k);
             st1 = fst (channel_create k);
             st2 = fst (prepare_start lp (undefined_behaviour (snd (lp_proc lp)) w)
                          (fst (snd (channel_create k))) (prepare k));
             st3 = process_start k;
             r = launchpad_start lp w k
         in (st0 < 0 \<longrightarrow> fst r = st0 \<and> error (fst (snd r)) = st0)
            \<and> (0 \<le> st0 \<and> st1 \<noteq> NO_ERROR \<longrightarrow> fst r = st1 \<and> error (fst (snd r)) = st1)
            \<and> (0 \<le> st0 \<and> st1 = NO_ERROR \<and> st2 \<noteq> NO_ERROR \<longrightarrow>
                 fst r = st2 \<and> error (fst (snd r)) = st2)
            \<and> (0 \<le> st0 \<and> st1 = NO_ERROR \<and> st2 = NO_ERROR \<and> st3 \<noteq> NO_ERROR \<longrightarrow>
                 fst r = st3 \<and> error (fst (snd r)) = st3)
            \<and> (0 \<le> st0 \<and> st1 = NO_ERROR \<and> st2 = NO_ERROR \<and> st3 = NO_ERROR \<longrightarrow>
                 fst r = snd (proc_dup k) \<and> error (fst (snd r)) = NO_ERROR)))
   \<and> (error lp = NO_ERROR \<longrightarrow>
        launchpad_use_loader_service lp w svc = (loader_svc lp, lp\<lparr>loader_svc := svc\<rparr>, w))
   \<and> (deref s p = Some lp \<and> error lp < 0 \<longrightarrow>
        launchpad_go s w p want_proc k
          = (error lp, None, Some (errmsg lp), launchpad_destroy s w p))
   \<and> fst (launchpad_call (Set_stack_size n) lp w) = Size (stack_size lp)
   \<and> fst (launchpad_call (Send_loader_message b) lp w) = Flag (loader_message lp)
   \<and> fst (launchpad_call (Abort e msg) lp w) = No_value"
proof (intro conjI impI)
  assume "error lp \<noteq> NO_ERROR"
  then show "fst (snd (launchpad_call c lp w)) = lp"
    using call_stuck[of lp c w] by (simp add: NO_ERROR_def)
next
  assume "returns_status c"
  then show "fst (launchpad_call c lp w) = Status (error (fst (snd (launchpad_call c lp w))))"
    by (cases c)
      (simp_all add: split_beta set_args_status set_environ_status add_handle_status
        add_handles_status add_pipe_status elf_load_basic_status elf_load_extra_status
        elf_load_status add_vdso_vmo_status load_vdso_status elf_load_with_vdso_status
        start_injected_status)
next
  assume "returns_handle c \<and> error (fst (snd (launchpad_call c lp w))) \<noteq> NO_ERROR"
  then show "fst (launchpad_call c lp w) = Status (error (fst (snd (launchpad_call c lp w))))"
    by (cases c)
      (simp_all add: split_beta NO_ERROR_def start_status use_loader_service_status)
next
  assume e: "error lp = NO_ERROR"
  show "let st0 = fst (proc_dup k);
            st1 = fst (channel_create k);
            st2 = fst (prepare_start lp (undefined_behaviour (snd (lp_proc lp)) w)
                         (fst (snd (channel_create k))) (prepare k));
            st3 = process_start k;
            r = launchpad_start lp w k
        in (st0 < 0 \<longrightarrow> fst r = st0 \<and> error (fst (snd r)) = st0)
           \<and> (0 \<le> st0 \<and> st1 \<noteq> NO_ERROR \<longrightarrow> fst r = st1 \<and> error (fst (snd r)) = st1)
           \<and> (0 \<le> st0 \<and> st1 = NO_ERROR \<and> st2 \<noteq> NO_ERROR \<longrightarrow>
                fst r = st2 \<and> error (fst (snd r)) = st2)
           \<and> (0 \<le> st0 \<and> st1 = NO_ERROR \<and> st2 = NO_ERROR \<and> st3 \<noteq> NO_ERROR \<longrightarrow>
                fst r = st3 \<and> error (fst (snd r)) = st3)
           \<and> (0 \<le> st0 \<and> st1 = NO_ERROR \<and> st2 = NO_ERROR \<and> st3 = NO_ERROR \<longrightarrow>
                fst r = snd (proc_dup k) \<and> error (fst (snd r)) = NO_ERROR)"
    unfolding Let_def by (rule start_latches[OF e refl refl refl refl refl])
next
  assume "error lp = NO_ERROR"
  then show "launchpad_use_loader_service lp w svc
               = (loader_svc lp, lp\<lparr>loader_svc := svc\<rparr>, w)"
    by (rule use_loader_service_ok)
next
  assume "deref s p = Some lp \<and> error lp < 0"
  then show "launchpad_go s w p want_proc k
               = (error lp, None, Some (errmsg lp), launchpad_destroy s w p)"
    by (simp add: go_in_error)
next
  show "fst (launchpad_call (Set_stack_size n) lp w) = Size (stack_size lp)"
    by (simp add: launchpad_set_stack_size_def Let_def)
  show "fst (launchpad_call (Send_loader_message b) lp w) = Flag (loader_message lp)"
    by (simp add: launchpad_send_loader_message_def)
  show "fst (launchpad_call (Abort e msg) lp w) = No_value"
    by simp
qed

text \<open>
  Adding the invalid handle to the sample context latches \<^verbatim>\<open>ERR_BAD_HANDLE\<close>; the
  \<^verbatim>\<open>launchpad_set_args\<close> and the \<^verbatim>\<open>launchpad_start\<close> that follow return it and
  change nothing, and \<^verbatim>\<open>launchpad_go\<close> returns it and destroys the context. On the
  sample context, where no image was loaded, \<^verbatim>\<open>launchpad_start\<close> returns and latches
  the \<^verbatim>\<open>ERR_BAD_STATE\<close> of \<^verbatim>\<open>prepare_start\<close>; when the process handle cannot be
  copied it returns and latches the status of \<^verbatim>\<open>mx_handle_duplicate\<close>; and
  \<^verbatim>\<open>launchpad_use_loader_service\<close> returns the previous handle, which is the invalid
  one.
\<close>

theorem sticky_error_witness:
  "launchpad_call (Add_handle MX_HANDLE_INVALID 1 None None :: int call) sample_launchpad world0
     = (Status ERR_BAD_HANDLE, sample_failed, world0)
   \<and> launchpad_call (Set_args 1 [''a''] [''a''] True :: int call) sample_failed world0
       = (Status ERR_BAD_HANDLE, sample_failed, world0)
   \<and> fst (launchpad_call (Start launch_ok :: int call) sample_failed world0)
       = Status ERR_BAD_HANDLE
   \<and> fst (snd (launchpad_call (Start launch_ok :: int call) sample_failed world0))
       = sample_failed
   \<and> fst (launchpad_start sample_launchpad world0 launch_ok) = ERR_BAD_STATE
   \<and> error (fst (snd (launchpad_start sample_launchpad world0 launch_ok))) = ERR_BAD_STATE
   \<and> fst (launchpad_start sample_launchpad world0 (launch_ok\<lparr>proc_dup := (ERR_NO_MEMORY, 0)\<rparr>))
       = ERR_NO_MEMORY
   \<and> error (fst (snd (launchpad_start sample_launchpad world0
                        (launch_ok\<lparr>proc_dup := (ERR_NO_MEMORY, 0)\<rparr>)))) = ERR_NO_MEMORY
   \<and> launchpad_use_loader_service sample_launchpad world0 30
       = (MX_HANDLE_INVALID, sample_launchpad\<lparr>loader_svc := 30\<rparr>, world0)
   \<and> launchpad_go (assign store0 (Heap 0) sample_failed) world0 (Heap 0) True launch_ok
       = (ERR_BAD_HANDLE, None, Some ''added invalid handle'',
          launchpad_destroy (assign store0 (Heap 0) sample_failed) world0 (Heap 0))"
  using sticky_error[where c = "Add_handle MX_HANDLE_INVALID 1 None None :: int call"
      and lp = sample_launchpad and w = world0 and k = launch_ok and svc = 30
      and s = store0 and p = Invalid_launchpad]
    sticky_error[where c = "Set_args 1 [''a''] [''a''] True :: int call"
      and lp = sample_failed and w = world0 and k = launch_ok
      and s = "assign store0 (Heap 0) sample_failed" and p = "Heap 0" and want_proc = True]
    sticky_error[where c = "Start launch_ok :: int call"
      and lp = sample_failed and w = world0 and k = launch_ok
      and s = store0 and p = Invalid_launchpad]
    sticky_error[where c = "Add_handle MX_HANDLE_INVALID 1 None None :: int call"
      and lp = sample_launchpad and w = world0
      and k = "launch_ok\<lparr>proc_dup := (ERR_NO_MEMORY, 0)\<rparr>"
      and s = store0 and p = Invalid_launchpad]
  by (simp add: launchpad_add_handle_def launchpad_set_args_def lp_error_def
      prepare_start_def lp_proc_def load_cell_def deref_def assign_def store0_def
      sample_failed_def launch_ok_def answers_ok_def
      sample_launchpad_def new_launchpad_def zeroed_launchpad_def Let_def status_defs
      MX_HANDLE_INVALID_def split_beta)

text \<open>
  The claim as stated fails: on a context in error, \<^verbatim>\<open>launchpad_set_stack_size\<close> returns
  the old stack size and \<^verbatim>\<open>launchpad_send_loader_message\<close> the old flag, not the error.
\<close>

theorem sticky_error_counterexample:
  "error (sample_launchpad\<lparr>error := ERR_BAD_HANDLE\<rparr>) = ERR_BAD_HANDLE
   \<and> launchpad_set_stack_size (sample_launchpad\<lparr>error := ERR_BAD_HANDLE\<rparr>) 8192
       = (262144, sample_launchpad\<lparr>error := ERR_BAD_HANDLE\<rparr>)
   \<and> launchpad_send_loader_message (sample_launchpad\<lparr>error := ERR_BAD_HANDLE\<rparr>) True
       = (False, sample_launchpad\<lparr>error := ERR_BAD_HANDLE\<rparr>)"
  by (simp add: launchpad_set_stack_size_def launchpad_send_loader_message_def
      sample_launchpad_def new_launchpad_def zeroed_launchpad_def Let_def status_defs
      MAGENTA_DEFAULT_STACK_SIZE_def)

subsection \<open>The static launchpad\<close>

lemma assign_static_same: "assign s Invalid_launchpad (static_lp s) = s"
  by (simp add: assign_def)

lemma invalid_launchpad_error: "error invalid_launchpad = ERR_NO_MEMORY"
  by (simp add: invalid_launchpad_def zeroed_launchpad_def)

lemma create_with_process_no_memory:
  assumes "static_lp s = invalid_launchpad"
  shows "launchpad_create_with_process s w proc vmar None r1 r2
           = (ERR_NO_MEMORY, Invalid_launchpad, s,
              fold mx_handle_close (filter (\<lambda>h. h \<noteq> MX_HANDLE_INVALID) [proc, vmar]) w)"
proof -
  have e: "error invalid_launchpad \<noteq> 0"
    by (simp add: invalid_launchpad_error ERR_NO_MEMORY_def)
  show ?thesis
    using assign_static_same[of s]
    by (simp add: launchpad_create_with_process_def assms add_handle_stuck[OF e]
        invalid_launchpad_error)
qed

lemma create_with_jobs_no_memory:
  assumes "static_lp s = invalid_launchpad"
  shows "launchpad_create_with_jobs s w job (st, proc, vmar) None r1 r2 r3
           = (ERR_NO_MEMORY, Invalid_launchpad, s,
              fold mx_handle_close (filter (\<lambda>h. h \<noteq> MX_HANDLE_INVALID) [proc, vmar, job]) w)"
proof -
  have e: "error invalid_launchpad \<noteq> 0"
    by (simp add: invalid_launchpad_error ERR_NO_MEMORY_def)
  show ?thesis
    using assign_static_same[of s]
    by (simp add: launchpad_create_with_jobs_def create_with_process_no_memory[OF assms]
        deref_def assms lp_error_stuck[OF e] add_handle_stuck[OF e] invalid_launchpad_error
        NO_ERROR_def)
qed

lemma go_no_memory:
  assumes "static_lp s = invalid_launchpad"
  shows "launchpad_go s w Invalid_launchpad want_proc k
           = (ERR_NO_MEMORY, None, Some (errmsg invalid_launchpad), s, w)"
proof -
  have e: "error invalid_launchpad \<noteq> 0"
    by (simp add: invalid_launchpad_error ERR_NO_MEMORY_def)
  show ?thesis
    using assign_static_same[of s]
    by (simp add: launchpad_go_def deref_def assms start_stuck[OF e] launchpad_destroy_def
        invalid_launchpad_error ERR_NO_MEMORY_def)
qed

text \<open>
  C10 (as the code has it). When \<^verbatim>\<open>calloc\<close> fails, \<^verbatim>\<open>launchpad_create_with_process\<close>
  and \<^verbatim>\<open>launchpad_create_with_jobs\<close> return \<^verbatim>\<open>ERR_NO_MEMORY\<close> and the address of the
  static launchpad, having closed the valid handles they were given. Every setup call on
  that context leaves the store as it is and closes the handles it takes from its caller;
  if its return type is a status or a handle it returns \<^verbatim>\<open>ERR_NO_MEMORY\<close>.
  \<^verbatim>\<open>launchpad_destroy\<close> on it changes nothing and closes nothing, and so does the destroy
  at the end of \<^verbatim>\<open>launchpad_go\<close>.
\<close>

theorem invalid_launchpad_safe:
  assumes "static_lp s = invalid_launchpad"
  shows "launchpad_create_with_process s w proc vmar None r1 r2
           = (ERR_NO_MEMORY, Invalid_launchpad, s,
              fold mx_handle_close (filter (\<lambda>h. h \<noteq> MX_HANDLE_INVALID) [proc, vmar]) w)
         \<and> launchpad_create_with_jobs s w job (st, proc, vmar) None r1 r2 r3
           = (ERR_NO_MEMORY, Invalid_launchpad, s,
              fold mx_handle_close (filter (\<lambda>h. h \<noteq> MX_HANDLE_INVALID) [proc, vmar, job]) w)
         \<and> fst (snd (call_on c Invalid_launchpad s w)) = s
         \<and> closed_handles (snd (snd (call_on c Invalid_launchpad s w)))
             = closed_handles w @ handles_passed c
         \<and> (returns_status c \<or> returns_handle c \<longrightarrow>
               fst (call_on c Invalid_launchpad s w) = Status ERR_NO_MEMORY)
         \<and> launchpad_destroy s w Invalid_launchpad = (s, w)
         \<and> launchpad_go s w Invalid_launchpad want_proc k
             = (ERR_NO_MEMORY, None, Some (errmsg invalid_launchpad), s, w)"
proof -
  have e: "error invalid_launchpad \<noteq> 0"
    by (simp add: invalid_launchpad_error ERR_NO_MEMORY_def)
  have c: "call_on c Invalid_launchpad s w
             = (fst (launchpad_call c invalid_launchpad w),
                assign s Invalid_launchpad (fst (snd (launchpad_call c invalid_launchpad w))),
                snd (snd (launchpad_call c invalid_launchpad w)))"
    by (simp add: call_on_def deref_def assms split_beta)
  show ?thesis
    using call_stuck[OF e, of c w] assign_static_same[of s]
    by (simp add: c create_with_process_no_memory[OF assms]
        create_with_jobs_no_memory[OF assms] go_no_memory[OF assms] launchpad_destroy_def
        assms invalid_launchpad_error)
qed

text \<open>
  The store at program start. Creation with the handles 3 and 4 closes both; adding handle
  5 to the context that comes back closes it and returns \<^verbatim>\<open>ERR_NO_MEMORY\<close>.
\<close>

theorem invalid_launchpad_safe_witness:
  "static_lp store0 = invalid_launchpad
   \<and> fst (launchpad_create_with_process store0 world0 3 4 None (None, None) (None, None))
       = ERR_NO_MEMORY
   \<and> fst (snd (launchpad_create_with_process store0 world0 3 4 None (None, None) (None, None)))
       = Invalid_launchpad
   \<and> closed_handles (snd (snd (snd
         (launchpad_create_with_process store0 world0 3 4 None (None, None) (None, None)))))
       = [3, 4]
   \<and> fst (call_on (Add_handle 5 1 None None :: int call) Invalid_launchpad store0 world0)
       = Status ERR_NO_MEMORY
   \<and> closed_handles (snd (snd
         (call_on (Add_handle 5 1 None None :: int call) Invalid_launchpad store0 world0)))
       = [5]
   \<and> launchpad_destroy store0 world0 Invalid_launchpad = (store0, world0)"
  using invalid_launchpad_safe[where s = store0 and w = world0 and proc = 3 and vmar = 4
      and ?r1.0 = "(None, None)" and ?r2.0 = "(None, None)"
      and c = "Add_handle 5 1 None None :: int call"]
  by (simp add: store0_def world0_def closed_fold_close mx_handle_close_def
      MX_HANDLE_INVALID_def)

text \<open>
  The claim as stated fails for the calls that do not return a status. On the static
  launchpad \<^verbatim>\<open>launchpad_send_loader_message\<close> returns the old flag and
  \<^verbatim>\<open>launchpad_get_entry_address\<close> returns \<^verbatim>\<open>ERR_BAD_STATE\<close>, not
  \<^verbatim>\<open>ERR_NO_MEMORY\<close>; and \<^verbatim>\<open>launchpad_get_process_handle\<close> reads slot 0 of a table
  that is NULL.
\<close>

theorem invalid_launchpad_counterexample:
  "fst (call_on (Send_loader_message True :: int call) Invalid_launchpad store0 world0)
     = Flag False
   \<and> launchpad_get_entry_address invalid_launchpad = (ERR_BAD_STATE, None)
   \<and> launchpad_get_process_handle invalid_launchpad = (MX_HANDLE_INVALID, True)"
  by (simp add: call_on_def deref_def store0_def launchpad_send_loader_message_def
      launchpad_get_entry_address_def launchpad_get_process_handle_def lp_proc_def
      load_cell_def invalid_launchpad_def zeroed_launchpad_def ERR_NO_MEMORY_def)

end
